theory Spec2Isabelle
  imports Main "HOL-Library.Word"
begin

unbundle bit_operations_syntax

section \<open>Result codes and edit-action results\<close>

text \<open>
  The handlers of \<^verbatim>\<open>HTMLEditorDeleteHandler.cpp\<close> report through \<^verbatim>\<open>nsresult\<close> codes and
  through \<^verbatim>\<open>Result<T, nsresult>\<close>.  A \<^verbatim>\<open>Result<T, nsresult>\<close> is the sum
  \<open>nsresult + T\<close>, with \<open>Inl\<close> for \<^verbatim>\<open>Err(...)\<close>.
\<close>

datatype nsresult =
    NS_OK
  | NS_SUCCESS_DOM_NO_OPERATION
  | NS_ERROR_FAILURE
  | NS_ERROR_UNEXPECTED
  | NS_ERROR_INVALID_ARG
  | NS_ERROR_EDITOR_DESTROYED
  | NS_ERROR_EDITOR_UNEXPECTED_DOM_TREE
  | NS_ERROR_EDITOR_NO_EDITABLE_RANGE

definition NS_FAILED :: "nsresult \<Rightarrow> bool" where
  "NS_FAILED rv = (rv \<noteq> NS_OK \<and> rv \<noteq> NS_SUCCESS_DOM_NO_OPERATION)"

definition NS_SUCCEEDED :: "nsresult \<Rightarrow> bool" where
  "NS_SUCCEEDED rv = (\<not> NS_FAILED rv)"

text \<open>
  Modelled from the spec: the class \<^verbatim>\<open>EditActionResult\<close> is declared outside this file; the
  spec gives the result of a run as the pair of flags \<^verbatim>\<open>{handled, canceled}\<close>.  The file
  uses its factories \<^verbatim>\<open>IgnoredResult\<close>, \<^verbatim>\<open>HandledResult\<close>, \<^verbatim>\<open>CanceledResult\<close>, the
  setters \<^verbatim>\<open>MarkAsCanceled\<close>, \<^verbatim>\<open>MarkAsHandled\<close> and the operator \<^verbatim>\<open>|=\<close>.
\<close>

record EditActionResult =
  mCanceled :: bool
  mHandled :: bool

definition IgnoredResult :: EditActionResult where
  "IgnoredResult = \<lparr>mCanceled = False, mHandled = False\<rparr>"

definition HandledResult :: EditActionResult where
  "HandledResult = \<lparr>mCanceled = False, mHandled = True\<rparr>"

definition CanceledResult :: EditActionResult where
  "CanceledResult = \<lparr>mCanceled = True, mHandled = True\<rparr>"



definition Ignored :: "EditActionResult \<Rightarrow> bool" where
  "Ignored r = (\<not> mCanceled r \<and> \<not> mHandled r)"


datatype EDirection =
  eNone | eNext | ePrevious | eNextWord | ePreviousWord | eToBeginningOfLine | eToEndOfLine

datatype EStripWrappers = eStrip | eNoStrip

datatype SelectionWasCollapsed = WasCollapsed_Yes | WasCollapsed_No

section \<open>The document tree\<close>

text \<open>
  A content node carries its identity (the pointer of the C++ object), its kind and its
  children in document order.  Text is kept as UTF-16 code units, as \<^verbatim>\<open>nsTextFragment\<close>
  holds it.  Two references denote the same node when the identities agree.
\<close>

datatype nodeKind =
    Element string
  | Text "16 word list"
  | CharacterData

datatype nsIContent =
  Content (nodeId: nat) (kind: nodeKind) (childNodes: "nsIContent list")

definition IsElement :: "nsIContent \<Rightarrow> bool" where
  "IsElement c = (case kind c of Element t \<Rightarrow> True | _ \<Rightarrow> False)"

definition IsText :: "nsIContent \<Rightarrow> bool" where
  "IsText c = (case kind c of Text u \<Rightarrow> True | _ \<Rightarrow> False)"

definition IsHTMLElement :: "nsIContent \<Rightarrow> string \<Rightarrow> bool" where
  "IsHTMLElement c t = (kind c = Element t)"

definition IsAnyOfHTMLElements :: "nsIContent \<Rightarrow> string list \<Rightarrow> bool" where
  "IsAnyOfHTMLElements c ts = (case kind c of Element t \<Rightarrow> t \<in> set ts | _ \<Rightarrow> False)"

text \<open>
  Modelled from the spec: the predicates of \<^verbatim>\<open>HTMLEditUtils\<close> on element names are defined
  outside this file.  The spec's glossary gives the table-structural nodes as table, row,
  cell and caption elements; \<^verbatim>\<open>IsAnyTableElementButNotTable\<close> is the same set without the
  table element itself, as its name says.  List elements and list items are the HTML ones.
\<close>

definition IsAnyTableElementButNotTable :: "nsIContent \<Rightarrow> bool" where
  "IsAnyTableElementButNotTable c =
     IsAnyOfHTMLElements c [''tr'', ''td'', ''th'', ''thead'', ''tfoot'', ''tbody'', ''caption'']"

definition IsAnyTableElement :: "nsIContent \<Rightarrow> bool" where
  "IsAnyTableElement c = (IsHTMLElement c ''table'' \<or> IsAnyTableElementButNotTable c)"

definition IsAnyListElement :: "nsIContent \<Rightarrow> bool" where
  "IsAnyListElement c = IsAnyOfHTMLElements c [''ul'', ''ol'', ''dl'']"

definition IsListItem :: "nsIContent \<Rightarrow> bool" where
  "IsListItem c = IsAnyOfHTMLElements c [''li'', ''dd'', ''dt'']"

fun ContentIds :: "nsIContent \<Rightarrow> nat list" where
  "ContentIds (Content i k cs) = i # concat (map ContentIds cs)"

definition ForestIds :: "nsIContent list \<Rightarrow> nat list" where
  "ForestIds cs = concat (map ContentIds cs)"

section \<open>Deleting content while keeping the table structure\<close>

text \<open>
  \<^verbatim>\<open>AutoBlockElementsJoiner::DeleteContentButKeepTableStructure\<close>.  The transaction
  \<^verbatim>\<open>DeleteNodeWithTransaction\<close> belongs to the editor core; its result code for a node is
  the parameter \<open>del\<close>, and a node is removed from its parent exactly when the code is a
  success.  The function returns its \<^verbatim>\<open>nsresult\<close> and what is left of the node in the
  child list of its parent: nothing when the node was removed, else the node with the
  children that remain.  The loop over the snapshot \<^verbatim>\<open>childList\<close> stops at the first
  failure and leaves the later children untouched.
\<close>

fun DeleteContentButKeepTableStructure ::
      "(nsIContent \<Rightarrow> nsresult) \<Rightarrow> nsIContent \<Rightarrow> nsresult \<times> nsIContent list"
  and DeleteChildList ::
      "(nsIContent \<Rightarrow> nsresult) \<Rightarrow> nsIContent list \<Rightarrow> nsresult \<times> nsIContent list"
where
  "DeleteContentButKeepTableStructure del (Content i k cs) =
     (if \<not> IsAnyTableElementButNotTable (Content i k cs) then
        (let rv = del (Content i k cs)
         in (rv, if NS_FAILED rv then [Content i k cs] else []))
      else
        (case DeleteChildList del cs of
           (rv, cs') \<Rightarrow> (rv, [Content i k cs'])))"
| "DeleteChildList del [] = (NS_OK, [])"
| "DeleteChildList del (c # cs) =
     (case DeleteContentButKeepTableStructure del c of
        (rv, r) \<Rightarrow>
          if NS_FAILED rv then (rv, r @ cs)
          else (case DeleteChildList del cs of (rv', rs) \<Rightarrow> (rv', r @ rs)))"

text \<open>
  The table skeleton below a node: the node itself when it is a row, row group, cell or
  caption, and below it the skeleton of each child.
\<close>

fun TableSkeleton :: "nsIContent \<Rightarrow> nat list" where
  "TableSkeleton (Content i k cs) =
     (if IsAnyTableElementButNotTable (Content i k cs)
      then i # concat (map TableSkeleton cs) else [])"

definition tableInRange :: nsIContent where
  "tableInRange =
     Content 1 (Element ''table'')
       [Content 2 (Element ''tbody'')
          [Content 3 (Element ''tr'')
             [Content 4 (Element ''td'') [Content 5 (Text [0x61, 0x62]) []]]]]"

definition rowInRange :: nsIContent where
  "rowInRange =
     Content 3 (Element ''tr'')
       [Content 4 (Element ''td'') [Content 5 (Text [0x61, 0x62]) []],
        Content 6 (Element ''td'')
          [Content 7 (Element ''b'') [Content 8 (Text [0x63]) []]]]"

section \<open>Positions, ranges and updates of the document\<close>

record EditorDOMPoint =
  container :: nat
  offset :: nat

record nsRange =
  startRef :: EditorDOMPoint
  endRef :: EditorDOMPoint

definition Collapsed :: "nsRange \<Rightarrow> bool" where
  "Collapsed r = (startRef r = endRef r)"

text \<open>
  A node is reached through its identity.  \<open>ApplyToContent i f\<close> runs \<open>f\<close> on the node
  \<open>i\<close> below a node and puts what \<open>f\<close> leaves of it in its place; the answer is \<open>None\<close>
  when the node is not there (it was removed before).  The root of the document is never
  the target.
\<close>

fun ApplyToContent ::
      "nat \<Rightarrow> (nsIContent \<Rightarrow> 'r \<times> nsIContent list) \<Rightarrow> nsIContent
         \<Rightarrow> ('r \<times> nsIContent list) option"
  and ApplyToChildren ::
      "nat \<Rightarrow> (nsIContent \<Rightarrow> 'r \<times> nsIContent list) \<Rightarrow> nsIContent list
         \<Rightarrow> ('r \<times> nsIContent list) option"
where
  "ApplyToContent i f (Content j k cs) =
     (if i = j then Some (f (Content j k cs))
      else (case ApplyToChildren i f cs of
              None \<Rightarrow> None
            | Some (r, cs') \<Rightarrow> Some (r, [Content j k cs'])))"
| "ApplyToChildren i f [] = None"
| "ApplyToChildren i f (c # cs) =
     (case ApplyToContent i f c of
        Some (r, cs') \<Rightarrow> Some (r, cs' @ cs)
      | None \<Rightarrow>
         (case ApplyToChildren i f cs of
            None \<Rightarrow> None
          | Some (r, cs') \<Rightarrow> Some (r, c # cs')))"

definition UpdateDocument ::
    "nat \<Rightarrow> (nsIContent \<Rightarrow> nsresult \<times> nsIContent list) \<Rightarrow> nsIContent
       \<Rightarrow> nsresult \<times> nsIContent" where
  "UpdateDocument i f doc =
     (case ApplyToChildren i f (childNodes doc) of
        None \<Rightarrow> (NS_ERROR_FAILURE, doc)
      | Some (rv, cs') \<Rightarrow> (rv, Content (nodeId doc) (kind doc) cs'))"

fun FindContent :: "nat \<Rightarrow> nsIContent \<Rightarrow> nsIContent option"
  and FindInChildren :: "nat \<Rightarrow> nsIContent list \<Rightarrow> nsIContent option"
where
  "FindContent i (Content j k cs) =
     (if i = j then Some (Content j k cs) else FindInChildren i cs)"
| "FindInChildren i [] = None"
| "FindInChildren i (c # cs) =
     (case FindContent i c of Some n \<Rightarrow> Some n | None \<Rightarrow> FindInChildren i cs)"

fun GetParentNode :: "nat \<Rightarrow> nsIContent \<Rightarrow> nsIContent option"
  and GetParentAmong :: "nat \<Rightarrow> nsIContent list \<Rightarrow> nsIContent option"
where
  "GetParentNode i (Content j k cs) =
     (if i \<in> set (map nodeId cs) then Some (Content j k cs) else GetParentAmong i cs)"
| "GetParentAmong i [] = None"
| "GetParentAmong i (c # cs) =
     (case GetParentNode i c of Some n \<Rightarrow> Some n | None \<Rightarrow> GetParentAmong i cs)"

section \<open>The editor and the joiner of two blocks\<close>

datatype InterlinePosition = EndOfLine | StartOfLine | Undefined

text \<open>
  The part of the editor the handlers read and write: the document, the ranges of the
  selection with its interline position, the flags of the top-level edit sub-action, and
  whether the editor was destroyed by a side effect.
\<close>

record HTMLEditor =
  document :: nsIContent
  selection :: "nsRange list"
  interlinePosition :: InterlinePosition
  mDidDeleteSelection :: bool
  mDidDeleteNonCollapsedRange :: bool
  mDidExplicitlySetInterLine :: bool
  destroyed :: bool

text \<open>
  \<^verbatim>\<open>AutoRangeArray\<close>: the ranges to delete.  The handlers require it non-empty, so the
  first range is a field of its own.
\<close>

record AutoRangeArray =
  FirstRangeRef :: nsRange
  OtherRanges :: "nsRange list"

definition Ranges :: "AutoRangeArray \<Rightarrow> nsRange list" where
  "Ranges a = FirstRangeRef a # OtherRanges a"

text \<open>The members of \<^verbatim>\<open>AutoInclusiveAncestorBlockElementsJoiner\<close>.\<close>

record AutoInclusiveAncestorBlockElementsJoiner =
  mInclusiveDescendantOfLeftBlockElement :: nat
  mInclusiveDescendantOfRightBlockElement :: nat
  mLeftBlockElement :: "nsIContent option"
  mRightBlockElement :: "nsIContent option"
  mNewListElementTagNameOfRightListElement :: "string option"
  mPointContainingTheOtherBlockElement :: "EditorDOMPoint option"
  mPrecedingInvisibleBRElement :: "nsIContent option"
  mCanJoinBlocks :: bool
  mFallbackToDeleteLeafContent :: bool

definition NewJoiner :: "nat \<Rightarrow> nat \<Rightarrow> AutoInclusiveAncestorBlockElementsJoiner" where
  "NewJoiner aInclusiveDescendantOfLeftBlockElement aInclusiveDescendantOfRightBlockElement =
     \<lparr>mInclusiveDescendantOfLeftBlockElement = aInclusiveDescendantOfLeftBlockElement,
      mInclusiveDescendantOfRightBlockElement = aInclusiveDescendantOfRightBlockElement,
      mLeftBlockElement = None,
      mRightBlockElement = None,
      mNewListElementTagNameOfRightListElement = None,
      mPointContainingTheOtherBlockElement = None,
      mPrecedingInvisibleBRElement = None,
      mCanJoinBlocks = False,
      mFallbackToDeleteLeafContent = False\<rparr>"

section \<open>Collaborators of the range deletion\<close>

text \<open>
  The services below are implemented outside this file and are parameters of the model:
  the layout queries and the ancestor search of \<^verbatim>\<open>HTMLEditUtils\<close>, the scanner's search
  for a preceding invisible line break, the subtree iterator over a range, the transactions of the
  editor core (each gives its result code; the node or text is removed exactly on
  success), the range updater that moves a live range along with a change of the
  document, and the white-space keeper's three merges.  The clean-up
  \<^verbatim>\<open>DeleteUnnecessaryNodesAndCollapseSelection\<close> that ends a range deletion is a function of
  this file; the deletion of ranges only passes its result on, so it is a parameter too.
\<close>

record Collaborators =
  IsInVisibleTextFrames :: "nsIContent \<Rightarrow> bool"
  IsEmptyNode_TreatSingleBRElementAsVisible :: "nsIContent \<Rightarrow> bool"
  IsInvisibleBRElement :: "nsIContent \<Rightarrow> bool"
  ClosestEditableBlockElementExceptHRElement :: "nsIContent \<Rightarrow> nat \<Rightarrow> nsIContent option"
  GetPrecedingBRElementUnlessVisibleContentFound ::
    "nsIContent \<Rightarrow> EditorDOMPoint \<Rightarrow> nsIContent option"
  CanMoveOrDeleteSomethingInHardLine :: "nsIContent \<Rightarrow> EditorDOMPoint \<Rightarrow> nsresult + bool"
  CanMoveChildren :: "nsIContent \<Rightarrow> nsIContent \<Rightarrow> nsIContent \<Rightarrow> nsresult + bool"
  SubtreeIterator :: "nsIContent \<Rightarrow> nsRange \<Rightarrow> nsresult + nsIContent list"
  DeleteNodeWithTransaction :: "nsIContent \<Rightarrow> nsresult"
  DeleteTextWithTransaction :: "nsIContent \<Rightarrow> nat \<Rightarrow> nat \<Rightarrow> nsresult"
  RangeUpdater :: "nsIContent \<Rightarrow> nsIContent \<Rightarrow> nsRange \<Rightarrow> nsRange"
  MergeFirstLineOfRightBlockElementIntoDescendantLeftBlockElement ::
    "AutoInclusiveAncestorBlockElementsJoiner \<Rightarrow> HTMLEditor
       \<Rightarrow> (nsresult + EditActionResult) \<times> HTMLEditor"
  MergeFirstLineOfRightBlockElementIntoAncestorLeftBlockElement ::
    "AutoInclusiveAncestorBlockElementsJoiner \<Rightarrow> HTMLEditor
       \<Rightarrow> (nsresult + EditActionResult) \<times> HTMLEditor"
  MergeFirstLineOfRightBlockElementIntoLeftBlockElement ::
    "AutoInclusiveAncestorBlockElementsJoiner \<Rightarrow> HTMLEditor
       \<Rightarrow> (nsresult + EditActionResult) \<times> HTMLEditor"
  DeleteUnnecessaryNodesAndCollapseSelection ::
    "HTMLEditor \<Rightarrow> EDirection \<Rightarrow> EditorDOMPoint \<Rightarrow> EditorDOMPoint \<Rightarrow> nsresult \<times> HTMLEditor"

section \<open>Whether the blocks are joined after a range was emptied\<close>

text \<open>
  \<^verbatim>\<open>NeedsToJoinNodesAfterDeleteNodesEntirelyInRangeButKeepTableStructure\<close>: the loop over
  the collected nodes, then the function with its two early returns.
\<close>

fun NeedsToJoinLoop :: "Collaborators \<Rightarrow> nsIContent list \<Rightarrow> bool" where
  "NeedsToJoinLoop env [] = True"
| "NeedsToJoinLoop env (content # rest) =
     (if IsText content then
        (if IsInVisibleTextFrames env content then False else NeedsToJoinLoop env rest)
      else if \<not> IsElement content \<or> IsEmptyNode_TreatSingleBRElementAsVisible env content
        then NeedsToJoinLoop env rest
      else if \<not> IsInvisibleBRElement env content then False
      else NeedsToJoinLoop env rest)"

definition NeedsToJoinNodesAfterDeleteNodesEntirelyInRangeButKeepTableStructure ::
    "Collaborators \<Rightarrow> nsIContent list \<Rightarrow> SelectionWasCollapsed \<Rightarrow> bool" where
  "NeedsToJoinNodesAfterDeleteNodesEntirelyInRangeButKeepTableStructure env
       aArrayOfContents aSelectionWasCollapsed =
     (if aSelectionWasCollapsed = WasCollapsed_No then True
      else if aArrayOfContents = [] then True
      else NeedsToJoinLoop env aArrayOfContents)"

text \<open>
  A collected node counts as visible content for that function when it is a text node in
  visible frames, or an element that is neither empty nor an invisible line break.
\<close>

definition VisibleContent :: "Collaborators \<Rightarrow> nsIContent \<Rightarrow> bool" where
  "VisibleContent env c =
     (if IsText c then IsInVisibleTextFrames env c
      else IsElement c \<and> \<not> IsEmptyNode_TreatSingleBRElementAsVisible env c
           \<and> \<not> IsInvisibleBRElement env c)"

text \<open>
  The rule as the specification words it: the join is needed unless the selection started
  non-collapsed and every collected node was invisible.
\<close>

definition spec_needsJoin ::
    "Collaborators \<Rightarrow> nsIContent list \<Rightarrow> SelectionWasCollapsed \<Rightarrow> bool" where
  "spec_needsJoin env nodes wasCollapsed =
     (\<not> (wasCollapsed = WasCollapsed_No \<and> list_all (\<lambda>c. \<not> VisibleContent env c) nodes))"

section \<open>Deleting the nodes entirely in a range\<close>

text \<open>
  \<^verbatim>\<open>DeleteNodesEntirelyInRangeButKeepTableStructure\<close>: the loop over
  \<^verbatim>\<open>arrayOfTopChildren\<close> ignores every failure but the destruction of the editor.
\<close>

fun DeleteTopChildren ::
    "(nsIContent \<Rightarrow> nsresult) \<Rightarrow> nsIContent list \<Rightarrow> nsIContent \<Rightarrow> nsresult \<times> nsIContent" where
  "DeleteTopChildren del [] doc = (NS_OK, doc)"
| "DeleteTopChildren del (content # rest) doc =
     (case UpdateDocument (nodeId content) (DeleteContentButKeepTableStructure del) doc of
        (rv, doc') \<Rightarrow>
          if rv = NS_ERROR_EDITOR_DESTROYED then (NS_ERROR_EDITOR_DESTROYED, doc')
          else DeleteTopChildren del rest doc')"

definition DeleteNodesEntirelyInRangeButKeepTableStructure ::
    "Collaborators \<Rightarrow> nsIContent \<Rightarrow> nsRange \<Rightarrow> SelectionWasCollapsed
       \<Rightarrow> (nsresult + bool) \<times> nsIContent" where
  "DeleteNodesEntirelyInRangeButKeepTableStructure env doc aRange aSelectionWasCollapsed =
     (case SubtreeIterator env doc aRange of
        Inl rv \<Rightarrow> (Inl rv, doc)
      | Inr arrayOfTopChildren \<Rightarrow>
          (let needsToJoinLater =
                 NeedsToJoinNodesAfterDeleteNodesEntirelyInRangeButKeepTableStructure env
                   arrayOfTopChildren aSelectionWasCollapsed
           in case DeleteTopChildren (DeleteNodeWithTransaction env) arrayOfTopChildren doc of
                (rv, doc') \<Rightarrow>
                  if rv = NS_ERROR_EDITOR_DESTROYED then (Inl NS_ERROR_EDITOR_DESTROYED, doc')
                  else (Inr needsToJoinLater, doc')))"

section \<open>Preparing and running the join of two blocks\<close>

text \<open>
  Modelled from the spec: \<^verbatim>\<open>EditorUtils::IsDescendantOf\<close> is defined outside this file.
  It tells whether a node lies properly below another ("one block is an ancestor of the
  other"), and its out-parameter is the point, in the ancestor, of the child that holds the
  node; the point is cleared when the answer is no.
\<close>

fun ChildIndexContaining :: "nat \<Rightarrow> nsIContent list \<Rightarrow> nat option" where
  "ChildIndexContaining i [] = None"
| "ChildIndexContaining i (c # cs) =
     (if i \<in> set (ContentIds c) then Some 0
      else map_option Suc (ChildIndexContaining i cs))"

definition IsDescendantOf :: "nsIContent \<Rightarrow> nsIContent \<Rightarrow> EditorDOMPoint option" where
  "IsDescendantOf aNode aParent =
     (if nodeId aNode = nodeId aParent then None
      else map_option (\<lambda>n. \<lparr>container = nodeId aParent, offset = n\<rparr>)
             (ChildIndexContaining (nodeId aNode) (childNodes aParent)))"

definition GetParentElement :: "nsIContent \<Rightarrow> nsIContent \<Rightarrow> nsIContent option" where
  "GetParentElement doc c =
     (case GetParentNode (nodeId c) doc of
        None \<Rightarrow> None
      | Some parent \<Rightarrow> if IsElement parent then Some parent else None)"

definition NameAtom :: "nsIContent \<Rightarrow> string" where
  "NameAtom c = (case kind c of Element t \<Rightarrow> t | _ \<Rightarrow> [])"

definition AtEndOf :: "nsIContent \<Rightarrow> EditorDOMPoint" where
  "AtEndOf c =
     \<lparr>container = nodeId c,
      offset = (case kind c of Text u \<Rightarrow> length u | _ \<Rightarrow> length (childNodes c))\<rparr>"

definition NextPoint :: "EditorDOMPoint \<Rightarrow> EditorDOMPoint" where
  "NextPoint pt = pt\<lparr>offset := offset pt + 1\<rparr>"

definition isOk :: "nsresult + 'a \<Rightarrow> bool" where
  "isOk r = (case r of Inl e \<Rightarrow> False | Inr v \<Rightarrow> True)"

definition inspect :: "nsresult + bool \<Rightarrow> bool" where
  "inspect r = (case r of Inl e \<Rightarrow> False | Inr v \<Rightarrow> v)"

text \<open>
  The special rule of \<^verbatim>\<open>Prepare\<close> for two list items: when they belong to different
  parents, neither of which lies below the other item, the parents take their place.
\<close>

definition JoinListsInstead ::
    "nsIContent \<Rightarrow> AutoInclusiveAncestorBlockElementsJoiner \<Rightarrow> nsIContent \<Rightarrow> nsIContent
       \<Rightarrow> AutoInclusiveAncestorBlockElementsJoiner" where
  "JoinListsInstead doc j left right =
     (if IsListItem left \<and> IsListItem right then
        (case (GetParentElement doc left, GetParentElement doc right) of
           (Some leftListElement, Some rightListElement) \<Rightarrow>
             if nodeId leftListElement \<noteq> nodeId rightListElement
                \<and> IsDescendantOf leftListElement right = None
                \<and> IsDescendantOf rightListElement left = None
             then j\<lparr>mLeftBlockElement := Some leftListElement,
                    mRightBlockElement := Some rightListElement,
                    mNewListElementTagNameOfRightListElement :=
                      Some (NameAtom leftListElement)\<rparr>
             else j
         | _ \<Rightarrow> j)
      else j)"

text \<open>\<^verbatim>\<open>AutoInclusiveAncestorBlockElementsJoiner::CanMergeLeftAndRightBlockElements\<close>.\<close>

definition CanMergeLeftAndRightBlockElements ::
    "AutoInclusiveAncestorBlockElementsJoiner \<Rightarrow> bool" where
  "CanMergeLeftAndRightBlockElements j =
     (case (mLeftBlockElement j, mRightBlockElement j) of
        (Some left, Some right) \<Rightarrow>
          if map_option container (mPointContainingTheOtherBlockElement j)
               = Some (nodeId right)
          then mNewListElementTagNameOfRightListElement j \<noteq> None
          else if map_option container (mPointContainingTheOtherBlockElement j)
                    = Some (nodeId left)
          then mNewListElementTagNameOfRightListElement j \<noteq> None
               \<and> length (childNodes right) = 0
          else mNewListElementTagNameOfRightListElement j \<noteq> None
               \<or> NameAtom left = NameAtom right
      | _ \<Rightarrow> False)"

text \<open>
  The last part of \<^verbatim>\<open>Prepare\<close>: which block holds the other, the preceding invisible line
  break, and whether the caller deletes a leaf instead.
\<close>

definition PrepareRelation ::
    "Collaborators \<Rightarrow> nsIContent \<Rightarrow> AutoInclusiveAncestorBlockElementsJoiner
       \<Rightarrow> nsIContent \<Rightarrow> nsIContent \<Rightarrow> AutoInclusiveAncestorBlockElementsJoiner" where
  "PrepareRelation env doc j0 left right =
     (let pt = (case IsDescendantOf left right of
                  Some q \<Rightarrow> Some q
                | None \<Rightarrow> IsDescendantOf right left);
          j = j0\<lparr>mPointContainingTheOtherBlockElement := pt\<rparr>
      in
      if map_option container pt = Some (nodeId right) then
        (let br = GetPrecedingBRElementUnlessVisibleContentFound env doc (AtEndOf left);
             j' = j\<lparr>mPrecedingInvisibleBRElement := br\<rparr>
         in if br = None then
              (if CanMergeLeftAndRightBlockElements j'
               then j'\<lparr>mFallbackToDeleteLeafContent := False\<rparr>
               else
                 (let firstLineHasContent =
                        CanMoveOrDeleteSomethingInHardLine env doc (NextPoint (the pt))
                  in j'\<lparr>mFallbackToDeleteLeafContent :=
                          (isOk firstLineHasContent \<and> \<not> inspect firstLineHasContent)\<rparr>))
            else j'\<lparr>mFallbackToDeleteLeafContent := False\<rparr>)
      else if map_option container pt = Some (nodeId left) then
        (let br = GetPrecedingBRElementUnlessVisibleContentFound env doc (the pt);
             j' = j\<lparr>mPrecedingInvisibleBRElement := br\<rparr>
         in if br = None then
              (if CanMergeLeftAndRightBlockElements j'
               then
                 (let rightBlockHasContent = CanMoveChildren env doc right left
                  in j'\<lparr>mFallbackToDeleteLeafContent :=
                          (isOk rightBlockHasContent \<and> \<not> inspect rightBlockHasContent)\<rparr>)
               else
                 (let firstLineHasContent =
                        CanMoveOrDeleteSomethingInHardLine env doc
                          \<lparr>container = nodeId right, offset = 0\<rparr>
                  in j'\<lparr>mFallbackToDeleteLeafContent :=
                          (isOk firstLineHasContent \<and> \<not> inspect firstLineHasContent)\<rparr>))
            else j'\<lparr>mFallbackToDeleteLeafContent := False\<rparr>)
      else
        j\<lparr>mPrecedingInvisibleBRElement :=
             GetPrecedingBRElementUnlessVisibleContentFound env doc (AtEndOf left),
           mFallbackToDeleteLeafContent := False\<rparr>)"

text \<open>\<^verbatim>\<open>AutoInclusiveAncestorBlockElementsJoiner::Prepare\<close>.\<close>

definition Prepare ::
    "Collaborators \<Rightarrow> nsIContent \<Rightarrow> AutoInclusiveAncestorBlockElementsJoiner
       \<Rightarrow> (nsresult + bool) \<times> AutoInclusiveAncestorBlockElementsJoiner" where
  "Prepare env doc j0 =
     (let j = j0\<lparr>mLeftBlockElement :=
                   ClosestEditableBlockElementExceptHRElement env doc
                     (mInclusiveDescendantOfLeftBlockElement j0),
                 mRightBlockElement :=
                   ClosestEditableBlockElementExceptHRElement env doc
                     (mInclusiveDescendantOfRightBlockElement j0)\<rparr>
      in case (mLeftBlockElement j, mRightBlockElement j) of
           (Some left, Some right) \<Rightarrow>
             if IsAnyOfHTMLElements left [''html'', ''head'', ''body'']
                \<and> IsAnyOfHTMLElements right [''html'', ''head'', ''body'']
             then (Inr False, j\<lparr>mCanJoinBlocks := False\<rparr>)
             else if IsAnyTableElement left \<or> IsAnyTableElement right
             then (Inr False, j\<lparr>mCanJoinBlocks := False\<rparr>)
             else if nodeId left = nodeId right
             then (Inr True, j\<lparr>mCanJoinBlocks := True, mFallbackToDeleteLeafContent := True\<rparr>)
             else if IsAnyListElement left \<and> IsListItem right
                     \<and> map_option nodeId (GetParentNode (nodeId right) doc) = Some (nodeId left)
             then (Inr True, j\<lparr>mCanJoinBlocks := False\<rparr>)
             else
               (let j1 = JoinListsInstead doc j left right;
                    j2 = PrepareRelation env doc j1
                           (the (mLeftBlockElement j1)) (the (mRightBlockElement j1))
                in (Inr True, j2\<lparr>mCanJoinBlocks := True\<rparr>))
         | _ \<Rightarrow> (Inl NS_ERROR_UNEXPECTED, j\<lparr>mCanJoinBlocks := False\<rparr>))"

definition IsSameBlockElement :: "AutoInclusiveAncestorBlockElementsJoiner \<Rightarrow> bool" where
  "IsSameBlockElement j =
     (case (mLeftBlockElement j, mRightBlockElement j) of
        (Some left, Some right) \<Rightarrow> nodeId left = nodeId right
      | _ \<Rightarrow> False)"

text \<open>\<^verbatim>\<open>AutoInclusiveAncestorBlockElementsJoiner::Run\<close>.\<close>

definition JoinerRun ::
    "Collaborators \<Rightarrow> AutoInclusiveAncestorBlockElementsJoiner \<Rightarrow> HTMLEditor
       \<Rightarrow> (nsresult + EditActionResult) \<times> HTMLEditor" where
  "JoinerRun env j ed =
     (if IsSameBlockElement j then (Inr IgnoredResult, ed)
      else if \<not> mCanJoinBlocks j then (Inr HandledResult, ed)
      else if map_option container (mPointContainingTheOtherBlockElement j)
                = map_option nodeId (mRightBlockElement j)
        then MergeFirstLineOfRightBlockElementIntoDescendantLeftBlockElement env j ed
      else if map_option container (mPointContainingTheOtherBlockElement j)
                = map_option nodeId (mLeftBlockElement j)
        then MergeFirstLineOfRightBlockElementIntoAncestorLeftBlockElement env j ed
      else MergeFirstLineOfRightBlockElementIntoLeftBlockElement env j ed)"

section \<open>Deleting non-collapsed ranges across blocks\<close>

text \<open>
  The loop of \<^verbatim>\<open>HandleDeleteNonCollapsedRanges\<close> over the ranges.  The ranges are live:
  every change of the document moves the first range and the ranges still to come.  The
  flag is the conjunction (\<^verbatim>\<open>&=\<close>) of what each range reports.
\<close>

fun DeleteNodesInRanges ::
    "Collaborators \<Rightarrow> nsIContent \<Rightarrow> nsRange \<Rightarrow> nsRange list \<Rightarrow> SelectionWasCollapsed \<Rightarrow> bool
       \<Rightarrow> (nsresult + bool) \<times> nsIContent \<times> nsRange" where
  "DeleteNodesInRanges env doc first [] wc joinFlag = (Inr joinFlag, doc, first)"
| "DeleteNodesInRanges env doc first (aRange # rest) wc joinFlag =
     (case DeleteNodesEntirelyInRangeButKeepTableStructure env doc aRange wc of
        (Inl rv, doc') \<Rightarrow> (Inl rv, doc', RangeUpdater env doc doc' first)
      | (Inr deleteResult, doc') \<Rightarrow>
          DeleteNodesInRanges env doc' (RangeUpdater env doc doc' first)
            (map (RangeUpdater env doc doc') rest) wc (joinFlag \<and> deleteResult))"

text \<open>
  What each range reported, in order (the values the loop folds with \<^verbatim>\<open>&=\<close>).
\<close>

fun ReportedByRanges ::
    "Collaborators \<Rightarrow> nsIContent \<Rightarrow> nsRange list \<Rightarrow> SelectionWasCollapsed \<Rightarrow> bool list" where
  "ReportedByRanges env doc [] wc = []"
| "ReportedByRanges env doc (aRange # rest) wc =
     (case DeleteNodesEntirelyInRangeButKeepTableStructure env doc aRange wc of
        (Inl rv, doc') \<Rightarrow> []
      | (Inr deleteResult, doc') \<Rightarrow>
          deleteResult # ReportedByRanges env doc' (map (RangeUpdater env doc doc') rest) wc)"

text \<open>
  \<^verbatim>\<open>DeleteTextWithTransaction\<close> on a text node of the document, and
  \<^verbatim>\<open>DeleteTextAtStartAndEndOfRange\<close>, which reads both boundaries before it changes
  anything.
\<close>

definition RemoveTextData :: "nat \<Rightarrow> nat \<Rightarrow> nsIContent \<Rightarrow> nsIContent" where
  "RemoveTextData off len c =
     (case kind c of
        Text u \<Rightarrow> Content (nodeId c) (Text (take off u @ drop (off + len) u)) (childNodes c)
      | _ \<Rightarrow> c)"

definition DeleteTextIn ::
    "Collaborators \<Rightarrow> nsIContent \<Rightarrow> nsIContent \<Rightarrow> nat \<Rightarrow> nat \<Rightarrow> nsresult \<times> nsIContent" where
  "DeleteTextIn env doc textNode off len =
     (let rv = DeleteTextWithTransaction env textNode off len
      in if NS_FAILED rv then (rv, doc)
         else UpdateDocument (nodeId textNode) (\<lambda>c. (rv, [RemoveTextData off len c])) doc)"

definition TextNodeAt :: "nsIContent \<Rightarrow> EditorDOMPoint \<Rightarrow> nsIContent option" where
  "TextNodeAt doc pt =
     (case FindContent (container pt) doc of
        Some c \<Rightarrow> if IsText c then Some c else None
      | None \<Rightarrow> None)"





section \<open>Sample documents and collaborators\<close>

text \<open>
  Collaborators of a plain layout: text is visible unless it is only spaces, an element
  is empty when it has no child and is no line break, every line break is an invisible
  one, the closest block of a node is its nearest inclusive ancestor among the usual
  block elements, and every transaction succeeds.  A live range follows the text removed
  at its ends: its start stays unless the text became shorter than its offset, its end
  moves back by the code units removed from its text node.  The clean-up collapses the
  selection to the end for \<open>ePrevious\<close> and to the start otherwise.
\<close>

definition plainIsBlock :: "nsIContent \<Rightarrow> bool" where
  "plainIsBlock c =
     IsAnyOfHTMLElements c
       [''body'', ''div'', ''p'', ''ul'', ''ol'', ''li'', ''blockquote'',
        ''table'', ''tbody'', ''tr'', ''td'', ''th'', ''caption'']"

fun plainClosestBlock :: "nat \<Rightarrow> nsIContent \<Rightarrow> nsIContent option"
  and plainClosestBlockAmong :: "nat \<Rightarrow> nsIContent list \<Rightarrow> nsIContent option"
where
  "plainClosestBlock i (Content j k cs) =
     (if i = j then (if plainIsBlock (Content j k cs) then Some (Content j k cs) else None)
      else (case plainClosestBlockAmong i cs of
              Some b \<Rightarrow> Some b
            | None \<Rightarrow>
                if i \<in> set (ForestIds cs) \<and> plainIsBlock (Content j k cs)
                then Some (Content j k cs) else None))"
| "plainClosestBlockAmong i [] = None"
| "plainClosestBlockAmong i (c # cs) =
     (case plainClosestBlock i c of Some b \<Rightarrow> Some b | None \<Rightarrow> plainClosestBlockAmong i cs)"

definition LengthIn :: "nsIContent \<Rightarrow> nat \<Rightarrow> nat" where
  "LengthIn doc i = (case FindContent i doc of Some c \<Rightarrow> offset (AtEndOf c) | None \<Rightarrow> 0)"

definition plainRangeUpdater :: "nsIContent \<Rightarrow> nsIContent \<Rightarrow> nsRange \<Rightarrow> nsRange" where
  "plainRangeUpdater old new r =
     \<lparr>startRef =
        (startRef r)\<lparr>offset :=
           min (offset (startRef r)) (LengthIn new (container (startRef r)))\<rparr>,
      endRef =
        (endRef r)\<lparr>offset :=
           offset (endRef r)
             - (LengthIn old (container (endRef r)) - LengthIn new (container (endRef r)))\<rparr>\<rparr>"

definition plainCollaborators :: "nsIContent list \<Rightarrow> Collaborators" where
  "plainCollaborators collected =
     \<lparr>IsInVisibleTextFrames =
        (\<lambda>c. case kind c of Text u \<Rightarrow> list_ex (\<lambda>x. x \<noteq> 0x20) u | _ \<Rightarrow> False),
      IsEmptyNode_TreatSingleBRElementAsVisible =
        (\<lambda>c. childNodes c = [] \<and> \<not> IsHTMLElement c ''br''),
      IsInvisibleBRElement = (\<lambda>c. IsHTMLElement c ''br''),
      ClosestEditableBlockElementExceptHRElement = (\<lambda>doc i. plainClosestBlock i doc),
      GetPrecedingBRElementUnlessVisibleContentFound = (\<lambda>doc pt. None),
      CanMoveOrDeleteSomethingInHardLine = (\<lambda>doc pt. Inr True),
      CanMoveChildren = (\<lambda>doc r l. Inr True),
      SubtreeIterator = (\<lambda>doc r. Inr collected),
      DeleteNodeWithTransaction = (\<lambda>c. NS_OK),
      DeleteTextWithTransaction = (\<lambda>c off len. NS_OK),
      RangeUpdater = plainRangeUpdater,
      MergeFirstLineOfRightBlockElementIntoDescendantLeftBlockElement =
        (\<lambda>j ed. (Inr HandledResult, ed)),
      MergeFirstLineOfRightBlockElementIntoAncestorLeftBlockElement =
        (\<lambda>j ed. (Inr HandledResult, ed)),
      MergeFirstLineOfRightBlockElementIntoLeftBlockElement =
        (\<lambda>j ed. (Inr HandledResult, ed)),
      DeleteUnnecessaryNodesAndCollapseSelection =
        (\<lambda>ed dir s e.
           (NS_OK,
            ed\<lparr>selection :=
                 [if dir = ePrevious then \<lparr>startRef = e, endRef = e\<rparr>
                  else \<lparr>startRef = s, endRef = s\<rparr>]\<rparr>))\<rparr>"

definition invisibleWhiteSpace :: nsIContent where
  "invisibleWhiteSpace = Content 9 (Text [0x20]) []"

definition visibleText :: nsIContent where
  "visibleText = Content 4 (Text [0x78]) []"

text \<open>
  A range from inside the text of a \<open>div\<close> to inside the text of a table cell, with a
  paragraph between them that lies entirely in the range.
\<close>

definition crossDoc :: nsIContent where
  "crossDoc =
     Content 0 (Element ''body'')
       [Content 1 (Element ''div'') [Content 2 (Text [0x61, 0x62, 0x63]) []],
        Content 3 (Element ''p'') [Content 4 (Text [0x78]) []],
        Content 5 (Element ''table'')
          [Content 6 (Element ''tbody'')
             [Content 7 (Element ''tr'')
                [Content 8 (Element ''td'') [Content 9 (Text [0x64, 0x65, 0x66]) []]]]]]"

definition crossRange :: AutoRangeArray where
  "crossRange =
     \<lparr>FirstRangeRef = \<lparr>startRef = \<lparr>container = 2, offset = 1\<rparr>,
                       endRef = \<lparr>container = 9, offset = 1\<rparr>\<rparr>,
      OtherRanges = []\<rparr>"

definition crossEditor :: HTMLEditor where
  "crossEditor =
     \<lparr>document = crossDoc, selection = [FirstRangeRef crossRange],
      interlinePosition = StartOfLine, mDidDeleteSelection = True,
      mDidDeleteNonCollapsedRange = True, mDidExplicitlySetInterLine = False,
      destroyed = False\<rparr>"






section \<open>The scanner and the preparation at the boundary of another block\<close>

text \<open>
  Modelled from the spec: the white-space scanner is a collaborator defined outside this
  file.  From a position and a direction it classifies what is reached (collapsible white
  space, a non-collapsible character, a preformatted line break, special (atomic) content,
  a line-break element, a horizontal rule, the boundary of another block or of the current
  block), with a reference to the content and the point reached; a failed scan has its
  own tag.
\<close>

datatype WSType =
    WS_Failed
  | WS_CollapsibleWhiteSpaces
  | WS_NonCollapsibleCharacters
  | WS_PreformattedLineBreak
  | WS_SpecialContent
  | WS_BRElement
  | WS_HRElement
  | WS_OtherBlockBoundary
  | WS_CurrentBlockBoundary

record WSScanResult =
  mReason :: WSType
  mContent :: "nsIContent option"
  mPoint :: EditorDOMPoint

definition Failed :: "WSScanResult \<Rightarrow> bool" where
  "Failed r = (mReason r = WS_Failed)"

definition ReachedBRElement :: "WSScanResult \<Rightarrow> bool" where
  "ReachedBRElement r = (mReason r = WS_BRElement)"

definition ReachedHRElement :: "WSScanResult \<Rightarrow> bool" where
  "ReachedHRElement r = (mReason r = WS_HRElement)"

record WSRunScanner =
  ScanNextVisibleNodeOrBlockBoundaryFrom :: "nsIContent \<Rightarrow> EditorDOMPoint \<Rightarrow> WSScanResult"
  ScanPreviousVisibleNodeOrBlockBoundaryFrom :: "nsIContent \<Rightarrow> EditorDOMPoint \<Rightarrow> WSScanResult"
  GetFirstLeafContent :: "nsIContent \<Rightarrow> nsIContent option"
  GetLastLeafContent :: "nsIContent \<Rightarrow> nsIContent option"

datatype Mode =
    NotInitialized
  | JoinCurrentBlock
  | JoinOtherBlock
  | JoinBlocksInSameParent
  | DeleteBRElement
  | DeleteContentInRanges
  | DeleteNonCollapsedRanges

record AutoBlockElementsJoiner =
  mMode :: Mode
  mLeftContent :: "nsIContent option"
  mRightContent :: "nsIContent option"
  mLeafContentInOtherBlock :: "nsIContent option"
  mBRElement :: "nsIContent option"

definition NewBlockElementsJoiner :: AutoBlockElementsJoiner where
  "NewBlockElementsJoiner =
     \<lparr>mMode = NotInitialized, mLeftContent = None, mRightContent = None,
      mLeafContentInOtherBlock = None, mBRElement = None\<rparr>"

text \<open>\<^verbatim>\<open>AutoBlockElementsJoiner::PrepareToDeleteAtOtherBlockBoundary\<close>.\<close>

definition PrepareToDeleteAtOtherBlockBoundary ::
    "WSRunScanner \<Rightarrow> nsIContent \<Rightarrow> AutoBlockElementsJoiner \<Rightarrow> EDirection \<Rightarrow> nsIContent
       \<Rightarrow> EditorDOMPoint \<Rightarrow> bool \<times> AutoBlockElementsJoiner" where
  "PrepareToDeleteAtOtherBlockBoundary scanner doc j0 aDirectionAndAmount aOtherBlockElement
       aCaretPoint =
     (let j = j0\<lparr>mMode := JoinOtherBlock\<rparr>
      in if IsAnyTableElement aOtherBlockElement then (False, j)
         else
           (let j1 =
                  (if aDirectionAndAmount = ePrevious then
                     (let leaf = GetLastLeafContent scanner aOtherBlockElement
                      in j\<lparr>mLeafContentInOtherBlock := leaf, mLeftContent := leaf,
                           mRightContent := FindContent (container aCaretPoint) doc\<rparr>)
                   else
                     (let leaf = GetFirstLeafContent scanner aOtherBlockElement
                      in j\<lparr>mLeafContentInOtherBlock := leaf,
                           mLeftContent := FindContent (container aCaretPoint) doc,
                           mRightContent := leaf\<rparr>));
                scanFromCaretResult =
                  (if aDirectionAndAmount = eNext
                   then ScanPreviousVisibleNodeOrBlockBoundaryFrom scanner doc aCaretPoint
                   else ScanNextVisibleNodeOrBlockBoundaryFrom scanner doc aCaretPoint)
            in if ReachedBRElement scanFromCaretResult
               then (True, j1\<lparr>mBRElement := mContent scanFromCaretResult,
                               mMode := DeleteBRElement\<rparr>)
               else (mLeftContent j1 \<noteq> None \<and> mRightContent j1 \<noteq> None, j1)))"

text \<open>
  Two list items of different lists, a list with one of its own items, two blocks of the
  basic document structure, and a scanner that finds nothing special.
\<close>

definition listDoc :: nsIContent where
  "listDoc =
     Content 0 (Element ''body'')
       [Content 1 (Element ''ul'')
          [Content 2 (Element ''li'') [Content 3 (Text [0x61]) []]],
        Content 4 (Element ''ol'')
          [Content 5 (Element ''li'') [Content 6 (Text [0x62]) []]]]"

definition structureDoc :: nsIContent where
  "structureDoc =
     Content 0 (Element ''html'')
       [Content 1 (Element ''head'') [],
        Content 2 (Element ''body'') [Content 3 (Text [0x61]) []]]"

definition structureBlocks :: Collaborators where
  "structureBlocks =
     (plainCollaborators [])
       \<lparr>ClosestEditableBlockElementExceptHRElement := (\<lambda>doc i. FindContent i doc)\<rparr>"

definition plainScanner :: WSRunScanner where
  "plainScanner =
     \<lparr>ScanNextVisibleNodeOrBlockBoundaryFrom =
        (\<lambda>doc pt. \<lparr>mReason = WS_CurrentBlockBoundary, mContent = None, mPoint = pt\<rparr>),
      ScanPreviousVisibleNodeOrBlockBoundaryFrom =
        (\<lambda>doc pt. \<lparr>mReason = WS_CurrentBlockBoundary, mContent = None, mPoint = pt\<rparr>),
      GetFirstLeafContent = (\<lambda>c. None),
      GetLastLeafContent = (\<lambda>c. None)\<rparr>"

definition cellOfCrossDoc :: nsIContent where
  "cellOfCrossDoc = Content 8 (Element ''td'') [Content 9 (Text [0x64, 0x65, 0x66]) []]"

definition headOfStructureDoc :: nsIContent where
  "headOfStructureDoc = Content 1 (Element ''head'') []"

definition bodyOfStructureDoc :: nsIContent where
  "bodyOfStructureDoc = Content 2 (Element ''body'') [Content 3 (Text [0x61]) []]"

definition firstList :: nsIContent where
  "firstList = Content 1 (Element ''ul'') [Content 2 (Element ''li'') [Content 3 (Text [0x61]) []]]"

definition firstItem :: nsIContent where
  "firstItem = Content 2 (Element ''li'') [Content 3 (Text [0x61]) []]"

definition secondList :: nsIContent where
  "secondList = Content 4 (Element ''ol'') [Content 5 (Element ''li'') [Content 6 (Text [0x62]) []]]"

definition secondItem :: nsIContent where
  "secondItem = Content 5 (Element ''li'') [Content 6 (Text [0x62]) []]"

section \<open>The deletion handler for a caret or for ranges\<close>

text \<open>
  Modelled from the spec: \<^verbatim>\<open>AutoRangeArray::IsCollapsed\<close> and the accessor of the first
  range's start are defined outside this file.  The ranges are collapsed when they are one
  range whose start and end are equal (a caret); a positioned range always has its start.
\<close>

definition IsCollapsed :: "AutoRangeArray \<Rightarrow> bool" where
  "IsCollapsed a = (OtherRanges a = [] \<and> Collapsed (FirstRangeRef a))"

definition GetFirstRangeStartPoint :: "AutoRangeArray \<Rightarrow> EditorDOMPoint option" where
  "GetFirstRangeStartPoint a = Some (startRef (FirstRangeRef a))"

definition IsInContentNode :: "nsIContent \<Rightarrow> EditorDOMPoint \<Rightarrow> bool" where
  "IsInContentNode doc pt = (FindContent (container pt) doc \<noteq> None)"

definition IsSetAndValid :: "nsIContent \<Rightarrow> EditorDOMPoint \<Rightarrow> bool" where
  "IsSetAndValid doc pt =
     (case FindContent (container pt) doc of
        Some c \<Rightarrow> offset pt \<le> offset (AtEndOf c)
      | None \<Rightarrow> False)"

datatype MutationEvent =
    SUBTREEMODIFIED
  | NODEREMOVED
  | NODEREMOVEDFROMDOCUMENT
  | ATTRMODIFIED
  | CHARACTERDATAMODIFIED

text \<open>
  What the handler \<^verbatim>\<open>AutoDeleteRangesHandler::Run\<close> and the entry point
  \<^verbatim>\<open>HTMLEditor::HandleDeleteSelection\<close> call.  The services of the editor, of the selection
  and of the white-space keeper are outside this file.  The deleter of empty block
  ancestors (a scan followed by its run, \<open>None\<close> when the scan finds nothing), the two
  handlers \<^verbatim>\<open>HandleDeleteAroundCollapsedRanges\<close> and \<^verbatim>\<open>HandleDeleteNonCollapsedRanges\<close>,
  the temporary ancestor limiter and the removal of an empty mail-cite element are
  functions of this file that \<^verbatim>\<open>Run\<close> and the entry point only call and pass on; they are
  parameters here as well.
\<close>

record EditorServices =
  IsEmpty :: "nsIContent \<Rightarrow> bool"
  ComputeEditingHost :: "HTMLEditor \<Rightarrow> nsIContent option"
  IsInTableCellSelectionMode :: "HTMLEditor \<Rightarrow> bool"
  DeleteTableCellContentsWithTransaction :: "HTMLEditor \<Rightarrow> nsresult \<times> HTMLEditor"
  EnsureOnlyEditableRanges :: "HTMLEditor \<Rightarrow> nsIContent \<Rightarrow> AutoRangeArray option"
  DeleteMostAncestorMailCiteElementIfEmpty :: "HTMLEditor \<Rightarrow> nat \<Rightarrow> nsresult \<times> HTMLEditor"
  EmptyBlockAncestorDeleter ::
    "HTMLEditor \<Rightarrow> nat \<Rightarrow> EDirection \<Rightarrow> ((nsresult + EditActionResult) \<times> HTMLEditor) option"
  AutoCaretBidiLevelManager ::
    "HTMLEditor \<Rightarrow> EDirection \<Rightarrow> EditorDOMPoint \<Rightarrow> (bool \<times> bool) \<times> HTMLEditor"
  AutoSetTemporaryAncestorLimiter :: "HTMLEditor \<Rightarrow> nat \<Rightarrow> AutoRangeArray \<Rightarrow> AutoRangeArray"
  ExtendAnchorFocusRangeFor ::
    "HTMLEditor \<Rightarrow> AutoRangeArray \<Rightarrow> EDirection \<Rightarrow> (nsresult + EDirection) \<times> AutoRangeArray"
  ShrinkRangesIfStartFromOrEndAfterAtomicContent ::
    "HTMLEditor \<Rightarrow> AutoRangeArray \<Rightarrow> EDirection \<Rightarrow> nsIContent
       \<Rightarrow> (nsresult + bool) \<times> AutoRangeArray"
  HowToHandleCollapsedRangeIsIgnore :: "EDirection \<Rightarrow> bool"
  DeleteRangesWithTransaction ::
    "HTMLEditor \<Rightarrow> EDirection \<Rightarrow> EStripWrappers \<Rightarrow> AutoRangeArray \<Rightarrow> nsresult \<times> HTMLEditor"
  IsEditableContent :: "nsIContent \<Rightarrow> bool"
  IsInvisibleBR :: "nsIContent \<Rightarrow> bool"
  DeleteContentNodeAndJoinTextNodesAroundIt ::
    "HTMLEditor \<Rightarrow> AutoRangeArray \<Rightarrow> nsIContent \<Rightarrow> EditorDOMPoint
       \<Rightarrow> nsresult \<times> HTMLEditor \<times> AutoRangeArray"
  MayHaveMutationEventListeners :: "HTMLEditor \<Rightarrow> MutationEvent list \<Rightarrow> bool"
  HandleDeleteAroundCollapsedRanges ::
    "bool \<Rightarrow> HTMLEditor \<Rightarrow> EDirection \<Rightarrow> EStripWrappers \<Rightarrow> AutoRangeArray \<Rightarrow> EditorDOMPoint
       \<Rightarrow> WSScanResult \<Rightarrow> nsIContent \<Rightarrow> (nsresult + EditActionResult) \<times> HTMLEditor"
  HandleDeleteNonCollapsedRangesOfHandler ::
    "bool \<Rightarrow> HTMLEditor \<Rightarrow> EDirection \<Rightarrow> EStripWrappers \<Rightarrow> AutoRangeArray
       \<Rightarrow> SelectionWasCollapsed \<Rightarrow> nsIContent \<Rightarrow> (nsresult + EditActionResult) \<times> HTMLEditor"

type_synonym RunResult = "((nsresult + EditActionResult) \<times> HTMLEditor) option"

text \<open>
  \<^verbatim>\<open>CanFallbackToDeleteRangesWithTransaction\<close> and \<^verbatim>\<open>FallbackToDeleteRangesWithTransaction\<close>
  of the handler; \<open>recursively\<close> says that the handler has a parent.  The array of ranges
  is never empty here.
\<close>

definition CanFallbackToDeleteRangesWithTransaction ::
    "EditorServices \<Rightarrow> bool \<Rightarrow> EDirection \<Rightarrow> AutoRangeArray \<Rightarrow> bool" where
  "CanFallbackToDeleteRangesWithTransaction svc recursively mOriginalDirectionAndAmount
       aRangesToDelete =
     (\<not> recursively \<and> Ranges aRangesToDelete \<noteq> []
      \<and> (\<not> IsCollapsed aRangesToDelete
          \<or> \<not> HowToHandleCollapsedRangeIsIgnore svc mOriginalDirectionAndAmount))"

definition FallbackToDeleteRangesWithTransaction ::
    "EditorServices \<Rightarrow> HTMLEditor \<Rightarrow> EDirection \<Rightarrow> EStripWrappers \<Rightarrow> AutoRangeArray
       \<Rightarrow> (nsresult + EditActionResult) \<times> HTMLEditor" where
  "FallbackToDeleteRangesWithTransaction svc ed mOriginalDirectionAndAmount
       mOriginalStripWrappers aRangesToDelete =
     (case DeleteRangesWithTransaction svc ed mOriginalDirectionAndAmount
             mOriginalStripWrappers aRangesToDelete of
        (rv, ed') \<Rightarrow> if NS_FAILED rv then (Inl rv, ed') else (Inr HandledResult, ed'))"

definition ScanFrom ::
    "WSRunScanner \<Rightarrow> EDirection \<Rightarrow> nsIContent \<Rightarrow> EditorDOMPoint \<Rightarrow> WSScanResult" where
  "ScanFrom scanner aDirectionAndAmount doc pt =
     (if aDirectionAndAmount = eNext
      then ScanNextVisibleNodeOrBlockBoundaryFrom scanner doc pt
      else ScanPreviousVisibleNodeOrBlockBoundaryFrom scanner doc pt)"

definition ReachedInvisibleBRElement :: "EditorServices \<Rightarrow> WSScanResult \<Rightarrow> bool" where
  "ReachedInvisibleBRElement svc r =
     (ReachedBRElement r \<and> (case mContent r of Some br \<Rightarrow> IsInvisibleBR svc br | None \<Rightarrow> False))"

text \<open>
  The short circuit of \<^verbatim>\<open>Run\<close> for an invisible line break: delete it, take the ranges of
  the selection, look at the caret of the handler's own ranges, check for a new invisible
  line break when there may be mutation event listeners, and run another handler.  The
  nested run is the parameter \<open>anotherHandlerRun\<close>.
\<close>

definition DeleteInvisibleBRElementAndRunAgain ::
    "EditorServices \<Rightarrow> WSRunScanner \<Rightarrow> (HTMLEditor \<Rightarrow> AutoRangeArray \<Rightarrow> RunResult)
       \<Rightarrow> HTMLEditor \<Rightarrow> EDirection \<Rightarrow> AutoRangeArray \<Rightarrow> nsIContent \<Rightarrow> EditorDOMPoint
       \<Rightarrow> RunResult" where
  "DeleteInvisibleBRElementAndRunAgain svc scanner anotherHandlerRun ed aDirectionAndAmount
       aRangesToDelete brElement caretPoint =
     (case DeleteContentNodeAndJoinTextNodesAroundIt svc ed aRangesToDelete brElement
             caretPoint of
        (rv, ed1, ranges1) \<Rightarrow>
          if NS_FAILED rv then Some (Inl rv, ed1)
          else
            (case selection ed1 of
               [onlyRange] \<Rightarrow>
                 (let rangesToDelete = \<lparr>FirstRangeRef = onlyRange, OtherRanges = []\<rparr>
                  in case GetFirstRangeStartPoint ranges1 of
                       None \<Rightarrow> Some (Inl NS_ERROR_FAILURE, ed1)
                     | Some newCaretPoint \<Rightarrow>
                         if MayHaveMutationEventListeners svc ed1
                              [SUBTREEMODIFIED, NODEREMOVED, NODEREMOVEDFROMDOCUMENT]
                         then
                           (let scanFromCaretPointResult =
                                  ScanFrom scanner aDirectionAndAmount (document ed1)
                                    newCaretPoint
                            in if Failed scanFromCaretPointResult
                               then Some (Inl NS_ERROR_FAILURE, ed1)
                               else if ReachedInvisibleBRElement svc scanFromCaretPointResult
                               then Some (Inl NS_ERROR_EDITOR_UNEXPECTED_DOM_TREE, ed1)
                               else anotherHandlerRun ed1 rangesToDelete)
                         else anotherHandlerRun ed1 rangesToDelete)
             | _ \<Rightarrow> Some (Inl NS_ERROR_EDITOR_UNEXPECTED_DOM_TREE, ed1)))"

text \<open>
  The part of \<^verbatim>\<open>Run\<close> for ranges that are still collapsed after the extension: the scan
  from the original caret and what follows from it.
\<close>

definition RunAtCaret ::
    "EditorServices \<Rightarrow> WSRunScanner \<Rightarrow> (HTMLEditor \<Rightarrow> AutoRangeArray \<Rightarrow> RunResult) \<Rightarrow> bool
       \<Rightarrow> HTMLEditor \<Rightarrow> EDirection \<Rightarrow> EStripWrappers \<Rightarrow> AutoRangeArray \<Rightarrow> EditorDOMPoint
       \<Rightarrow> nsIContent \<Rightarrow> RunResult" where
  "RunAtCaret svc scanner anotherHandlerRun recursively ed aDirectionAndAmount aStripWrappers
       aRangesToDelete caretPoint aEditingHost =
     (case FindContent (container caretPoint) (document ed) of
        None \<Rightarrow> Some (Inr CanceledResult, ed)
      | Some caretContainer \<Rightarrow>
          if \<not> IsEditableContent svc caretContainer then Some (Inr CanceledResult, ed)
          else
            (let scanFromCaretPointResult =
                   ScanFrom scanner aDirectionAndAmount (document ed) caretPoint
             in if Failed scanFromCaretPointResult then Some (Inl NS_ERROR_FAILURE, ed)
                else
                  (case mContent scanFromCaretPointResult of
                     None \<Rightarrow> Some (Inr CanceledResult, ed)
                   | Some reached \<Rightarrow>
                       if ReachedBRElement scanFromCaretPointResult
                          \<and> nodeId reached = nodeId aEditingHost
                       then Some (Inr HandledResult, ed)
                       else if ReachedBRElement scanFromCaretPointResult
                               \<and> \<not> IsEditableContent svc reached
                       then Some (Inr CanceledResult, ed)
                       else if ReachedBRElement scanFromCaretPointResult
                               \<and> IsInvisibleBR svc reached
                       then DeleteInvisibleBRElementAndRunAgain svc scanner anotherHandlerRun
                              ed aDirectionAndAmount aRangesToDelete reached caretPoint
                       else Some (HandleDeleteAroundCollapsedRanges svc recursively ed
                                    aDirectionAndAmount aStripWrappers aRangesToDelete
                                    caretPoint scanFromCaretPointResult aEditingHost))))"

text \<open>
  The part of \<^verbatim>\<open>Run\<close> for a selection that was collapsed, up to the point where the
  ranges are known to be collapsed or not: it returns early, or goes on at the caret, or
  goes on with non-collapsed ranges.  Where the ranges end up collapsed although no caret
  was remembered, the source stops on the assertion of \<^verbatim>\<open>Maybe::ref\<close>; that is the answer
  \<^verbatim>\<open>NS_ERROR_UNEXPECTED\<close> here.
\<close>

datatype AfterExtension =
    Returned "(nsresult + EditActionResult) \<times> HTMLEditor"
  | AtCaret HTMLEditor EDirection AutoRangeArray EditorDOMPoint
  | WithRanges HTMLEditor EDirection AutoRangeArray

definition ExtendFromCaret ::
    "EditorServices \<Rightarrow> bool \<Rightarrow> HTMLEditor \<Rightarrow> EDirection \<Rightarrow> EStripWrappers \<Rightarrow> AutoRangeArray
       \<Rightarrow> nsIContent \<Rightarrow> EditorDOMPoint \<Rightarrow> AfterExtension" where
  "ExtendFromCaret svc recursively ed0 aDirectionAndAmount aStripWrappers aRangesToDelete0
       aEditingHost startPoint =
     (case AutoCaretBidiLevelManager svc ed0 aDirectionAndAmount startPoint of
        ((failed, canceled), ed) \<Rightarrow>
          if failed then Returned (Inl NS_ERROR_FAILURE, ed0)
          else if canceled then Returned (Inr CanceledResult, ed)
          else
            (let ranges1 = AutoSetTemporaryAncestorLimiter svc ed
                             (container startPoint) aRangesToDelete0;
                 caretPoint =
                   (if IsCollapsed ranges1 \<and> Ranges ranges1 \<noteq> []
                    then GetFirstRangeStartPoint ranges1 else None)
             in if caretPoint \<noteq> None
                   \<and> \<not> IsInContentNode (document ed) (the caretPoint)
                then Returned (Inl NS_ERROR_FAILURE, ed)
                else
                  (case ExtendAnchorFocusRangeFor svc ed ranges1 aDirectionAndAmount of
                     (Inl rv, ranges2) \<Rightarrow> Returned (Inl rv, ed)
                   | (Inr extended, ranges2) \<Rightarrow>
                       if caretPoint \<noteq> None
                          \<and> \<not> IsSetAndValid (document ed) (the caretPoint)
                       then Returned (Inl NS_ERROR_EDITOR_UNEXPECTED_DOM_TREE, ed)
                       else
                         (case ShrinkRangesIfStartFromOrEndAfterAtomicContent svc ed
                                 ranges2 aDirectionAndAmount aEditingHost of
                            (Inl rv, ranges3) \<Rightarrow> Returned (Inl rv, ed)
                          | (Inr shrunken, ranges3) \<Rightarrow>
                              (let direction =
                                     (if \<not> shrunken \<or> \<not> IsCollapsed ranges3
                                      then extended else aDirectionAndAmount)
                               in if direction = eNone then
                                    (if \<not> CanFallbackToDeleteRangesWithTransaction
                                            svc recursively aDirectionAndAmount ranges3
                                     then Returned (Inr IgnoredResult, ed)
                                     else Returned
                                            (FallbackToDeleteRangesWithTransaction
                                               svc ed aDirectionAndAmount
                                               aStripWrappers ranges3))
                                  else if IsCollapsed ranges3 then
                                    (case caretPoint of
                                       Some pt \<Rightarrow> AtCaret ed direction ranges3 pt
                                     | None \<Rightarrow> Returned (Inl NS_ERROR_UNEXPECTED, ed))
                                  else WithRanges ed direction ranges3)))))"

definition ExtendCollapsedRanges ::
    "EditorServices \<Rightarrow> bool \<Rightarrow> HTMLEditor \<Rightarrow> EDirection \<Rightarrow> EStripWrappers \<Rightarrow> AutoRangeArray
       \<Rightarrow> nsIContent \<Rightarrow> AfterExtension" where
  "ExtendCollapsedRanges svc recursively ed0 aDirectionAndAmount aStripWrappers aRangesToDelete0
       aEditingHost =
     (case GetFirstRangeStartPoint aRangesToDelete0 of
        None \<Rightarrow> Returned (Inl NS_ERROR_FAILURE, ed0)
      | Some startPoint \<Rightarrow>
          (case (if IsInContentNode (document ed0) startPoint
                 then EmptyBlockAncestorDeleter svc ed0 (container startPoint)
                        aDirectionAndAmount
                 else None) of
             Some (Inl rv, ed') \<Rightarrow> Returned (Inl rv, ed')
           | Some (Inr result, ed') \<Rightarrow>
               if mHandled result then Returned (Inr result, ed')
               else ExtendFromCaret svc recursively ed' aDirectionAndAmount aStripWrappers
                      aRangesToDelete0 aEditingHost startPoint
           | None \<Rightarrow>
               ExtendFromCaret svc recursively ed0 aDirectionAndAmount aStripWrappers
                 aRangesToDelete0 aEditingHost startPoint))"

text \<open>
  \<^verbatim>\<open>AutoDeleteRangesHandler::Run\<close>.  A handler may run another handler; the first argument
  bounds how many handlers are nested, and \<open>None\<close> is the answer of a run that needs more.
  \<open>recursively\<close> says that the handler was made by another one.
\<close>

fun Run ::
    "nat \<Rightarrow> EditorServices \<Rightarrow> WSRunScanner \<Rightarrow> bool \<Rightarrow> HTMLEditor \<Rightarrow> EDirection
       \<Rightarrow> EStripWrappers \<Rightarrow> AutoRangeArray \<Rightarrow> nsIContent \<Rightarrow> RunResult" where
  "Run 0 svc scanner recursively ed aDirectionAndAmount aStripWrappers aRangesToDelete
       aEditingHost = None"
| "Run (Suc depth) svc scanner recursively ed aDirectionAndAmount aStripWrappers
       aRangesToDelete aEditingHost =
     (if IsEmpty svc (document ed) then Some (Inr CanceledResult, ed)
      else
        (let selectionWasCollapsed =
               (if IsCollapsed aRangesToDelete then WasCollapsed_Yes else WasCollapsed_No)
         in if selectionWasCollapsed = WasCollapsed_Yes then
              (case ExtendCollapsedRanges svc recursively ed aDirectionAndAmount
                      aStripWrappers aRangesToDelete aEditingHost of
                 Returned r \<Rightarrow> Some r
               | AtCaret ed1 direction ranges caretPoint \<Rightarrow>
                   RunAtCaret svc scanner
                     (\<lambda>ed2 rangesToDelete.
                        Run depth svc scanner True ed2 direction aStripWrappers rangesToDelete
                          aEditingHost)
                     recursively ed1 direction aStripWrappers ranges caretPoint aEditingHost
               | WithRanges ed1 direction ranges \<Rightarrow>
                   Some (HandleDeleteNonCollapsedRangesOfHandler svc recursively ed1 direction
                           aStripWrappers ranges selectionWasCollapsed aEditingHost))
            else
              Some (HandleDeleteNonCollapsedRangesOfHandler svc recursively ed
                      aDirectionAndAmount aStripWrappers aRangesToDelete selectionWasCollapsed
                      aEditingHost)))"

text \<open>\<^verbatim>\<open>HTMLEditor::HandleDeleteSelection\<close>.\<close>

definition HandleDeleteSelection ::
    "nat \<Rightarrow> EditorServices \<Rightarrow> WSRunScanner \<Rightarrow> HTMLEditor \<Rightarrow> EDirection \<Rightarrow> EStripWrappers
       \<Rightarrow> RunResult" where
  "HandleDeleteSelection depth svc scanner ed0 aDirectionAndAmount aStripWrappers =
     (if length (selection ed0) = 0 then Some (Inl NS_ERROR_EDITOR_NO_EDITABLE_RANGE, ed0)
      else
        (case ComputeEditingHost svc ed0 of
           None \<Rightarrow> Some (Inl NS_ERROR_EDITOR_NO_EDITABLE_RANGE, ed0)
         | Some editingHost \<Rightarrow>
             (let ed = ed0\<lparr>mDidDeleteSelection := True\<rparr>
              in if IsEmpty svc (document ed) then Some (Inr CanceledResult, ed)
                 else if IsInTableCellSelectionMode svc ed then
                   (case DeleteTableCellContentsWithTransaction svc ed of
                      (rv, ed') \<Rightarrow>
                        if destroyed ed' then Some (Inl NS_ERROR_EDITOR_DESTROYED, ed')
                        else if NS_FAILED rv then Some (Inl rv, ed')
                        else Some (Inr HandledResult, ed'))
                 else
                   (case EnsureOnlyEditableRanges svc ed editingHost of
                      None \<Rightarrow> Some (Inl NS_ERROR_EDITOR_NO_EDITABLE_RANGE, ed)
                    | Some rangesToDelete \<Rightarrow>
                        (case Run depth svc scanner False ed aDirectionAndAmount
                                aStripWrappers rangesToDelete editingHost of
                           None \<Rightarrow> None
                         | Some (Inl rv, ed') \<Rightarrow> Some (Inl rv, ed')
                         | Some (Inr result, ed') \<Rightarrow>
                             if mCanceled result then Some (Inr result, ed')
                             else
                               (case selection ed' of
                                  [] \<Rightarrow> Some (Inl NS_ERROR_FAILURE, ed')
                                | firstRange # others \<Rightarrow>
                                    if IsInContentNode (document ed') (startRef firstRange)
                                    then
                                      (case DeleteMostAncestorMailCiteElementIfEmpty svc ed'
                                              (container (startRef firstRange)) of
                                         (rv, ed'') \<Rightarrow>
                                           if NS_FAILED rv then Some (Inl rv, ed'')
                                           else Some (Inr HandledResult, ed''))
                                    else Some (Inr HandledResult, ed')))))))"

text \<open>
  A scanner that looks at the child next to a position in an element, and services of a
  plain editor: the document is empty when its root holds nothing but line breaks and
  empty text, the editing host is the root, every line break counts as invisible,
  removing the node before the caret moves the caret and the live ranges back by one,
  and the other steps do nothing and succeed.  The services take the answer about
  mutation event listeners as an argument.
\<close>

definition childScan :: "bool \<Rightarrow> nsIContent \<Rightarrow> EditorDOMPoint \<Rightarrow> WSScanResult" where
  "childScan forward doc pt =
     (case FindContent (container pt) doc of
        None \<Rightarrow> \<lparr>mReason = WS_Failed, mContent = None, mPoint = pt\<rparr>
      | Some c \<Rightarrow>
          (let siblings = (if forward then drop (offset pt) (childNodes c)
                           else rev (take (offset pt) (childNodes c)))
           in case siblings of
                [] \<Rightarrow> \<lparr>mReason = WS_CurrentBlockBoundary, mContent = Some c, mPoint = pt\<rparr>
              | reached # others \<Rightarrow>
                  \<lparr>mReason =
                     (if IsHTMLElement reached ''br'' then WS_BRElement
                      else if IsHTMLElement reached ''hr'' then WS_HRElement
                      else if IsText reached then WS_NonCollapsibleCharacters
                      else WS_SpecialContent),
                   mContent = Some reached, mPoint = pt\<rparr>))"

definition childScanner :: WSRunScanner where
  "childScanner =
     \<lparr>ScanNextVisibleNodeOrBlockBoundaryFrom = childScan True,
      ScanPreviousVisibleNodeOrBlockBoundaryFrom = childScan False,
      GetFirstLeafContent = (\<lambda>c. None),
      GetLastLeafContent = (\<lambda>c. None)\<rparr>"

definition MoveBackByOne :: "nsRange \<Rightarrow> nsRange" where
  "MoveBackByOne r =
     \<lparr>startRef = (startRef r)\<lparr>offset := offset (startRef r) - 1\<rparr>,
      endRef = (endRef r)\<lparr>offset := offset (endRef r) - 1\<rparr>\<rparr>"

definition plainServices :: "bool \<Rightarrow> EditorServices" where
  "plainServices listeners =
     \<lparr>IsEmpty =
        (\<lambda>doc. list_all (\<lambda>c. IsHTMLElement c ''br'' \<or> kind c = Text []) (childNodes doc)),
      ComputeEditingHost = (\<lambda>ed. Some (document ed)),
      IsInTableCellSelectionMode = (\<lambda>ed. False),
      DeleteTableCellContentsWithTransaction = (\<lambda>ed. (NS_OK, ed)),
      EnsureOnlyEditableRanges =
        (\<lambda>ed host. case selection ed of
                       [] \<Rightarrow> None
                     | r # rs \<Rightarrow> Some \<lparr>FirstRangeRef = r, OtherRanges = rs\<rparr>),
      DeleteMostAncestorMailCiteElementIfEmpty = (\<lambda>ed i. (NS_OK, ed)),
      EmptyBlockAncestorDeleter = (\<lambda>ed i dir. None),
      AutoCaretBidiLevelManager = (\<lambda>ed dir pt. ((False, False), ed)),
      AutoSetTemporaryAncestorLimiter = (\<lambda>ed i ranges. ranges),
      ExtendAnchorFocusRangeFor = (\<lambda>ed ranges dir. (Inr dir, ranges)),
      ShrinkRangesIfStartFromOrEndAfterAtomicContent = (\<lambda>ed ranges dir host. (Inr False, ranges)),
      HowToHandleCollapsedRangeIsIgnore = (\<lambda>dir. dir = eNone),
      DeleteRangesWithTransaction = (\<lambda>ed dir strip ranges. (NS_OK, ed)),
      IsEditableContent = (\<lambda>c. True),
      IsInvisibleBR = (\<lambda>c. IsHTMLElement c ''br''),
      DeleteContentNodeAndJoinTextNodesAroundIt =
        (\<lambda>ed ranges c caret.
           case UpdateDocument (nodeId c) (\<lambda>n. (NS_OK, [])) (document ed) of
             (rv, doc') \<Rightarrow>
               (rv,
                ed\<lparr>document := doc', selection := map MoveBackByOne (selection ed)\<rparr>,
                \<lparr>FirstRangeRef = MoveBackByOne (FirstRangeRef ranges),
                 OtherRanges = map MoveBackByOne (OtherRanges ranges)\<rparr>)),
      MayHaveMutationEventListeners = (\<lambda>ed mask. listeners),
      HandleDeleteAroundCollapsedRanges =
        (\<lambda>recursively ed dir strip ranges caret scanned host. (Inr HandledResult, ed)),
      HandleDeleteNonCollapsedRangesOfHandler =
        (\<lambda>recursively ed dir strip ranges wc host. (Inr HandledResult, ed))\<rparr>"

text \<open>A paragraph that ends with two line breaks, the caret after the last one.\<close>

definition twoBreaksDoc :: nsIContent where
  "twoBreaksDoc =
     Content 1 (Element ''p'')
       [Content 2 (Text [0x61, 0x62, 0x63]) [],
        Content 3 (Element ''br'') [],
        Content 4 (Element ''br'') []]"

definition CaretAt :: "nat \<Rightarrow> nat \<Rightarrow> nsRange" where
  "CaretAt c off =
     \<lparr>startRef = \<lparr>container = c, offset = off\<rparr>, endRef = \<lparr>container = c, offset = off\<rparr>\<rparr>"

definition EditorOn :: "nsIContent \<Rightarrow> nsRange list \<Rightarrow> HTMLEditor" where
  "EditorOn doc ranges =
     \<lparr>document = doc, selection = ranges, interlinePosition = StartOfLine,
      mDidDeleteSelection = False, mDidDeleteNonCollapsedRange = False,
      mDidExplicitlySetInterLine = False, destroyed = False\<rparr>"

definition twoBreaksEditor :: HTMLEditor where
  "twoBreaksEditor = EditorOn twoBreaksDoc [CaretAt 1 3]"

definition oneBreakEditor :: HTMLEditor where
  "oneBreakEditor =
     EditorOn (Content 1 (Element ''p'')
                 [Content 2 (Text [0x61, 0x62, 0x63]) [], Content 3 (Element ''br'') []])
       [CaretAt 1 2]"

definition noBreakEditor :: HTMLEditor where
  "noBreakEditor =
     EditorOn (Content 1 (Element ''p'') [Content 2 (Text [0x61, 0x62, 0x63]) []])
       [CaretAt 1 1]"

definition CaretArray :: "nat \<Rightarrow> nat \<Rightarrow> AutoRangeArray" where
  "CaretArray c off = \<lparr>FirstRangeRef = CaretAt c off, OtherRanges = []\<rparr>"

text \<open>An empty document: the root holds only a padding line break.\<close>

definition emptyDoc :: nsIContent where
  "emptyDoc = Content 1 (Element ''body'') [Content 2 (Element ''br'') []]"

section \<open>Deleting a visible character, a horizontal rule, an atomic content\<close>

text \<open>
  Modelled from the spec: the surrogate test of \<^verbatim>\<open>nsTextFragment\<close> is defined outside
  this file.  A character of two code units is a high surrogate followed by a low
  surrogate; \<^verbatim>\<open>IsLowSurrogateFollowingHighSurrogateAt\<close> tells whether the code unit at an
  index is the second unit of such a character.
\<close>

definition NS_IS_HIGH_SURROGATE :: "16 word \<Rightarrow> bool" where
  "NS_IS_HIGH_SURROGATE u = (u AND 0xFC00 = 0xD800)"

definition NS_IS_LOW_SURROGATE :: "16 word \<Rightarrow> bool" where
  "NS_IS_LOW_SURROGATE u = (u AND 0xFC00 = 0xDC00)"

definition IsLowSurrogateFollowingHighSurrogateAt :: "16 word list \<Rightarrow> nat \<Rightarrow> bool" where
  "IsLowSurrogateFollowingHighSurrogateAt text aIndex =
     (aIndex \<noteq> 0 \<and> aIndex < length text
      \<and> NS_IS_HIGH_SURROGATE (text ! (aIndex - 1)) \<and> NS_IS_LOW_SURROGATE (text ! aIndex))"

text \<open>The difference of two unsigned 32-bit offsets, as the machine computes it.\<close>

definition UInt32Minus :: "nat \<Rightarrow> nat \<Rightarrow> nat" where
  "UInt32Minus a b = (a + 2 ^ 32 - b) mod 2 ^ 32"

definition TextFragment :: "nsIContent \<Rightarrow> 16 word list" where
  "TextFragment c = (case kind c of Text u \<Rightarrow> u | _ \<Rightarrow> [])"

text \<open>
  The services of the white-space keeper, of the selection and of the editor core that the
  three handlers call; they are outside this file.  \<^verbatim>\<open>PrepareToDeleteRangeAndTrackPoints\<close>
  gives back the two tracked points.
\<close>

record CaretServices =
  PrepareToDeleteRangeAndTrackPoints ::
    "HTMLEditor \<Rightarrow> EditorDOMPoint \<Rightarrow> EditorDOMPoint
       \<Rightarrow> nsresult \<times> HTMLEditor \<times> EditorDOMPoint \<times> EditorDOMPoint"
  IsRemovableFromParentNode :: "nsIContent \<Rightarrow> nsIContent \<Rightarrow> bool"
  IsVisibleTextNode :: "nsIContent \<Rightarrow> bool"
  InsertBRElementIfHardLineIsEmptyAndEndsWithBlockBoundary ::
    "HTMLEditor \<Rightarrow> EditorDOMPoint \<Rightarrow> nsresult \<times> HTMLEditor"
  DeleteContentNodeAndJoinTextNodes ::
    "HTMLEditor \<Rightarrow> nsIContent \<Rightarrow> EditorDOMPoint \<Rightarrow> nsresult \<times> HTMLEditor"
  CollapseSelectionToResult :: "HTMLEditor \<Rightarrow> EditorDOMPoint \<Rightarrow> nsresult"
  SetInterlinePositionResult :: "HTMLEditor \<Rightarrow> InterlinePosition \<Rightarrow> nsresult"

record StaticPrefs =
  editor_hr_element_allow_to_delete_from_following_line :: bool
  editor_white_space_normalization_blink_compatible :: bool

text \<open>
  \<^verbatim>\<open>CollapseSelectionTo\<close> and \<^verbatim>\<open>SetInterlinePosition\<close> change the selection exactly when
  they succeed; an unset point cannot be collapsed to.
\<close>

definition CollapseSelectionTo ::
    "CaretServices \<Rightarrow> HTMLEditor \<Rightarrow> EditorDOMPoint option \<Rightarrow> nsresult \<times> HTMLEditor" where
  "CollapseSelectionTo cs ed pt =
     (case pt of
        None \<Rightarrow> (NS_ERROR_INVALID_ARG, ed)
      | Some p \<Rightarrow>
          (let rv = CollapseSelectionToResult cs ed p
           in (rv, if NS_FAILED rv then ed
                   else ed\<lparr>selection := [\<lparr>startRef = p, endRef = p\<rparr>]\<rparr>)))"

definition SetInterlinePosition ::
    "CaretServices \<Rightarrow> HTMLEditor \<Rightarrow> InterlinePosition \<Rightarrow> nsresult \<times> HTMLEditor" where
  "SetInterlinePosition cs ed pos =
     (let rv = SetInterlinePositionResult cs ed pos
      in (rv, if NS_FAILED rv then ed else ed\<lparr>interlinePosition := pos\<rparr>))"

text \<open>
  The first part of \<^verbatim>\<open>HandleDeleteCollapsedSelectionAtVisibleChar\<close>: the range to delete,
  from the point to delete, the text of its node and the first range of the selection.
\<close>

definition RangeToDeleteAtVisibleChar ::
    "nsRange list \<Rightarrow> EDirection \<Rightarrow> EditorDOMPoint \<Rightarrow> 16 word list
       \<Rightarrow> nsresult + EditorDOMPoint \<times> EditorDOMPoint" where
  "RangeToDeleteAtVisibleChar selectionRanges aDirectionAndAmount aPointToDelete text =
     (if aDirectionAndAmount = ePrevious then
        (if offset aPointToDelete = 0 then Inl NS_ERROR_UNEXPECTED
         else
           (let startToDelete = aPointToDelete\<lparr>offset := offset aPointToDelete - 1\<rparr>;
                endToDelete = aPointToDelete
            in if offset startToDelete \<noteq> 0
                  \<and> IsLowSurrogateFollowingHighSurrogateAt text (offset startToDelete)
               then Inr (startToDelete\<lparr>offset := offset startToDelete - 1\<rparr>, endToDelete)
               else Inr (startToDelete, endToDelete)))
      else
        (case selectionRanges of
           [] \<Rightarrow> Inl NS_ERROR_FAILURE
         | firstRange # others \<Rightarrow>
             if container (startRef firstRange) \<noteq> container aPointToDelete
                \<or> container (endRef firstRange) \<noteq> container aPointToDelete
             then Inl NS_ERROR_FAILURE
             else Inr (startRef firstRange, endRef firstRange)))"

text \<open>
  The ranges of the selection are live: they follow a change of the document, as the
  ranges of the range array do.  \<^verbatim>\<open>DeleteTextWithTransaction\<close> and
  \<^verbatim>\<open>DeleteNodeWithTransaction\<close> of the editor change the document when they succeed.
\<close>

definition WithDocument :: "Collaborators \<Rightarrow> HTMLEditor \<Rightarrow> nsIContent \<Rightarrow> HTMLEditor" where
  "WithDocument env ed doc' =
     ed\<lparr>document := doc',
        selection := map (RangeUpdater env (document ed) doc') (selection ed)\<rparr>"

definition DeleteTextOn ::
    "Collaborators \<Rightarrow> HTMLEditor \<Rightarrow> nsIContent \<Rightarrow> nat \<Rightarrow> nat \<Rightarrow> nsresult \<times> HTMLEditor" where
  "DeleteTextOn env ed textNode off len =
     (case DeleteTextIn env (document ed) textNode off len of
        (rv, doc') \<Rightarrow> (rv, if NS_FAILED rv then ed else WithDocument env ed doc'))"

definition DeleteNodeIn :: "Collaborators \<Rightarrow> nsIContent \<Rightarrow> nsIContent \<Rightarrow> nsresult \<times> nsIContent" where
  "DeleteNodeIn env doc c =
     (let rv = DeleteNodeWithTransaction env c
      in if NS_FAILED rv then (rv, doc)
         else UpdateDocument (nodeId c) (\<lambda>n. (rv, [])) doc)"

definition DeleteNodeOn ::
    "Collaborators \<Rightarrow> HTMLEditor \<Rightarrow> nsIContent \<Rightarrow> nsresult \<times> HTMLEditor" where
  "DeleteNodeOn env ed c =
     (case DeleteNodeIn env (document ed) c of
        (rv, doc') \<Rightarrow> (rv, if NS_FAILED rv then ed else WithDocument env ed doc'))"

text \<open>\<^verbatim>\<open>DeleteNodeIfInvisibleAndEditableTextNode\<close>.\<close>

definition DeleteNodeIfInvisibleAndEditableTextNode ::
    "Collaborators \<Rightarrow> CaretServices \<Rightarrow> HTMLEditor \<Rightarrow> nat \<Rightarrow> nsresult \<times> HTMLEditor" where
  "DeleteNodeIfInvisibleAndEditableTextNode env cs ed aContent =
     (case FindContent aContent (document ed) of
        None \<Rightarrow> (NS_OK, ed)
      | Some content \<Rightarrow>
          if \<not> IsText content then (NS_OK, ed)
          else if \<not> IsRemovableFromParentNode cs (document ed) content
                  \<or> IsVisibleTextNode cs content
          then (NS_OK, ed)
          else DeleteNodeOn env ed content)"

text \<open>
  The rest of \<^verbatim>\<open>HandleDeleteCollapsedSelectionAtVisibleChar\<close> after the text was deleted.
\<close>

definition AfterTextDeletedAtVisibleChar ::
    "Collaborators \<Rightarrow> CaretServices \<Rightarrow> HTMLEditor \<Rightarrow> nat
       \<Rightarrow> (nsresult + EditActionResult) \<times> HTMLEditor" where
  "AfterTextDeletedAtVisibleChar env cs ed visibleTextNode =
     (case DeleteNodeIfInvisibleAndEditableTextNode env cs ed visibleTextNode of
        (rv, ed1) \<Rightarrow>
          if rv = NS_ERROR_EDITOR_DESTROYED then (Inl NS_ERROR_EDITOR_DESTROYED, ed1)
          else
            (case selection ed1 of
               [] \<Rightarrow> (Inl NS_ERROR_EDITOR_UNEXPECTED_DOM_TREE, ed1)
             | firstRange # others \<Rightarrow>
                 (case InsertBRElementIfHardLineIsEmptyAndEndsWithBlockBoundary cs ed1
                         (startRef firstRange) of
                    (rv', ed2) \<Rightarrow>
                      if NS_FAILED rv' then (Inl rv', ed2)
                      else (Inr HandledResult,
                            ed2\<lparr>mDidDeleteNonCollapsedRange := True\<rparr>))))"

text \<open>
  The check made after the preparation when there may be mutation event listeners: both
  points are valid points of the same text node and the start is before the end.
\<close>

definition PointsStillInText :: "nsIContent \<Rightarrow> nat \<Rightarrow> EditorDOMPoint \<Rightarrow> EditorDOMPoint \<Rightarrow> bool" where
  "PointsStillInText doc visibleTextNode startToDelete endToDelete =
     (IsSetAndValid doc startToDelete \<and> TextNodeAt doc startToDelete \<noteq> None
      \<and> IsSetAndValid doc endToDelete \<and> TextNodeAt doc endToDelete \<noteq> None
      \<and> container startToDelete = visibleTextNode \<and> container endToDelete = visibleTextNode
      \<and> offset startToDelete < offset endToDelete)"

text \<open>
  \<^verbatim>\<open>HandleDeleteCollapsedSelectionAtVisibleChar\<close>.  Its caller has checked that the point
  is in a text node and answers \<^verbatim>\<open>NS_ERROR_FAILURE\<close> otherwise.  The length handed to
  \<^verbatim>\<open>DeleteTextWithTransaction\<close> is a difference of unsigned 32-bit offsets.
\<close>

definition HandleDeleteCollapsedSelectionAtVisibleChar ::
    "Collaborators \<Rightarrow> EditorServices \<Rightarrow> CaretServices \<Rightarrow> HTMLEditor \<Rightarrow> EDirection
       \<Rightarrow> EditorDOMPoint \<Rightarrow> (nsresult + EditActionResult) \<times> HTMLEditor" where
  "HandleDeleteCollapsedSelectionAtVisibleChar env svc cs ed aDirectionAndAmount
       aPointToDelete =
     (case TextNodeAt (document ed) aPointToDelete of
        None \<Rightarrow> (Inl NS_ERROR_FAILURE, ed)
      | Some visibleTextNode \<Rightarrow>
          (case RangeToDeleteAtVisibleChar (selection ed) aDirectionAndAmount aPointToDelete
                  (TextFragment visibleTextNode) of
             Inl rv \<Rightarrow> (Inl rv, ed)
           | Inr (startToDelete0, endToDelete0) \<Rightarrow>
               (case PrepareToDeleteRangeAndTrackPoints cs ed startToDelete0 endToDelete0 of
                  (rv, ed1, startToDelete, endToDelete) \<Rightarrow>
                    if destroyed ed1 then (Inl NS_ERROR_EDITOR_DESTROYED, ed1)
                    else if NS_FAILED rv then (Inl rv, ed1)
                    else if MayHaveMutationEventListeners svc ed1
                              [NODEREMOVED, NODEREMOVEDFROMDOCUMENT, ATTRMODIFIED,
                               CHARACTERDATAMODIFIED]
                            \<and> \<not> PointsStillInText (document ed1) (nodeId visibleTextNode)
                                  startToDelete endToDelete
                    then (Inl NS_ERROR_EDITOR_UNEXPECTED_DOM_TREE, ed1)
                    else
                      (case DeleteTextOn env ed1 visibleTextNode (offset startToDelete)
                              (UInt32Minus (offset endToDelete) (offset startToDelete)) of
                         (rv', ed2) \<Rightarrow>
                           if NS_FAILED rv' then (Inl rv', ed2)
                           else AfterTextDeletedAtVisibleChar env cs ed2
                                  (nodeId visibleTextNode)))))"

text \<open>
  The point at a content node (its parent and its index there) and the point after it.
\<close>

definition IndexOfChild :: "nat \<Rightarrow> nsIContent list \<Rightarrow> nat" where
  "IndexOfChild i cs = length (takeWhile (\<lambda>c. nodeId c \<noteq> i) cs)"

definition AtContent :: "nsIContent \<Rightarrow> nsIContent \<Rightarrow> EditorDOMPoint option" where
  "AtContent doc c =
     (case GetParentNode (nodeId c) doc of
        None \<Rightarrow> None
      | Some parent \<Rightarrow>
          Some \<lparr>container = nodeId parent, offset = IndexOfChild (nodeId c) (childNodes parent)\<rparr>)"

definition After :: "nsIContent \<Rightarrow> nsIContent \<Rightarrow> EditorDOMPoint option" where
  "After doc c = map_option NextPoint (AtContent doc c)"

text \<open>
  \<^verbatim>\<open>ShouldDeleteHRElement\<close>.  The comparison \<^verbatim>\<open>aCaretPoint.Offset() - 1 == atHRElement.Offset()\<close>
  is on unsigned 32-bit offsets.
\<close>

definition ShouldDeleteHRElement ::
    "StaticPrefs \<Rightarrow> HTMLEditor \<Rightarrow> EDirection \<Rightarrow> nsIContent \<Rightarrow> EditorDOMPoint
       \<Rightarrow> nsresult + bool" where
  "ShouldDeleteHRElement prefs ed aDirectionAndAmount aHRElement aCaretPoint =
     (if editor_hr_element_allow_to_delete_from_following_line prefs then Inr True
      else if aDirectionAndAmount \<noteq> ePrevious then Inr True
      else if interlinePosition ed = Undefined then Inl NS_ERROR_FAILURE
      else
        Inr (interlinePosition ed = EndOfLine
             \<and> (case AtContent (document ed) aHRElement of
                   None \<Rightarrow> False
                 | Some atHRElement \<Rightarrow>
                     container aCaretPoint = container atHRElement
                     \<and> UInt32Minus (offset aCaretPoint) 1 = offset atHRElement)))"

text \<open>\<^verbatim>\<open>HandleDeleteAtomicContent\<close>.\<close>

definition HandleDeleteAtomicContent ::
    "CaretServices \<Rightarrow> HTMLEditor \<Rightarrow> nsIContent \<Rightarrow> EditorDOMPoint
       \<Rightarrow> (nsresult + EditActionResult) \<times> HTMLEditor" where
  "HandleDeleteAtomicContent cs ed aAtomicContent aCaretPoint =
     (case DeleteContentNodeAndJoinTextNodes cs ed aAtomicContent aCaretPoint of
        (rv, ed1) \<Rightarrow>
          if NS_FAILED rv then (Inl rv, ed1)
          else
            (case selection ed1 of
               [] \<Rightarrow> (Inl NS_ERROR_EDITOR_UNEXPECTED_DOM_TREE, ed1)
             | firstRange # others \<Rightarrow>
                 (case InsertBRElementIfHardLineIsEmptyAndEndsWithBlockBoundary cs ed1
                         (startRef firstRange) of
                    (rv', ed2) \<Rightarrow>
                      if NS_FAILED rv' then (Inl rv', ed2) else (Inr HandledResult, ed2))))"

text \<open>
  The second part of \<^verbatim>\<open>HandleDeleteHRElement\<close>, taken when the rule is not to be deleted:
  the caret goes after the rule with the interline position at the end of the line, and a
  line break reached by a forward scan from the caret point is deleted.
\<close>

definition MoveCaretAfterHRElement ::
    "CaretServices \<Rightarrow> WSRunScanner \<Rightarrow> HTMLEditor \<Rightarrow> nsIContent \<Rightarrow> EditorDOMPoint
       \<Rightarrow> (nsresult + EditActionResult) \<times> HTMLEditor" where
  "MoveCaretAfterHRElement cs scanner ed aHRElement aCaretPoint =
     (case CollapseSelectionTo cs ed (After (document ed) aHRElement) of
        (rv, ed1) \<Rightarrow>
          if rv = NS_ERROR_EDITOR_DESTROYED then (Inl NS_ERROR_EDITOR_DESTROYED, ed1)
          else
            (let ed2 = (snd (SetInterlinePosition cs ed1 EndOfLine))
                         \<lparr>mDidExplicitlySetInterLine := True\<rparr>;
                 forwardScanFromCaretResult =
                   ScanNextVisibleNodeOrBlockBoundaryFrom scanner (document ed2) aCaretPoint
             in if Failed forwardScanFromCaretResult then (Inl NS_ERROR_FAILURE, ed2)
                else if \<not> ReachedBRElement forwardScanFromCaretResult
                then (Inr HandledResult, ed2)
                else
                  (case mContent forwardScanFromCaretResult of
                     None \<Rightarrow> (Inl NS_ERROR_FAILURE, ed2)
                   | Some brElement \<Rightarrow>
                       (case DeleteContentNodeAndJoinTextNodes cs ed2 brElement aCaretPoint of
                          (rv', ed3) \<Rightarrow>
                            if NS_FAILED rv' then (Inl rv', ed3)
                            else (Inr HandledResult, ed3)))))"

text \<open>\<^verbatim>\<open>HandleDeleteHRElement\<close>.\<close>

definition HandleDeleteHRElement ::
    "StaticPrefs \<Rightarrow> CaretServices \<Rightarrow> WSRunScanner \<Rightarrow> HTMLEditor \<Rightarrow> EDirection \<Rightarrow> nsIContent
       \<Rightarrow> EditorDOMPoint \<Rightarrow> (nsresult + EditActionResult) \<times> HTMLEditor" where
  "HandleDeleteHRElement prefs cs scanner ed aDirectionAndAmount aHRElement aCaretPoint =
     (case ShouldDeleteHRElement prefs ed aDirectionAndAmount aHRElement aCaretPoint of
        Inl rv \<Rightarrow> (Inl rv, ed)
      | Inr canDeleteHRElement \<Rightarrow>
          if canDeleteHRElement
          then HandleDeleteAtomicContent cs ed aHRElement aCaretPoint
          else MoveCaretAfterHRElement cs scanner ed aHRElement aCaretPoint)"

text \<open>
  Sample collaborators whose ranges follow a removal as live ranges do: a boundary in a
  text node moves back over the removed code units before it, and a boundary between child
  nodes counts the children before it that are still there.
\<close>

fun CommonPrefixLength :: "'a list \<Rightarrow> 'a list \<Rightarrow> nat" where
  "CommonPrefixLength (x # xs) (y # ys) =
     (if x = y then Suc (CommonPrefixLength xs ys) else 0)"
| "CommonPrefixLength xs ys = 0"

definition livePoint :: "nsIContent \<Rightarrow> nsIContent \<Rightarrow> EditorDOMPoint \<Rightarrow> EditorDOMPoint" where
  "livePoint old new pt =
     (case (FindContent (container pt) old, FindContent (container pt) new) of
        (Some before, Some after) \<Rightarrow>
          (case (kind before, kind after) of
             (Text u, Text v) \<Rightarrow>
               (let kept = CommonPrefixLength u v;
                    removed = length u - length v
                in if offset pt \<le> kept then pt
                   else if offset pt \<le> kept + removed then pt\<lparr>offset := kept\<rparr>
                   else pt\<lparr>offset := offset pt - removed\<rparr>)
           | _ \<Rightarrow>
               pt\<lparr>offset :=
                    length (filter (\<lambda>c. nodeId c \<in> set (map nodeId (childNodes after)))
                              (take (offset pt) (childNodes before)))\<rparr>)
      | _ \<Rightarrow> pt)"

definition liveRangeUpdater :: "nsIContent \<Rightarrow> nsIContent \<Rightarrow> nsRange \<Rightarrow> nsRange" where
  "liveRangeUpdater old new r =
     \<lparr>startRef = livePoint old new (startRef r), endRef = livePoint old new (endRef r)\<rparr>"

definition liveCollaborators :: Collaborators where
  "liveCollaborators = (plainCollaborators [])\<lparr>RangeUpdater := liveRangeUpdater\<rparr>"

text \<open>
  Services that succeed, where a node is removable when it has a parent in the document; a
  text with a character of two code units; a rule followed by a line break.
\<close>

definition plainCaretServices :: CaretServices where
  "plainCaretServices =
     \<lparr>PrepareToDeleteRangeAndTrackPoints = (\<lambda>ed s e. (NS_OK, ed, s, e)),
      IsRemovableFromParentNode = (\<lambda>doc c. GetParentNode (nodeId c) doc \<noteq> None),
      IsVisibleTextNode = (\<lambda>c. TextFragment c \<noteq> []),
      InsertBRElementIfHardLineIsEmptyAndEndsWithBlockBoundary = (\<lambda>ed pt. (NS_OK, ed)),
      DeleteContentNodeAndJoinTextNodes = (\<lambda>ed c caret. DeleteNodeOn liveCollaborators ed c),
      CollapseSelectionToResult = (\<lambda>ed pt. NS_OK),
      SetInterlinePositionResult = (\<lambda>ed pos. NS_OK)\<rparr>"

definition emojiText :: nsIContent where
  "emojiText = Content 2 (Text [0x61, 0xD83D, 0xDE00, 0x62]) []"

definition emojiEditor :: HTMLEditor where
  "emojiEditor = EditorOn (Content 1 (Element ''p'') [emojiText]) [CaretAt 2 3]"

definition ruleElement :: nsIContent where
  "ruleElement = Content 3 (Element ''hr'') []"

definition ruleDoc :: nsIContent where
  "ruleDoc =
     Content 1 (Element ''body'')
       [Content 2 (Text [0x61]) [], ruleElement, Content 4 (Element ''br'') [],
        Content 5 (Text [0x62]) []]"

definition noDeleteFromFollowingLine :: StaticPrefs where
  "noDeleteFromFollowingLine =
     \<lparr>editor_hr_element_allow_to_delete_from_following_line = False,
      editor_white_space_normalization_blink_compatible = False\<rparr>"

section \<open>The deleter of empty block ancestors\<close>

text \<open>
  What \<^verbatim>\<open>AutoEmptyBlockAncestorDeleter\<close> asks of \<^verbatim>\<open>HTMLEditUtils\<close> and of the editor,
  all outside this file.
\<close>

record EmptyBlockServices =
  IsEditable :: "nsIContent \<Rightarrow> bool"
  IsBlockElement :: "nsIContent \<Rightarrow> bool"
  IsEmptyNode :: "nsIContent \<Rightarrow> bool"
  IsFirstChild :: "nsIContent \<Rightarrow> nsIContent \<Rightarrow> bool"
  InsertBRElement :: "HTMLEditor \<Rightarrow> EditorDOMPoint \<Rightarrow> nsresult + HTMLEditor \<times> nsIContent"
  SuggestCaretPointTo :: "HTMLEditor \<Rightarrow> nsIContent \<Rightarrow> nsresult \<times> HTMLEditor"
  GetNextContent :: "nsIContent \<Rightarrow> EditorDOMPoint \<Rightarrow> nsIContent option \<Rightarrow> nsIContent option"
  GetPreviousContent ::
    "nsIContent \<Rightarrow> EditorDOMPoint \<Rightarrow> nsIContent option \<Rightarrow> nsIContent option"
  GetGoodCaretPointFor :: "nsIContent \<Rightarrow> EDirection \<Rightarrow> EditorDOMPoint option"

text \<open>
  The node with a given identity followed by its ancestors, the nearest first and the root
  of the document last; empty when the node is not in the document.
\<close>

fun InclusiveAncestors :: "nat \<Rightarrow> nsIContent \<Rightarrow> nsIContent list"
  and InclusiveAncestorsAmong :: "nat \<Rightarrow> nsIContent list \<Rightarrow> nsIContent list"
where
  "InclusiveAncestors i (Content j k cs) =
     (if i = j then [Content j k cs]
      else (case InclusiveAncestorsAmong i cs of
              [] \<Rightarrow> []
            | c # path \<Rightarrow> (c # path) @ [Content j k cs]))"
| "InclusiveAncestorsAmong i [] = []"
| "InclusiveAncestorsAmong i (c # cs) =
     (case InclusiveAncestors i c of
        [] \<Rightarrow> InclusiveAncestorsAmong i cs
      | n # path \<Rightarrow> n # path)"

text \<open>
  Modelled from the spec: the search of \<^verbatim>\<open>HTMLEditUtils\<close> for the closest editable block
  element is outside this file.  It walks up the ancestors, ends without an answer at the
  first one that is not editable and answers the first block element; the cleanup walks up
  the blocks and never leaves the editable part of the document.  An element is handed on
  together with the ancestors above it.  \<^verbatim>\<open>GetInclusiveAncestorElement\<close> starts at the
  content itself when it is an element, \<^verbatim>\<open>GetAncestorElement\<close> at its parent.
\<close>

fun ClosestEditableBlockElement ::
    "EmptyBlockServices \<Rightarrow> nsIContent list \<Rightarrow> (nsIContent \<times> nsIContent list) option" where
  "ClosestEditableBlockElement eb [] = None"
| "ClosestEditableBlockElement eb (element # ancestors) =
     (if \<not> IsEditable eb element then None
      else if IsElement element \<and> IsBlockElement eb element then Some (element, ancestors)
      else ClosestEditableBlockElement eb ancestors)"

definition GetAncestorElement ::
    "EmptyBlockServices \<Rightarrow> nsIContent list \<Rightarrow> (nsIContent \<times> nsIContent list) option" where
  "GetAncestorElement eb ancestors = ClosestEditableBlockElement eb ancestors"

definition GetInclusiveAncestorElement ::
    "EmptyBlockServices \<Rightarrow> nsIContent list \<Rightarrow> (nsIContent \<times> nsIContent list) option" where
  "GetInclusiveAncestorElement eb inclusiveAncestors =
     (case inclusiveAncestors of
        [] \<Rightarrow> None
      | content # ancestors \<Rightarrow>
          if IsElement content then ClosestEditableBlockElement eb (content # ancestors)
          else GetAncestorElement eb ancestors)"

text \<open>
  The condition of the loop of \<^verbatim>\<open>ScanEmptyBlockInclusiveAncestor\<close> on the block element
  it looks at, and the loop: it remembers the element and goes on with the closest editable
  block element above it.
\<close>

definition IsEmptyBlockToDelete ::
    "CaretServices \<Rightarrow> EmptyBlockServices \<Rightarrow> nsIContent \<Rightarrow> nsIContent \<Rightarrow> bool" where
  "IsEmptyBlockToDelete cs eb doc editableBlockElement =
     (IsRemovableFromParentNode cs doc editableBlockElement
      \<and> \<not> IsAnyTableElement editableBlockElement
      \<and> IsEmptyNode eb editableBlockElement)"

function ScanLoop ::
    "CaretServices \<Rightarrow> EmptyBlockServices \<Rightarrow> nsIContent
       \<Rightarrow> (nsIContent \<times> nsIContent list) option \<Rightarrow> (nsIContent \<times> nsIContent list) option
       \<Rightarrow> (nsIContent \<times> nsIContent list) option" where
  "ScanLoop cs eb doc mEmptyInclusiveAncestorBlockElement None =
     mEmptyInclusiveAncestorBlockElement"
| "ScanLoop cs eb doc mEmptyInclusiveAncestorBlockElement (Some (element, ancestors)) =
     (if IsEmptyBlockToDelete cs eb doc element
      then ScanLoop cs eb doc (Some (element, ancestors)) (GetAncestorElement eb ancestors)
      else mEmptyInclusiveAncestorBlockElement)"
  by pat_completeness auto
termination
proof (relation "measure (\<lambda>(cs, eb, doc, found, candidate).
                            case candidate of
                              None \<Rightarrow> 0
                            | Some (element, ancestors) \<Rightarrow> Suc (length ancestors))")
  show "wf (measure (\<lambda>(cs, eb, doc, found, candidate).
                            case candidate of
                              None \<Rightarrow> 0
                            | Some (element, ancestors) \<Rightarrow> Suc (length ancestors)))"
    by simp
next
  fix cs :: CaretServices and eb :: EmptyBlockServices and doc :: nsIContent
    and mEmptyInclusiveAncestorBlockElement :: "(nsIContent \<times> nsIContent list) option"
    and element :: nsIContent and ancestors :: "nsIContent list"
  have shorter: "length above < length below"
    if "ClosestEditableBlockElement eb below = Some (found, above)"
    for below found above
    using that by (induction below) (auto split: if_splits)
  show "((cs, eb, doc, Some (element, ancestors), GetAncestorElement eb ancestors),
         (cs, eb, doc, mEmptyInclusiveAncestorBlockElement, Some (element, ancestors)))
        \<in> measure (\<lambda>(cs, eb, doc, found, candidate).
                            case candidate of
                              None \<Rightarrow> 0
                            | Some (element, ancestors) \<Rightarrow> Suc (length ancestors))"
    using shorter [of ancestors]
    by (auto simp: GetAncestorElement_def split: option.splits)
qed

text \<open>\<^verbatim>\<open>ScanEmptyBlockInclusiveAncestor\<close>.\<close>

definition ScanEmptyBlockInclusiveAncestor ::
    "CaretServices \<Rightarrow> EmptyBlockServices \<Rightarrow> nsIContent \<Rightarrow> nsIContent \<Rightarrow> nsIContent option" where
  "ScanEmptyBlockInclusiveAncestor cs eb doc aStartContent =
     (case GetInclusiveAncestorElement eb (InclusiveAncestors (nodeId aStartContent) doc) of
        None \<Rightarrow> None
      | Some editableBlockElement \<Rightarrow>
          (case ScanLoop cs eb doc None (Some editableBlockElement) of
             None \<Rightarrow> None
           | Some (mEmptyInclusiveAncestorBlockElement, ancestors) \<Rightarrow>
               if \<not> IsEditable eb mEmptyInclusiveAncestorBlockElement
                  \<or> GetParentElement doc mEmptyInclusiveAncestorBlockElement = None
               then None
               else Some mEmptyInclusiveAncestorBlockElement))"

text \<open>\<^verbatim>\<open>MaybeInsertBRElementBeforeEmptyListItemElement\<close>.\<close>

definition MaybeInsertBRElementBeforeEmptyListItemElement ::
    "EmptyBlockServices \<Rightarrow> HTMLEditor \<Rightarrow> nsIContent
       \<Rightarrow> (nsresult + nsIContent option) \<times> HTMLEditor" where
  "MaybeInsertBRElementBeforeEmptyListItemElement eb ed mEmptyInclusiveAncestorBlockElement =
     (if \<not> IsFirstChild eb (document ed) mEmptyInclusiveAncestorBlockElement
      then (Inr None, ed)
      else
        (case GetParentElement (document ed) mEmptyInclusiveAncestorBlockElement of
           None \<Rightarrow> (Inl NS_ERROR_FAILURE, ed)
         | Some parentElement \<Rightarrow>
             (case AtContent (document ed) parentElement of
                None \<Rightarrow> (Inl NS_ERROR_FAILURE, ed)
              | Some atParentOfEmptyListItem \<Rightarrow>
                  if (case FindContent (container atParentOfEmptyListItem) (document ed) of
                        None \<Rightarrow> False
                      | Some grandParent \<Rightarrow> IsAnyListElement grandParent)
                  then (Inr None, ed)
                  else
                    (case InsertBRElement eb ed atParentOfEmptyListItem of
                       Inl rv \<Rightarrow> (Inl rv, ed)
                     | Inr (ed1, brElement) \<Rightarrow>
                         (case SuggestCaretPointTo eb ed1 brElement of
                            (rv, ed2) \<Rightarrow>
                              if NS_FAILED rv then (Inl rv, ed2)
                              else (Inr (Some brElement), ed2))))))"

text \<open>
  \<^verbatim>\<open>GetNewCaretPoisition\<close>; the answer \<open>None\<close> is the unset point.
\<close>

definition GetNewCaretPoisition ::
    "EditorServices \<Rightarrow> EmptyBlockServices \<Rightarrow> HTMLEditor \<Rightarrow> EDirection \<Rightarrow> nsIContent
       \<Rightarrow> nsresult + EditorDOMPoint option" where
  "GetNewCaretPoisition svc eb ed aDirectionAndAmount mEmptyInclusiveAncestorBlockElement =
     (if aDirectionAndAmount \<in> {eNext, eNextWord, eToEndOfLine} then
        (case After (document ed) mEmptyInclusiveAncestorBlockElement of
           None \<Rightarrow> Inl NS_ERROR_FAILURE
         | Some afterEmptyBlock \<Rightarrow>
             (case GetNextContent eb (document ed) afterEmptyBlock (ComputeEditingHost svc ed) of
                Some nextContentOfEmptyBlock \<Rightarrow>
                  (case GetGoodCaretPointFor eb nextContentOfEmptyBlock aDirectionAndAmount of
                     None \<Rightarrow> Inl NS_ERROR_FAILURE
                   | Some pt \<Rightarrow> Inr (Some pt))
              | None \<Rightarrow> Inr (Some afterEmptyBlock)))
      else if aDirectionAndAmount \<in> {ePrevious, ePreviousWord, eToBeginningOfLine} then
        (case AtContent (document ed) mEmptyInclusiveAncestorBlockElement of
           None \<Rightarrow> Inl NS_ERROR_FAILURE
         | Some atEmptyBlock \<Rightarrow>
             (case GetPreviousContent eb (document ed) atEmptyBlock
                     (ComputeEditingHost svc ed) of
                Some previousContentOfEmptyBlock \<Rightarrow>
                  (case GetGoodCaretPointFor eb previousContentOfEmptyBlock
                          aDirectionAndAmount of
                     None \<Rightarrow> Inl NS_ERROR_FAILURE
                   | Some pt \<Rightarrow> Inr (Some pt))
              | None \<Rightarrow> Inr (Some (NextPoint atEmptyBlock))))
      else Inr None)"

text \<open>
  \<^verbatim>\<open>AutoEmptyBlockAncestorDeleter::Run\<close>: first the caret is placed, after an inserted line
  break for a list item and at the new caret position otherwise; then the found element is
  deleted.
\<close>

definition PlaceCaretForEmptyBlock ::
    "EditorServices \<Rightarrow> CaretServices \<Rightarrow> EmptyBlockServices \<Rightarrow> HTMLEditor \<Rightarrow> EDirection
       \<Rightarrow> nsIContent \<Rightarrow> nsresult \<times> HTMLEditor" where
  "PlaceCaretForEmptyBlock svc cs eb ed aDirectionAndAmount
       mEmptyInclusiveAncestorBlockElement =
     (if IsListItem mEmptyInclusiveAncestorBlockElement then
        (case MaybeInsertBRElementBeforeEmptyListItemElement eb ed
                mEmptyInclusiveAncestorBlockElement of
           (Inl rv, ed1) \<Rightarrow> (rv, ed1)
         | (Inr None, ed1) \<Rightarrow> (NS_OK, ed1)
         | (Inr (Some brElement), ed1) \<Rightarrow>
             CollapseSelectionTo cs ed1 (AtContent (document ed1) brElement))
      else
        (case GetNewCaretPoisition svc eb ed aDirectionAndAmount
                mEmptyInclusiveAncestorBlockElement of
           Inl rv \<Rightarrow> (rv, ed)
         | Inr None \<Rightarrow> (NS_OK, ed)
         | Inr (Some pt) \<Rightarrow> CollapseSelectionTo cs ed (Some pt)))"

definition RunEmptyBlockAncestorDeleter ::
    "Collaborators \<Rightarrow> EditorServices \<Rightarrow> CaretServices \<Rightarrow> EmptyBlockServices \<Rightarrow> HTMLEditor
       \<Rightarrow> EDirection \<Rightarrow> nsIContent \<Rightarrow> (nsresult + EditActionResult) \<times> HTMLEditor" where
  "RunEmptyBlockAncestorDeleter env svc cs eb ed aDirectionAndAmount
       mEmptyInclusiveAncestorBlockElement =
     (case PlaceCaretForEmptyBlock svc cs eb ed aDirectionAndAmount
             mEmptyInclusiveAncestorBlockElement of
        (rv, ed1) \<Rightarrow>
          if NS_FAILED rv then (Inl rv, ed1)
          else
            (case DeleteNodeOn env ed1 mEmptyInclusiveAncestorBlockElement of
               (rv', ed2) \<Rightarrow>
                 if NS_FAILED rv' then (Inl rv', ed2) else (Inr HandledResult, ed2)))"

text \<open>
  A list item in a list in a quotation, all empty, in an editing host; services where every
  node is editable and a node is empty when there is no text and no line break below it.
\<close>

fun HasNoContent :: "nsIContent \<Rightarrow> bool"
  and HaveNoContent :: "nsIContent list \<Rightarrow> bool"
where
  "HasNoContent (Content i k cs) =
     (case k of
        Text u \<Rightarrow> u = []
      | Element t \<Rightarrow> t \<notin> {''br'', ''hr'', ''img''} \<and> HaveNoContent cs
      | CharacterData \<Rightarrow> True)"
| "HaveNoContent [] = True"
| "HaveNoContent (c # cs) = (HasNoContent c \<and> HaveNoContent cs)"

definition plainEmptyBlockServices :: EmptyBlockServices where
  "plainEmptyBlockServices =
     \<lparr>IsEditable = (\<lambda>c. True),
      IsBlockElement = plainIsBlock,
      IsEmptyNode = HasNoContent,
      IsFirstChild =
        (\<lambda>doc c. case GetParentNode (nodeId c) doc of
                    None \<Rightarrow> False
                  | Some parent \<Rightarrow> IndexOfChild (nodeId c) (childNodes parent) = 0),
      InsertBRElement = (\<lambda>ed pt. Inl NS_ERROR_FAILURE),
      SuggestCaretPointTo = (\<lambda>ed c. (NS_OK, ed)),
      GetNextContent = (\<lambda>doc pt host. None),
      GetPreviousContent = (\<lambda>doc pt host. None),
      GetGoodCaretPointFor = (\<lambda>c dir. None)\<rparr>"

definition emptyItem :: nsIContent where
  "emptyItem = Content 4 (Element ''li'') [Content 5 (Text []) []]"

definition emptyQuotation :: nsIContent where
  "emptyQuotation =
     Content 2 (Element ''blockquote'') [Content 3 (Element ''ul'') [emptyItem]]"

definition nestedDoc :: nsIContent where
  "nestedDoc = Content 1 (Element ''div'') [emptyQuotation]"

definition nestedEditor :: HTMLEditor where
  "nestedEditor = EditorOn nestedDoc [CaretAt 5 0]"

section \<open>Theorems\<close>

lemma NS_FAILED_NS_OK [simp]: "\<not> NS_FAILED NS_OK"
  by (simp add: NS_FAILED_def)

lemma TableSkeleton_subset_ContentIds:
  "set (TableSkeleton x) \<subseteq> set (ContentIds x)"
proof (induction x rule: TableSkeleton.induct)
  case (1 i k cs)
  show ?case
  proof (cases "IsAnyTableElementButNotTable (Content i k cs)")
    case True
    with 1 have "\<And>x. x \<in> set cs \<Longrightarrow> set (TableSkeleton x) \<subseteq> set (ContentIds x)"
      by blast
    with True show ?thesis by auto
  next
    case False
    then show ?thesis by simp
  qed
qed

lemma skeleton_kept_aux:
  "set (TableSkeleton c) \<subseteq> set (ForestIds (snd (DeleteContentButKeepTableStructure del c)))"
  "set (concat (map TableSkeleton cs)) \<subseteq> set (ForestIds (snd (DeleteChildList del cs)))"
proof (induction del c and del cs
       rule: DeleteContentButKeepTableStructure_DeleteChildList.induct)
  case (1 del i k cs)
  show ?case
  proof (cases "IsAnyTableElementButNotTable (Content i k cs)")
    case True
    obtain rv cs' where r: "DeleteChildList del cs = (rv, cs')"
      by (cases "DeleteChildList del cs")
    from 1 True r have "set (concat (map TableSkeleton cs)) \<subseteq> set (ForestIds cs')"
      by simp
    with True r show ?thesis
      by (auto simp: ForestIds_def)
  next
    case False
    then show ?thesis by simp
  qed
next
  case (2 del)
  then show ?case by (simp add: ForestIds_def)
next
  case (3 del c cs)
  obtain rv r where r: "DeleteContentButKeepTableStructure del c = (rv, r)"
    by (cases "DeleteContentButKeepTableStructure del c")
  from 3(1) r have h1: "set (TableSkeleton c) \<subseteq> set (ForestIds r)"
    by simp
  show ?case
  proof (cases "NS_FAILED rv")
    case True
    have "set (concat (map TableSkeleton cs)) \<subseteq> set (ForestIds cs)"
      using TableSkeleton_subset_ContentIds by (auto simp: ForestIds_def)
    with h1 r True show ?thesis
      by (auto simp: ForestIds_def)
  next
    case False
    obtain rv' rs where rs: "DeleteChildList del cs = (rv', rs)"
      by (cases "DeleteChildList del cs")
    from 3(2) [OF r [symmetric] False] rs
    have "set (concat (map TableSkeleton cs)) \<subseteq> set (ForestIds rs)"
      by simp
    with h1 r rs False show ?thesis
      by (auto simp: ForestIds_def)
  qed
qed

lemma all_deleted_aux:
  "(\<forall>x. del x = NS_OK) \<longrightarrow>
     fst (DeleteContentButKeepTableStructure del c) = NS_OK \<and>
     ForestIds (snd (DeleteContentButKeepTableStructure del c)) = TableSkeleton c"
  "(\<forall>x. del x = NS_OK) \<longrightarrow>
     fst (DeleteChildList del cs) = NS_OK \<and>
     ForestIds (snd (DeleteChildList del cs)) = concat (map TableSkeleton cs)"
proof (induction del c and del cs
       rule: DeleteContentButKeepTableStructure_DeleteChildList.induct)
  case (1 del i k cs)
  show ?case
  proof (cases "IsAnyTableElementButNotTable (Content i k cs)")
    case True
    obtain rv cs' where r: "DeleteChildList del cs = (rv, cs')"
      by (cases "DeleteChildList del cs")
    show ?thesis
    proof
      assume ok: "\<forall>x. del x = NS_OK"
      from 1 True ok
      have "fst (DeleteChildList del cs) = NS_OK \<and>
            ForestIds (snd (DeleteChildList del cs)) = concat (map TableSkeleton cs)"
        by blast
      with r have "rv = NS_OK" "ForestIds cs' = concat (map TableSkeleton cs)"
        by simp_all
      with True r
      show "fst (DeleteContentButKeepTableStructure del (Content i k cs)) = NS_OK \<and>
            ForestIds (snd (DeleteContentButKeepTableStructure del (Content i k cs))) =
              TableSkeleton (Content i k cs)"
        by (simp add: ForestIds_def)
    qed
  next
    case False
    then show ?thesis by (simp add: ForestIds_def)
  qed
next
  case (2 del)
  then show ?case by (simp add: ForestIds_def)
next
  case (3 del c cs)
  obtain rv r where r: "DeleteContentButKeepTableStructure del c = (rv, r)"
    by (cases "DeleteContentButKeepTableStructure del c")
  obtain rv' rs where rs: "DeleteChildList del cs = (rv', rs)"
    by (cases "DeleteChildList del cs")
  show ?case
  proof
    assume ok: "\<forall>x. del x = NS_OK"
    from 3(1) ok
    have "fst (DeleteContentButKeepTableStructure del c) = NS_OK \<and>
          ForestIds (snd (DeleteContentButKeepTableStructure del c)) = TableSkeleton c"
      by blast
    with r have a: "rv = NS_OK" "ForestIds r = TableSkeleton c"
      by simp_all
    then have nf: "\<not> NS_FAILED rv" by simp
    from 3(2) [OF r [symmetric] nf] ok
    have "fst (DeleteChildList del cs) = NS_OK \<and>
          ForestIds (snd (DeleteChildList del cs)) = concat (map TableSkeleton cs)"
      by blast
    with rs have b: "rv' = NS_OK" "ForestIds rs = concat (map TableSkeleton cs)"
      by simp_all
    from a b r rs nf
    show "fst (DeleteChildList del (c # cs)) = NS_OK \<and>
          ForestIds (snd (DeleteChildList del (c # cs))) = concat (map TableSkeleton (c # cs))"
      by (simp add: ForestIds_def)
  qed
qed

subsection \<open>Table structure\<close>

text \<open>
  C2 (as amended).  \<^verbatim>\<open>DeleteContentButKeepTableStructure\<close> deletes outright every node
  that is not a row, row group, cell or caption; a \<open>table\<close> element itself is among the
  nodes deleted outright.  A row, row group, cell or caption is kept and each of its
  children is processed the same way.  So whatever the transactions answer, the table
  skeleton below the node is still there afterwards; and when every transaction succeeds,
  exactly the skeleton is left.
\<close>

theorem C2_table_skeleton_kept:
  "set (TableSkeleton c) \<subseteq> set (ForestIds (snd (DeleteContentButKeepTableStructure del c)))
   \<and> DeleteContentButKeepTableStructure del c =
       (if IsAnyTableElementButNotTable c
        then (fst (DeleteChildList del (childNodes c)),
              [Content (nodeId c) (kind c) (snd (DeleteChildList del (childNodes c)))])
        else (del c, if NS_FAILED (del c) then [c] else []))
   \<and> ((\<forall>x. del x = NS_OK) \<longrightarrow>
        fst (DeleteContentButKeepTableStructure del c) = NS_OK \<and>
        ForestIds (snd (DeleteContentButKeepTableStructure del c)) = TableSkeleton c)"
proof (intro conjI)
  show "set (TableSkeleton c) \<subseteq> set (ForestIds (snd (DeleteContentButKeepTableStructure del c)))"
    by (rule skeleton_kept_aux(1))
  show "DeleteContentButKeepTableStructure del c =
       (if IsAnyTableElementButNotTable c
        then (fst (DeleteChildList del (childNodes c)),
              [Content (nodeId c) (kind c) (snd (DeleteChildList del (childNodes c)))])
        else (del c, if NS_FAILED (del c) then [c] else []))"
    by (cases c) (simp add: Let_def split: prod.splits)
  show "(\<forall>x. del x = NS_OK) \<longrightarrow>
        fst (DeleteContentButKeepTableStructure del c) = NS_OK \<and>
        ForestIds (snd (DeleteContentButKeepTableStructure del c)) = TableSkeleton c"
    by (rule all_deleted_aux(1))
qed

theorem C2_witness:
  "(\<forall>x. (\<lambda>c. NS_OK) x = NS_OK)
   \<and> IsAnyTableElementButNotTable rowInRange
   \<and> DeleteContentButKeepTableStructure (\<lambda>c. NS_OK) rowInRange
       = (NS_OK, [Content 3 (Element ''tr'')
                    [Content 4 (Element ''td'') [], Content 6 (Element ''td'') []]])
   \<and> ForestIds (snd (DeleteContentButKeepTableStructure (\<lambda>c. NS_OK) rowInRange))
       = TableSkeleton rowInRange
   \<and> TableSkeleton rowInRange = [3, 4, 6]"
proof -
  have a: "IsAnyTableElementButNotTable rowInRange" by code_simp
  have b: "TableSkeleton rowInRange = [3, 4, 6]" by code_simp
  have d: "DeleteContentButKeepTableStructure (\<lambda>c. NS_OK) rowInRange
       = (NS_OK, [Content 3 (Element ''tr'')
                    [Content 4 (Element ''td'') [], Content 6 (Element ''td'') []]])"
    by code_simp
  from C2_table_skeleton_kept [of rowInRange "\<lambda>c. NS_OK"]
  have "ForestIds (snd (DeleteContentButKeepTableStructure (\<lambda>c. NS_OK) rowInRange))
          = TableSkeleton rowInRange"
    by blast
  with a b d show ?thesis by simp
qed

text \<open>
  The claim as stated fails for the \<open>table\<close> element: collected as a node entirely in the
  range, it is deleted outright together with its rows and cells.
\<close>

theorem C2_counterexample:
  "IsAnyTableElement tableInRange
   \<and> DeleteContentButKeepTableStructure (\<lambda>c. NS_OK) tableInRange = (NS_OK, [])"
  by code_simp

subsection \<open>Whether the blocks are joined after the ranges were emptied\<close>

lemma NeedsToJoinLoop_iff:
  "NeedsToJoinLoop env cs = list_all (\<lambda>c. \<not> VisibleContent env c) cs"
  by (induction cs) (auto simp: VisibleContent_def)

lemma DeleteNodesInRanges_flag:
  "DeleteNodesInRanges env doc first ranges wc j = (Inr b, doc', first') \<Longrightarrow>
     b = (j \<and> list_all id (ReportedByRanges env doc ranges wc))"
proof (induction env doc first ranges wc j rule: DeleteNodesInRanges.induct)
  case (1 env doc first wc joinFlag)
  then show ?case by simp
next
  case (2 env doc first aRange rest wc joinFlag)
  obtain res doc1
    where d: "DeleteNodesEntirelyInRangeButKeepTableStructure env doc aRange wc = (res, doc1)"
    by (cases "DeleteNodesEntirelyInRangeButKeepTableStructure env doc aRange wc")
  show ?case
  proof (cases res)
    case (Inl rv)
    with 2(2) d show ?thesis by simp
  next
    case (Inr f)
    with 2(2) d
    have "DeleteNodesInRanges env doc1 (RangeUpdater env doc doc1 first)
            (map (RangeUpdater env doc doc1) rest) wc (joinFlag \<and> f) = (Inr b, doc', first')"
      by simp
    from 2(1) [OF d [symmetric] Inr this] d Inr show ?thesis
      by auto
  qed
qed

text \<open>
  C3 (as amended).  For one range, the flag returned by the table-structure-preserving
  delete is false exactly when the original selection was collapsed and some collected
  node is visible content (a text node in visible frames, or an element that is neither
  empty nor an invisible line break); for a selection that was not collapsed it is always
  true.  Across the ranges the handler joins the blocks only when every range returned
  true: the flag after the loop is the conjunction of what the ranges reported.
\<close>

theorem C3_needs_join:
  "NeedsToJoinNodesAfterDeleteNodesEntirelyInRangeButKeepTableStructure env nodes wc
     = (\<not> (wc = WasCollapsed_Yes \<and> list_ex (VisibleContent env) nodes))
   \<and> (DeleteNodesInRanges env doc first ranges wc True = (Inr b, doc', first') \<longrightarrow>
        b = list_all id (ReportedByRanges env doc ranges wc))"
proof
  show "NeedsToJoinNodesAfterDeleteNodesEntirelyInRangeButKeepTableStructure env nodes wc
     = (\<not> (wc = WasCollapsed_Yes \<and> list_ex (VisibleContent env) nodes))"
    by (cases wc; cases nodes)
       (auto simp: NeedsToJoinNodesAfterDeleteNodesEntirelyInRangeButKeepTableStructure_def
          NeedsToJoinLoop_iff list_all_iff list_ex_iff simp del: NeedsToJoinLoop.simps)
  show "DeleteNodesInRanges env doc first ranges wc True = (Inr b, doc', first') \<longrightarrow>
        b = list_all id (ReportedByRanges env doc ranges wc)"
    using DeleteNodesInRanges_flag [of env doc first ranges wc True b doc' first'] by simp
qed

theorem C3_witness:
  "fst (DeleteNodesInRanges (plainCollaborators [visibleText]) crossDoc
          (FirstRangeRef crossRange) (Ranges crossRange) WasCollapsed_Yes True) = Inr False
   \<and> ReportedByRanges (plainCollaborators [visibleText]) crossDoc (Ranges crossRange)
       WasCollapsed_Yes = [False]
   \<and> list_ex (VisibleContent (plainCollaborators [visibleText])) [visibleText]
   \<and> \<not> NeedsToJoinNodesAfterDeleteNodesEntirelyInRangeButKeepTableStructure
          (plainCollaborators [visibleText]) [visibleText] WasCollapsed_Yes"
proof -
  let ?env = "plainCollaborators [visibleText]"
  let ?run = "DeleteNodesInRanges ?env crossDoc (FirstRangeRef crossRange)
                (Ranges crossRange) WasCollapsed_Yes True"
  have f: "fst ?run = Inr False"
    by code_simp
  then have a: "?run = (Inr False, fst (snd ?run), snd (snd ?run))"
    by (simp add: prod_eq_iff)
  have v: "list_ex (VisibleContent ?env) [visibleText]"
    by code_simp
  have r: "ReportedByRanges ?env crossDoc (Ranges crossRange) WasCollapsed_Yes = [False]"
    by code_simp
  from C3_needs_join [of ?env "[visibleText]" WasCollapsed_Yes crossDoc
         "FirstRangeRef crossRange" "Ranges crossRange" False "fst (snd ?run)"
         "snd (snd ?run)"] v
  have n: "\<not> NeedsToJoinNodesAfterDeleteNodesEntirelyInRangeButKeepTableStructure
          ?env [visibleText] WasCollapsed_Yes"
    by blast
  from C3_needs_join [of ?env "[visibleText]" WasCollapsed_Yes crossDoc
         "FirstRangeRef crossRange" "Ranges crossRange" False "fst (snd ?run)"
         "snd (snd ?run)"] a
  have "False = list_all id (ReportedByRanges ?env crossDoc (Ranges crossRange)
                  WasCollapsed_Yes)"
    by blast
  with f v r n show ?thesis by blast
qed

text \<open>
  The claim as stated fails: for a selection that was not collapsed, with only an
  invisible white-space text node collected, the specification's rule gives false and the
  code returns true.
\<close>

theorem C3_counterexample:
  "NeedsToJoinNodesAfterDeleteNodesEntirelyInRangeButKeepTableStructure
      (plainCollaborators []) [invisibleWhiteSpace] WasCollapsed_No
    \<noteq> spec_needsJoin (plainCollaborators []) [invisibleWhiteSpace] WasCollapsed_No"
  by (simp add: NeedsToJoinNodesAfterDeleteNodesEntirelyInRangeButKeepTableStructure_def
      spec_needsJoin_def VisibleContent_def plainCollaborators_def invisibleWhiteSpace_def
      IsText_def)

subsection \<open>A range across two blocks that cannot be joined\<close>




subsection \<open>Preparing the join of two blocks\<close>

lemma list_elements_are_no_table_elements:
  "IsAnyListElement c \<Longrightarrow>
     \<not> IsAnyTableElement c \<and> \<not> IsAnyOfHTMLElements c [''html'', ''head'', ''body'']"
  "IsListItem c \<Longrightarrow>
     \<not> IsAnyTableElement c \<and> \<not> IsAnyOfHTMLElements c [''html'', ''head'', ''body'']
     \<and> \<not> IsAnyListElement c"
  by (auto simp: IsAnyListElement_def IsListItem_def IsAnyTableElement_def
        IsAnyTableElementButNotTable_def IsAnyOfHTMLElements_def IsHTMLElement_def
        split: nodeKind.splits)

lemma PrepareRelation_keeps_blocks:
  "mLeftBlockElement (PrepareRelation env doc j0 l r) = mLeftBlockElement j0
   \<and> mRightBlockElement (PrepareRelation env doc j0 l r) = mRightBlockElement j0
   \<and> mNewListElementTagNameOfRightListElement (PrepareRelation env doc j0 l r)
        = mNewListElementTagNameOfRightListElement j0"
  by (simp add: PrepareRelation_def Let_def)

text \<open>
  C7.  When both block elements are found, \<^verbatim>\<open>Prepare\<close> answers "cannot join" exactly
  when one of the two is a table-structural element or both are among \<open>html\<close>, \<open>head\<close>
  and \<open>body\<close>; in every other case it answers that they can be joined.  After "cannot
  join" the joiner is marked as unable to join and running it changes nothing.  The
  preparation at the boundary of another block also refuses when that block is a
  table-structural element.
\<close>

theorem C7_prepare_refuses:
  assumes "ClosestEditableBlockElementExceptHRElement env doc
             (mInclusiveDescendantOfLeftBlockElement j) = Some left"
      and "ClosestEditableBlockElementExceptHRElement env doc
             (mInclusiveDescendantOfRightBlockElement j) = Some right"
  shows "fst (Prepare env doc j)
           = Inr (\<not> (IsAnyTableElement left \<or> IsAnyTableElement right
                     \<or> (IsAnyOfHTMLElements left [''html'', ''head'', ''body'']
                        \<and> IsAnyOfHTMLElements right [''html'', ''head'', ''body''])))
         \<and> (fst (Prepare env doc j) = Inr False \<longrightarrow>
              \<not> mCanJoinBlocks (snd (Prepare env doc j))
              \<and> snd (JoinerRun env (snd (Prepare env doc j)) ed) = ed)
         \<and> (IsAnyTableElement other \<longrightarrow>
              \<not> fst (PrepareToDeleteAtOtherBlockBoundary scanner doc bj dir other caret))"
  using assms
  by (auto simp: Prepare_def Let_def JoinerRun_def IsSameBlockElement_def
        PrepareToDeleteAtOtherBlockBoundary_def)

theorem C7_witness:
  "fst (Prepare structureBlocks structureDoc (NewJoiner 1 2)) = Inr False
   \<and> \<not> mCanJoinBlocks (snd (Prepare structureBlocks structureDoc (NewJoiner 1 2)))
   \<and> fst (Prepare (plainCollaborators []) crossDoc (NewJoiner 2 9)) = Inr False
   \<and> fst (Prepare (plainCollaborators []) listDoc (NewJoiner 3 6)) = Inr True
   \<and> \<not> fst (PrepareToDeleteAtOtherBlockBoundary plainScanner crossDoc NewBlockElementsJoiner
              ePrevious cellOfCrossDoc \<lparr>container = 2, offset = 0\<rparr>)"
proof -
  have s1: "ClosestEditableBlockElementExceptHRElement structureBlocks structureDoc
              (mInclusiveDescendantOfLeftBlockElement (NewJoiner 1 2)) = Some headOfStructureDoc"
    by code_simp
  have s2: "ClosestEditableBlockElementExceptHRElement structureBlocks structureDoc
              (mInclusiveDescendantOfRightBlockElement (NewJoiner 1 2)) = Some bodyOfStructureDoc"
    by code_simp
  have s3: "(\<not> (IsAnyTableElement headOfStructureDoc \<or> IsAnyTableElement bodyOfStructureDoc
                \<or> (IsAnyOfHTMLElements headOfStructureDoc [''html'', ''head'', ''body'']
                   \<and> IsAnyOfHTMLElements bodyOfStructureDoc [''html'', ''head'', ''body''])))
             = False"
    by code_simp
  have c1: "ClosestEditableBlockElementExceptHRElement (plainCollaborators []) crossDoc
              (mInclusiveDescendantOfLeftBlockElement (NewJoiner 2 9))
              = Some (Content 1 (Element ''div'') [Content 2 (Text [0x61, 0x62, 0x63]) []])"
    by code_simp
  have c2: "ClosestEditableBlockElementExceptHRElement (plainCollaborators []) crossDoc
              (mInclusiveDescendantOfRightBlockElement (NewJoiner 2 9)) = Some cellOfCrossDoc"
    by code_simp
  have c3: "IsAnyTableElement cellOfCrossDoc"
    by code_simp
  have l1: "ClosestEditableBlockElementExceptHRElement (plainCollaborators []) listDoc
              (mInclusiveDescendantOfLeftBlockElement (NewJoiner 3 6)) = Some firstItem"
    by code_simp
  have l2: "ClosestEditableBlockElementExceptHRElement (plainCollaborators []) listDoc
              (mInclusiveDescendantOfRightBlockElement (NewJoiner 3 6)) = Some secondItem"
    by code_simp
  have l3: "(\<not> (IsAnyTableElement firstItem \<or> IsAnyTableElement secondItem
                \<or> (IsAnyOfHTMLElements firstItem [''html'', ''head'', ''body'']
                   \<and> IsAnyOfHTMLElements secondItem [''html'', ''head'', ''body''])))
             = True"
    by code_simp
  note a = C7_prepare_refuses [OF s1 s2]
  note b = C7_prepare_refuses [OF c1 c2]
  note c = C7_prepare_refuses [OF l1 l2]
  have r1: "fst (Prepare structureBlocks structureDoc (NewJoiner 1 2)) = Inr False"
    using a s3 by simp
  have r2: "\<not> mCanJoinBlocks (snd (Prepare structureBlocks structureDoc (NewJoiner 1 2)))"
    using a r1 by blast
  have r3: "fst (Prepare (plainCollaborators []) crossDoc (NewJoiner 2 9)) = Inr False"
    using b c3 by simp
  have r4: "fst (Prepare (plainCollaborators []) listDoc (NewJoiner 3 6)) = Inr True"
    using c l3 by simp
  have r5: "\<not> fst (PrepareToDeleteAtOtherBlockBoundary plainScanner crossDoc
                    NewBlockElementsJoiner ePrevious cellOfCrossDoc
                    \<lparr>container = 2, offset = 0\<rparr>)"
    using b c3 by blast
  from r1 r2 r3 r4 r5 show ?thesis by blast
qed

text \<open>
  C8.  For two different blocks found by \<^verbatim>\<open>Prepare\<close>: when both are list items whose
  parent elements differ and neither parent lies below the other item, the parents become
  the left and right block to join (and the right one takes the left one's element name);
  when the left block is a list element and the right block a list item whose parent is
  that list element, the preparation succeeds with the joiner marked as unable to join,
  and running the joiner changes nothing.
\<close>

theorem C8_list_items:
  assumes "ClosestEditableBlockElementExceptHRElement env doc
             (mInclusiveDescendantOfLeftBlockElement j) = Some left"
      and "ClosestEditableBlockElementExceptHRElement env doc
             (mInclusiveDescendantOfRightBlockElement j) = Some right"
      and "nodeId left \<noteq> nodeId right"
  shows "(IsListItem left \<and> IsListItem right
          \<and> GetParentElement doc left = Some leftList
          \<and> GetParentElement doc right = Some rightList
          \<and> nodeId leftList \<noteq> nodeId rightList
          \<and> IsDescendantOf leftList right = None
          \<and> IsDescendantOf rightList left = None
          \<longrightarrow> fst (Prepare env doc j) = Inr True
              \<and> mCanJoinBlocks (snd (Prepare env doc j))
              \<and> mLeftBlockElement (snd (Prepare env doc j)) = Some leftList
              \<and> mRightBlockElement (snd (Prepare env doc j)) = Some rightList
              \<and> mNewListElementTagNameOfRightListElement (snd (Prepare env doc j))
                  = Some (NameAtom leftList))
       \<and> (IsAnyListElement left \<and> IsListItem right
          \<and> map_option nodeId (GetParentNode (nodeId right) doc) = Some (nodeId left)
          \<longrightarrow> fst (Prepare env doc j) = Inr True
              \<and> \<not> mCanJoinBlocks (snd (Prepare env doc j))
              \<and> mLeftBlockElement (snd (Prepare env doc j)) = Some left
              \<and> mRightBlockElement (snd (Prepare env doc j)) = Some right
              \<and> JoinerRun env (snd (Prepare env doc j)) ed = (Inr HandledResult, ed))"
proof -
  have items: "IsListItem left \<and> IsListItem right
          \<and> GetParentElement doc left = Some leftList
          \<and> GetParentElement doc right = Some rightList
          \<and> nodeId leftList \<noteq> nodeId rightList
          \<and> IsDescendantOf leftList right = None
          \<and> IsDescendantOf rightList left = None
          \<longrightarrow> fst (Prepare env doc j) = Inr True
              \<and> mCanJoinBlocks (snd (Prepare env doc j))
              \<and> mLeftBlockElement (snd (Prepare env doc j)) = Some leftList
              \<and> mRightBlockElement (snd (Prepare env doc j)) = Some rightList
              \<and> mNewListElementTagNameOfRightListElement (snd (Prepare env doc j))
                  = Some (NameAtom leftList)"
  proof
    assume h: "IsListItem left \<and> IsListItem right
          \<and> GetParentElement doc left = Some leftList
          \<and> GetParentElement doc right = Some rightList
          \<and> nodeId leftList \<noteq> nodeId rightList
          \<and> IsDescendantOf leftList right = None
          \<and> IsDescendantOf rightList left = None"
    from h list_elements_are_no_table_elements(2) [of left]
      list_elements_are_no_table_elements(2) [of right]
    have n: "\<not> IsAnyTableElement left" "\<not> IsAnyTableElement right"
            "\<not> IsAnyOfHTMLElements left [''html'', ''head'', ''body'']"
            "\<not> IsAnyListElement left"
      by blast+
    from h n assms show "fst (Prepare env doc j) = Inr True
              \<and> mCanJoinBlocks (snd (Prepare env doc j))
              \<and> mLeftBlockElement (snd (Prepare env doc j)) = Some leftList
              \<and> mRightBlockElement (snd (Prepare env doc j)) = Some rightList
              \<and> mNewListElementTagNameOfRightListElement (snd (Prepare env doc j))
                  = Some (NameAtom leftList)"
      by (simp add: Prepare_def Let_def JoinListsInstead_def PrepareRelation_keeps_blocks)
  qed
  have own: "IsAnyListElement left \<and> IsListItem right
          \<and> map_option nodeId (GetParentNode (nodeId right) doc) = Some (nodeId left)
          \<longrightarrow> fst (Prepare env doc j) = Inr True
              \<and> \<not> mCanJoinBlocks (snd (Prepare env doc j))
              \<and> mLeftBlockElement (snd (Prepare env doc j)) = Some left
              \<and> mRightBlockElement (snd (Prepare env doc j)) = Some right
              \<and> JoinerRun env (snd (Prepare env doc j)) ed = (Inr HandledResult, ed)"
  proof
    assume h: "IsAnyListElement left \<and> IsListItem right
          \<and> map_option nodeId (GetParentNode (nodeId right) doc) = Some (nodeId left)"
    from h list_elements_are_no_table_elements(1) [of left]
      list_elements_are_no_table_elements(2) [of right]
    have n: "\<not> IsAnyTableElement left" "\<not> IsAnyTableElement right"
            "\<not> IsAnyOfHTMLElements left [''html'', ''head'', ''body'']"
      by blast+
    from h n assms show "fst (Prepare env doc j) = Inr True
              \<and> \<not> mCanJoinBlocks (snd (Prepare env doc j))
              \<and> mLeftBlockElement (snd (Prepare env doc j)) = Some left
              \<and> mRightBlockElement (snd (Prepare env doc j)) = Some right
              \<and> JoinerRun env (snd (Prepare env doc j)) ed = (Inr HandledResult, ed)"
      by (simp add: Prepare_def Let_def JoinerRun_def IsSameBlockElement_def)
  qed
  from items own show ?thesis by blast
qed

theorem C8_witness:
  "mLeftBlockElement (snd (Prepare (plainCollaborators []) listDoc (NewJoiner 3 6)))
     = Some firstList
   \<and> mRightBlockElement (snd (Prepare (plainCollaborators []) listDoc (NewJoiner 3 6)))
     = Some secondList
   \<and> mNewListElementTagNameOfRightListElement
       (snd (Prepare (plainCollaborators []) listDoc (NewJoiner 3 6))) = Some ''ul''
   \<and> mCanJoinBlocks (snd (Prepare (plainCollaborators []) listDoc (NewJoiner 3 6)))
   \<and> fst (Prepare (plainCollaborators []) listDoc (NewJoiner 1 3)) = Inr True
   \<and> \<not> mCanJoinBlocks (snd (Prepare (plainCollaborators []) listDoc (NewJoiner 1 3)))
   \<and> JoinerRun (plainCollaborators [])
       (snd (Prepare (plainCollaborators []) listDoc (NewJoiner 1 3))) crossEditor
       = (Inr HandledResult, crossEditor)"
proof -
  let ?env = "plainCollaborators []"
  have l1: "ClosestEditableBlockElementExceptHRElement ?env listDoc
              (mInclusiveDescendantOfLeftBlockElement (NewJoiner 3 6)) = Some firstItem"
    by code_simp
  have l2: "ClosestEditableBlockElementExceptHRElement ?env listDoc
              (mInclusiveDescendantOfRightBlockElement (NewJoiner 3 6)) = Some secondItem"
    by code_simp
  have l3: "nodeId firstItem \<noteq> nodeId secondItem"
    by code_simp
  have l4: "IsListItem firstItem \<and> IsListItem secondItem
          \<and> GetParentElement listDoc firstItem = Some firstList
          \<and> GetParentElement listDoc secondItem = Some secondList
          \<and> nodeId firstList \<noteq> nodeId secondList
          \<and> IsDescendantOf firstList secondItem = None
          \<and> IsDescendantOf secondList firstItem = None"
    by code_simp
  have l5: "NameAtom firstList = ''ul''"
    by code_simp
  have o1: "ClosestEditableBlockElementExceptHRElement ?env listDoc
              (mInclusiveDescendantOfLeftBlockElement (NewJoiner 1 3)) = Some firstList"
    by code_simp
  have o2: "ClosestEditableBlockElementExceptHRElement ?env listDoc
              (mInclusiveDescendantOfRightBlockElement (NewJoiner 1 3)) = Some firstItem"
    by code_simp
  have o3: "nodeId firstList \<noteq> nodeId firstItem"
    by code_simp
  have o4: "IsAnyListElement firstList \<and> IsListItem firstItem
          \<and> map_option nodeId (GetParentNode (nodeId firstItem) listDoc)
              = Some (nodeId firstList)"
    by code_simp
  from C8_list_items [OF l1 l2 l3, where leftList = firstList and rightList = secondList] l4 l5
  have a: "mLeftBlockElement (snd (Prepare ?env listDoc (NewJoiner 3 6))) = Some firstList
     \<and> mRightBlockElement (snd (Prepare ?env listDoc (NewJoiner 3 6))) = Some secondList
     \<and> mNewListElementTagNameOfRightListElement (snd (Prepare ?env listDoc (NewJoiner 3 6)))
         = Some ''ul''
     \<and> mCanJoinBlocks (snd (Prepare ?env listDoc (NewJoiner 3 6)))"
    by simp
  from C8_list_items [OF o1 o2 o3, where ed = crossEditor] o4
  have b: "fst (Prepare ?env listDoc (NewJoiner 1 3)) = Inr True
     \<and> \<not> mCanJoinBlocks (snd (Prepare ?env listDoc (NewJoiner 1 3)))
     \<and> JoinerRun ?env (snd (Prepare ?env listDoc (NewJoiner 1 3))) crossEditor
         = (Inr HandledResult, crossEditor)"
    by blast
  from a b show ?thesis by blast
qed

subsection \<open>The handler at an invisible line break\<close>

text \<open>
  C4 (as amended).  When the ranges are still collapsed and the scan from the caret
  reaches an editable, invisible line-break element other than the editing host, the
  handler deletes it and, if the selection then has exactly one range, runs one nested
  handler on the ranges of the selection.  Only when the editor may have mutation event
  listeners (subtree modified, node removed, node removed from document) does it scan
  again first, from the caret of its own ranges: a failed scan gives the failure error,
  and an invisible line break reached again gives the unexpected-tree error, with no
  nested handler.  Without such listeners the nested handler runs unchecked.
\<close>

theorem C4_invisible_br:
  assumes "\<not> IsEmpty svc (document ed0)"
      and "IsCollapsed ranges0"
      and "ExtendCollapsedRanges svc recursively ed0 dir0 strip ranges0 host
             = AtCaret ed dir ranges caret"
      and "FindContent (container caret) (document ed) = Some caretContainer"
      and "IsEditableContent svc caretContainer"
      and "\<not> Failed (ScanFrom scanner dir (document ed) caret)"
      and "mContent (ScanFrom scanner dir (document ed) caret) = Some br"
      and "ReachedBRElement (ScanFrom scanner dir (document ed) caret)"
      and "nodeId br \<noteq> nodeId host"
      and "IsEditableContent svc br"
      and "IsInvisibleBR svc br"
      and "DeleteContentNodeAndJoinTextNodesAroundIt svc ed ranges br caret = (rv, ed1, ranges1)"
      and "\<not> NS_FAILED rv"
      and "selection ed1 = [onlyRange]"
  shows "Run (Suc depth) svc scanner recursively ed0 dir0 strip ranges0 host =
           (if MayHaveMutationEventListeners svc ed1
                 [SUBTREEMODIFIED, NODEREMOVED, NODEREMOVEDFROMDOCUMENT]
               \<and> Failed (ScanFrom scanner dir (document ed1) (startRef (FirstRangeRef ranges1)))
            then Some (Inl NS_ERROR_FAILURE, ed1)
            else if MayHaveMutationEventListeners svc ed1
                      [SUBTREEMODIFIED, NODEREMOVED, NODEREMOVEDFROMDOCUMENT]
                    \<and> ReachedInvisibleBRElement svc
                         (ScanFrom scanner dir (document ed1) (startRef (FirstRangeRef ranges1)))
            then Some (Inl NS_ERROR_EDITOR_UNEXPECTED_DOM_TREE, ed1)
            else Run depth svc scanner True ed1 dir strip
                   \<lparr>FirstRangeRef = onlyRange, OtherRanges = []\<rparr> host)"
  using assms
  by (simp add: RunAtCaret_def DeleteInvisibleBRElementAndRunAgain_def
        GetFirstRangeStartPoint_def Let_def)

theorem C4_witness:
  "Run (Suc 0) (plainServices True) childScanner False twoBreaksEditor ePrevious eStrip
      (CaretArray 1 3) twoBreaksDoc
    = Some (Inl NS_ERROR_EDITOR_UNEXPECTED_DOM_TREE, oneBreakEditor)"
proof -
  let ?svc = "plainServices True"
  let ?br = "Content 4 (Element ''br'') []"
  let ?caret = "\<lparr>container = 1, offset = 3\<rparr>"
  have h1: "\<not> IsEmpty ?svc (document twoBreaksEditor)" by code_simp
  have h2: "IsCollapsed (CaretArray 1 3)" by code_simp
  have h3: "ExtendCollapsedRanges ?svc False twoBreaksEditor ePrevious eStrip (CaretArray 1 3)
              twoBreaksDoc = AtCaret twoBreaksEditor ePrevious (CaretArray 1 3) ?caret"
    by code_simp
  have h4: "FindContent (container ?caret) (document twoBreaksEditor) = Some twoBreaksDoc"
    by code_simp
  have h5: "IsEditableContent ?svc twoBreaksDoc" by code_simp
  have h6: "\<not> Failed (ScanFrom childScanner ePrevious (document twoBreaksEditor) ?caret)"
    by code_simp
  have h7: "mContent (ScanFrom childScanner ePrevious (document twoBreaksEditor) ?caret)
              = Some ?br"
    by code_simp
  have h8: "ReachedBRElement (ScanFrom childScanner ePrevious (document twoBreaksEditor) ?caret)"
    by code_simp
  have h9: "nodeId ?br \<noteq> nodeId twoBreaksDoc" by code_simp
  have h10: "IsEditableContent ?svc ?br" by code_simp
  have h11: "IsInvisibleBR ?svc ?br" by code_simp
  have h12: "DeleteContentNodeAndJoinTextNodesAroundIt ?svc twoBreaksEditor (CaretArray 1 3)
               ?br ?caret = (NS_OK, oneBreakEditor, CaretArray 1 2)"
    by code_simp
  have h13: "\<not> NS_FAILED NS_OK" by simp
  have h14: "selection oneBreakEditor = [CaretAt 1 2]" by code_simp
  have c1: "MayHaveMutationEventListeners ?svc oneBreakEditor
              [SUBTREEMODIFIED, NODEREMOVED, NODEREMOVEDFROMDOCUMENT]"
    by code_simp
  have c2: "\<not> Failed (ScanFrom childScanner ePrevious (document oneBreakEditor)
                        (startRef (FirstRangeRef (CaretArray 1 2))))"
    by code_simp
  have c3: "ReachedInvisibleBRElement ?svc
              (ScanFrom childScanner ePrevious (document oneBreakEditor)
                 (startRef (FirstRangeRef (CaretArray 1 2))))"
    by code_simp
  from C4_invisible_br [OF h1 h2 h3 h4 h5 h6 h7 h8 h9 h10 h11 h12 h13 h14, of 0] c1 c2 c3
  show ?thesis by simp
qed

text \<open>
  The claim as stated fails without mutation event listeners: after the last line break is
  deleted, the scan from the caret reaches the line break before it, again an invisible
  one, and the handler does not fail; the nested handler deletes that one too and runs a
  third handler, which handles the deletion.
\<close>

theorem C4_counterexample:
  "ReachedInvisibleBRElement (plainServices False)
     (ScanFrom childScanner ePrevious (document oneBreakEditor) \<lparr>container = 1, offset = 2\<rparr>)
   \<and> Run 3 (plainServices False) childScanner False twoBreaksEditor ePrevious eStrip
        (CaretArray 1 3) twoBreaksDoc
      = Some (Inr HandledResult, noBreakEditor)"
  by code_simp

subsection \<open>An empty editor\<close>

text \<open>
  C10 (as amended).  Every run of the handler, nested or not, on an editor whose document
  is empty returns the canceled result at once and leaves the editor as it was.  The entry
  point \<^verbatim>\<open>HandleDeleteSelection\<close> does so as well when the selection has a range and there
  is an editing host, after it has set the flag that a selection deletion took place;
  document and selection are unchanged.  Without a range or without an editing host it
  has already returned the no-editable-range error.
\<close>

theorem C10_empty_editor:
  "(IsEmpty svc (document ed) \<longrightarrow>
      Run (Suc depth) svc scanner recursively ed dir strip ranges host
        = Some (Inr CanceledResult, ed))
   \<and> (IsEmpty svc (document ed) \<and> selection ed \<noteq> [] \<and> ComputeEditingHost svc ed = Some host
      \<longrightarrow> HandleDeleteSelection depth svc scanner ed dir strip
            = Some (Inr CanceledResult, ed\<lparr>mDidDeleteSelection := True\<rparr>))"
  by (simp add: HandleDeleteSelection_def)

theorem C10_witness:
  "Run (Suc 0) (plainServices False) childScanner True (EditorOn emptyDoc [CaretAt 1 0])
      ePrevious eStrip (CaretArray 1 0) emptyDoc
     = Some (Inr CanceledResult, EditorOn emptyDoc [CaretAt 1 0])
   \<and> HandleDeleteSelection 0 (plainServices False) childScanner
        (EditorOn emptyDoc [CaretAt 1 0]) ePrevious eStrip
     = Some (Inr CanceledResult, (EditorOn emptyDoc [CaretAt 1 0])\<lparr>mDidDeleteSelection := True\<rparr>)"
proof -
  let ?svc = "plainServices False"
  let ?ed = "EditorOn emptyDoc [CaretAt 1 0]"
  have e: "IsEmpty ?svc (document ?ed)" by code_simp
  have s: "selection ?ed \<noteq> []" by code_simp
  have h: "ComputeEditingHost ?svc ?ed = Some emptyDoc" by code_simp
  from C10_empty_editor [of ?svc ?ed 0 childScanner True ePrevious eStrip "CaretArray 1 0"
         emptyDoc] e s h
  show ?thesis by blast
qed

text \<open>
  The claim as stated fails at the entry point: on an empty document whose selection has
  no range it returns the no-editable-range error, not the canceled result.
\<close>

theorem C10_counterexample:
  "IsEmpty (plainServices False) (document (EditorOn emptyDoc []))
   \<and> HandleDeleteSelection 3 (plainServices False) childScanner (EditorOn emptyDoc [])
        ePrevious eStrip
      = Some (Inl NS_ERROR_EDITOR_NO_EDITABLE_RANGE, EditorOn emptyDoc [])"
  by code_simp


subsection \<open>A character of two code units\<close>

text \<open>
  Claim C5.  A backward deletion at a point of a text node whose two preceding code units
  are a high surrogate followed by a low surrogate computes the range from two code units
  before the point up to the point.  When the preparation keeps the two points, the one
  call of the text deletion gets the offset two before the point and the length two, and
  the text left in the node is the text without both code units.
\<close>

theorem C5_surrogate_pair:
  assumes "TextNodeAt (document ed) pt = Some t"
    and "2 \<le> offset pt"
    and "offset pt \<le> length (TextFragment t)"
    and "NS_IS_HIGH_SURROGATE (TextFragment t ! (offset pt - 2))"
    and "NS_IS_LOW_SURROGATE (TextFragment t ! (offset pt - 1))"
  shows "RangeToDeleteAtVisibleChar (selection ed) ePrevious pt (TextFragment t)
           = Inr (pt\<lparr>offset := offset pt - 2\<rparr>, pt)
         \<and> (PrepareToDeleteRangeAndTrackPoints cs ed (pt\<lparr>offset := offset pt - 2\<rparr>) pt
               = (rv, prepared, pt\<lparr>offset := offset pt - 2\<rparr>, pt)
             \<and> \<not> destroyed prepared \<and> \<not> NS_FAILED rv
             \<and> (MayHaveMutationEventListeners svc prepared
                    [NODEREMOVED, NODEREMOVEDFROMDOCUMENT, ATTRMODIFIED, CHARACTERDATAMODIFIED]
                  \<longrightarrow> PointsStillInText (document prepared) (nodeId t)
                        (pt\<lparr>offset := offset pt - 2\<rparr>) pt)
             \<longrightarrow> HandleDeleteCollapsedSelectionAtVisibleChar env svc cs ed ePrevious pt
                   = (case DeleteTextOn env prepared t (offset pt - 2) 2 of
                        (rv', deleted) \<Rightarrow>
                          if NS_FAILED rv' then (Inl rv', deleted)
                          else AfterTextDeletedAtVisibleChar env cs deleted (nodeId t)))
         \<and> RemoveTextData (offset pt - 2) 2 t
             = Content (nodeId t)
                 (Text (take (offset pt - 2) (TextFragment t) @ drop (offset pt) (TextFragment t)))
                 (childNodes t)"
proof -
  have knd: "kind t = Text (TextFragment t)"
    using assms(1)
    by (auto simp: TextNodeAt_def IsText_def TextFragment_def
             split: option.splits if_splits nodeKind.splits)
  have two: "offset pt - 1 - 1 = offset pt - 2" "offset pt - 2 + 2 = offset pt"
    using assms(2) by simp_all
  have nz: "offset pt - 1 \<noteq> 0" "offset pt - 1 < length (TextFragment t)"
    using assms(2,3) by arith+
  have low: "IsLowSurrogateFollowingHighSurrogateAt (TextFragment t) (offset pt - 1)"
    unfolding IsLowSurrogateFollowingHighSurrogateAt_def two
    using nz assms(4,5) by blast
  have range: "RangeToDeleteAtVisibleChar (selection ed) ePrevious pt (TextFragment t)
                 = Inr (pt\<lparr>offset := offset pt - 2\<rparr>, pt)"
    using assms(2) low by (simp add: RangeToDeleteAtVisibleChar_def Let_def two)
  have len: "UInt32Minus (offset pt) (offset pt - 2) = 2"
  proof -
    have "offset pt + 4294967296 - (offset pt - 2) = (2::nat) + 4294967296"
      using assms(2) by arith
    thus ?thesis by (simp add: UInt32Minus_def)
  qed
  have removed: "RemoveTextData (offset pt - 2) 2 t
             = Content (nodeId t)
                 (Text (take (offset pt - 2) (TextFragment t) @ drop (offset pt) (TextFragment t)))
                 (childNodes t)"
  proof -
    have "Suc (Suc (offset pt - 2)) = offset pt" using assms(2) by arith
    thus ?thesis using knd by (simp add: RemoveTextData_def)
  qed
  show ?thesis
    using range removed assms(1)
    by (auto simp: HandleDeleteCollapsedSelectionAtVisibleChar_def len)
qed

theorem C5_witness:
  "HandleDeleteCollapsedSelectionAtVisibleChar liveCollaborators (plainServices True)
       plainCaretServices emojiEditor ePrevious \<lparr>container = 2, offset = 3\<rparr>
     = (Inr HandledResult,
        emojiEditor
          \<lparr>document := Content 1 (Element ''p'') [Content 2 (Text [0x61, 0x62]) []],
           selection := [CaretAt 2 1],
           mDidDeleteNonCollapsedRange := True\<rparr>)"
proof -
  have t: "TextNodeAt (document emojiEditor) \<lparr>container = 2, offset = 3\<rparr> = Some emojiText"
    by code_simp
  have o1: "2 \<le> offset \<lparr>container = 2, offset = 3\<rparr>" by simp
  have o2: "offset \<lparr>container = 2, offset = 3\<rparr> \<le> length (TextFragment emojiText)"
    by code_simp
  have h: "NS_IS_HIGH_SURROGATE
             (TextFragment emojiText ! (offset \<lparr>container = 2, offset = 3\<rparr> - 2))"
    by code_simp
  have l: "NS_IS_LOW_SURROGATE
             (TextFragment emojiText ! (offset \<lparr>container = 2, offset = 3\<rparr> - 1))"
    by code_simp
  have p: "PrepareToDeleteRangeAndTrackPoints plainCaretServices emojiEditor
             (\<lparr>container = 2, offset = 3\<rparr>\<lparr>offset := offset \<lparr>container = 2, offset = 3\<rparr> - 2\<rparr>)
             \<lparr>container = 2, offset = 3\<rparr>
           = (NS_OK, emojiEditor,
              \<lparr>container = 2, offset = 3\<rparr>\<lparr>offset := offset \<lparr>container = 2, offset = 3\<rparr> - 2\<rparr>,
              \<lparr>container = 2, offset = 3\<rparr>)"
    by (simp add: plainCaretServices_def)
  have d: "\<not> destroyed emojiEditor" by code_simp
  have v: "PointsStillInText (document emojiEditor) (nodeId emojiText)
             (\<lparr>container = 2, offset = 3\<rparr>\<lparr>offset := offset \<lparr>container = 2, offset = 3\<rparr> - 2\<rparr>)
             \<lparr>container = 2, offset = 3\<rparr>"
    by code_simp
  have r: "(case DeleteTextOn liveCollaborators emojiEditor emojiText
                   (offset \<lparr>container = 2, offset = 3\<rparr> - 2) 2 of
              (rv', deleted) \<Rightarrow>
                if NS_FAILED rv' then (Inl rv', deleted)
                else AfterTextDeletedAtVisibleChar liveCollaborators plainCaretServices
                       deleted (nodeId emojiText))
           = (Inr HandledResult,
              emojiEditor
                \<lparr>document := Content 1 (Element ''p'') [Content 2 (Text [0x61, 0x62]) []],
                 selection := [CaretAt 2 1],
                 mDidDeleteNonCollapsedRange := True\<rparr>)"
    by code_simp
  from C5_surrogate_pair [where cs = plainCaretServices and rv = NS_OK
      and prepared = emojiEditor and svc = "plainServices True" and env = liveCollaborators,
      OF t o1 o2 h l]
  have "HandleDeleteCollapsedSelectionAtVisibleChar liveCollaborators (plainServices True)
          plainCaretServices emojiEditor ePrevious \<lparr>container = 2, offset = 3\<rparr>
        = (case DeleteTextOn liveCollaborators emojiEditor emojiText
                   (offset \<lparr>container = 2, offset = 3\<rparr> - 2) 2 of
              (rv', deleted) \<Rightarrow>
                if NS_FAILED rv' then (Inl rv', deleted)
                else AfterTextDeletedAtVisibleChar liveCollaborators plainCaretServices
                       deleted (nodeId emojiText))"
    using p d v by simp
  thus ?thesis using r by simp
qed


subsection \<open>A horizontal rule\<close>

text \<open>
  Claim C6.  When the preference does not allow deleting a horizontal rule from the
  following line and the interline position of the selection is defined, a backward
  deletion that reached the rule deletes it exactly when the interline position is the end
  of the line and the caret is in the parent of the rule at the offset just after it.
  Otherwise the document is left as it is while the selection is collapsed after the rule
  with the interline position at the end of the line; then, when the forward scan from the
  caret point reaches a line break, that line break is deleted, and when it reaches
  something else nothing is deleted.
\<close>

theorem C6_hr_element:
  assumes "\<not> editor_hr_element_allow_to_delete_from_following_line prefs"
    and "interlinePosition ed \<noteq> Undefined"
    and "AtContent (document ed) hr = Some atHR"
    and "offset caret < 2 ^ 32"
    and "offset atHR < 2 ^ 32 - 1"
  shows "ShouldDeleteHRElement prefs ed ePrevious hr caret
           = Inr (interlinePosition ed = EndOfLine \<and> container caret = container atHR
                  \<and> offset caret = offset atHR + 1)
         \<and> (interlinePosition ed = EndOfLine \<and> container caret = container atHR
              \<and> offset caret = offset atHR + 1
             \<longrightarrow> HandleDeleteHRElement prefs cs scanner ed ePrevious hr caret
                   = HandleDeleteAtomicContent cs ed hr caret)
         \<and> (\<not> (interlinePosition ed = EndOfLine \<and> container caret = container atHR
                 \<and> offset caret = offset atHR + 1)
              \<and> moved = ed\<lparr>selection := [\<lparr>startRef = NextPoint atHR, endRef = NextPoint atHR\<rparr>],
                             interlinePosition := EndOfLine,
                             mDidExplicitlySetInterLine := True\<rparr>
              \<and> CollapseSelectionToResult cs ed (NextPoint atHR) = NS_OK
              \<and> SetInterlinePositionResult cs
                    (ed\<lparr>selection := [\<lparr>startRef = NextPoint atHR, endRef = NextPoint atHR\<rparr>]\<rparr>)
                    EndOfLine = NS_OK
              \<and> reached = ScanNextVisibleNodeOrBlockBoundaryFrom scanner (document ed) caret
              \<and> \<not> Failed reached
             \<longrightarrow> document moved = document ed
                 \<and> (\<not> ReachedBRElement reached
                      \<longrightarrow> HandleDeleteHRElement prefs cs scanner ed ePrevious hr caret
                            = (Inr HandledResult, moved))
                 \<and> (ReachedBRElement reached \<and> mContent reached = Some br
                      \<longrightarrow> HandleDeleteHRElement prefs cs scanner ed ePrevious hr caret
                            = (case DeleteContentNodeAndJoinTextNodes cs moved br caret of
                                 (rv, ed3) \<Rightarrow>
                                   if NS_FAILED rv then (Inl rv, ed3)
                                   else (Inr HandledResult, ed3))))"
proof -
  have wrap: "(UInt32Minus (offset caret) 1 = offset atHR) = (offset caret = offset atHR + 1)"
  proof (cases "offset caret = 0")
    case True
    thus ?thesis using assms(5) by (simp add: UInt32Minus_def)
  next
    case False
    have "offset caret - 1 < 2 ^ 32" using assms(4) by arith
    hence "(offset caret - 1 + 2 ^ 32) mod 2 ^ 32 = offset caret - 1"
      by (simp only: mod_add_self2 mod_less)
    moreover have "offset caret + 2 ^ 32 - 1 = offset caret - 1 + 2 ^ 32"
      using False by arith
    ultimately have "UInt32Minus (offset caret) 1 = offset caret - 1"
      by (simp only: UInt32Minus_def)
    thus ?thesis using False by auto
  qed
  have should: "ShouldDeleteHRElement prefs ed ePrevious hr caret
           = Inr (interlinePosition ed = EndOfLine \<and> container caret = container atHR
                  \<and> offset caret = offset atHR + 1)"
    using assms(1,2,3) wrap by (simp add: ShouldDeleteHRElement_def)
  have after: "After (document ed) hr = Some (NextPoint atHR)"
    using assms(3) by (simp add: After_def)
  show ?thesis
    unfolding should HandleDeleteHRElement_def
    by (auto simp: MoveCaretAfterHRElement_def after CollapseSelectionTo_def
                   SetInterlinePosition_def Let_def)
qed

theorem C6_witness:
  "HandleDeleteHRElement noDeleteFromFollowingLine plainCaretServices childScanner
       (EditorOn ruleDoc [CaretAt 1 2]) ePrevious ruleElement \<lparr>container = 1, offset = 2\<rparr>
     = (Inr HandledResult,
        (EditorOn
           (Content 1 (Element ''body'')
              [Content 2 (Text [0x61]) [], ruleElement, Content 5 (Text [0x62]) []])
           [CaretAt 1 2])
          \<lparr>interlinePosition := EndOfLine, mDidExplicitlySetInterLine := True\<rparr>)
   \<and> HandleDeleteHRElement noDeleteFromFollowingLine plainCaretServices childScanner
       ((EditorOn ruleDoc [CaretAt 1 2])\<lparr>interlinePosition := EndOfLine\<rparr>) ePrevious
       ruleElement \<lparr>container = 1, offset = 2\<rparr>
     = (Inr HandledResult,
        (EditorOn
           (Content 1 (Element ''body'')
              [Content 2 (Text [0x61]) [], Content 4 (Element ''br'') [],
               Content 5 (Text [0x62]) []])
           [CaretAt 1 1])
          \<lparr>interlinePosition := EndOfLine\<rparr>)"
proof -
  let ?caret = "\<lparr>container = 1, offset = 2\<rparr>"
  let ?atHR = "\<lparr>container = 1, offset = 1\<rparr>"
  let ?ed = "EditorOn ruleDoc [CaretAt 1 2]"
  let ?ed' = "(EditorOn ruleDoc [CaretAt 1 2])\<lparr>interlinePosition := EndOfLine\<rparr>"
  let ?moved = "?ed\<lparr>selection := [\<lparr>startRef = NextPoint ?atHR, endRef = NextPoint ?atHR\<rparr>],
                     interlinePosition := EndOfLine, mDidExplicitlySetInterLine := True\<rparr>"
  let ?reached = "ScanNextVisibleNodeOrBlockBoundaryFrom childScanner (document ?ed) ?caret"
  have p: "\<not> editor_hr_element_allow_to_delete_from_following_line noDeleteFromFollowingLine"
    by code_simp
  have i: "interlinePosition ?ed \<noteq> Undefined" by code_simp
  have i': "interlinePosition ?ed' \<noteq> Undefined" by code_simp
  have a: "AtContent (document ?ed) ruleElement = Some ?atHR" by code_simp
  have a': "AtContent (document ?ed') ruleElement = Some ?atHR" by code_simp
  have o1: "offset ?caret < 2 ^ 32" by simp
  have o2: "offset ?atHR < 2 ^ 32 - 1" by simp
  have n: "\<not> (interlinePosition ?ed = EndOfLine \<and> container ?caret = container ?atHR
               \<and> offset ?caret = offset ?atHR + 1)"
    by code_simp
  have y: "interlinePosition ?ed' = EndOfLine \<and> container ?caret = container ?atHR
             \<and> offset ?caret = offset ?atHR + 1"
    by code_simp
  have c: "CollapseSelectionToResult plainCaretServices ?ed (NextPoint ?atHR) = NS_OK"
    by (simp add: plainCaretServices_def)
  have s: "SetInterlinePositionResult plainCaretServices
             (?ed\<lparr>selection := [\<lparr>startRef = NextPoint ?atHR, endRef = NextPoint ?atHR\<rparr>]\<rparr>)
             EndOfLine = NS_OK"
    by (simp add: plainCaretServices_def)
  have f: "\<not> Failed ?reached" by code_simp
  have b: "ReachedBRElement ?reached \<and> mContent ?reached = Some (Content 4 (Element ''br'') [])"
    by code_simp
  have r1: "(case DeleteContentNodeAndJoinTextNodes plainCaretServices ?moved
                    (Content 4 (Element ''br'') []) ?caret of
               (rv, ed3) \<Rightarrow>
                 if NS_FAILED rv then (Inl rv, ed3) else (Inr HandledResult, ed3))
            = (Inr HandledResult,
               (EditorOn
                  (Content 1 (Element ''body'')
                     [Content 2 (Text [0x61]) [], ruleElement, Content 5 (Text [0x62]) []])
                  [CaretAt 1 2])
                 \<lparr>interlinePosition := EndOfLine, mDidExplicitlySetInterLine := True\<rparr>)"
    by code_simp
  have r2: "HandleDeleteAtomicContent plainCaretServices ?ed' ruleElement ?caret
            = (Inr HandledResult,
               (EditorOn
                  (Content 1 (Element ''body'')
                     [Content 2 (Text [0x61]) [], Content 4 (Element ''br'') [],
                      Content 5 (Text [0x62]) []])
                  [CaretAt 1 1])
                 \<lparr>interlinePosition := EndOfLine\<rparr>)"
    by code_simp
  have m: "HandleDeleteHRElement noDeleteFromFollowingLine plainCaretServices childScanner
             ?ed ePrevious ruleElement ?caret
           = (case DeleteContentNodeAndJoinTextNodes plainCaretServices ?moved
                    (Content 4 (Element ''br'') []) ?caret of
               (rv, ed3) \<Rightarrow>
                 if NS_FAILED rv then (Inl rv, ed3) else (Inr HandledResult, ed3))"
    using C6_hr_element [where cs = plainCaretServices and scanner = childScanner
        and moved = ?moved and reached = ?reached and br = "Content 4 (Element ''br'') []",
        OF p i a o1 o2] n c s f b
    by blast
  have d: "HandleDeleteHRElement noDeleteFromFollowingLine plainCaretServices childScanner
             ?ed' ePrevious ruleElement ?caret
           = HandleDeleteAtomicContent plainCaretServices ?ed' ruleElement ?caret"
    using C6_hr_element [where cs = plainCaretServices and scanner = childScanner,
        OF p i' a' o1 o2] y
    by blast
  show ?thesis using m d r1 r2 by simp
qed


subsection \<open>The deleter of empty block ancestors\<close>

lemma ClosestEditableBlockElement_split:
  "ClosestEditableBlockElement eb xs = Some (e, r) \<Longrightarrow>
     \<exists>pre. xs = pre @ e # r \<and> IsElement e \<and> IsEditable eb e \<and> IsBlockElement eb e
           \<and> (\<forall>b\<in>set pre. IsEditable eb b \<and> \<not> (IsElement b \<and> IsBlockElement eb b))"
proof (induction xs)
  case Nil
  thus ?case by simp
next
  case (Cons x xs)
  show ?case
  proof (cases "IsElement x \<and> IsBlockElement eb x")
    case True
    with Cons.prems have "x = e" "xs = r" "IsEditable eb x"
      by (auto split: if_splits)
    with True show ?thesis by (intro exI [of _ "[]"]) simp
  next
    case False
    with Cons.prems have ed: "IsEditable eb x"
      and rest: "ClosestEditableBlockElement eb xs = Some (e, r)"
      by (auto split: if_splits)
    from Cons.IH [OF rest] obtain pre where
      "xs = pre @ e # r" "IsElement e" "IsEditable eb e" "IsBlockElement eb e"
      "\<forall>b\<in>set pre. IsEditable eb b \<and> \<not> (IsElement b \<and> IsBlockElement eb b)"
      by blast
    with False ed show ?thesis by (intro exI [of _ "x # pre"]) auto
  qed
qed

lemma ScanLoop_invariant:
  "(\<forall>el anc. x = Some (el, anc) \<longrightarrow> IsElement el \<and> IsEditable eb el \<and> IsBlockElement eb el) \<Longrightarrow>
   (ScanLoop cs eb doc m x = m \<and> (\<forall>el anc. x = Some (el, anc) \<longrightarrow> \<not> IsEmptyBlockToDelete cs eb doc el))
   \<or> (\<exists>el anc e r mid. x = Some (el, anc) \<and> ScanLoop cs eb doc m x = Some (e, r)
         \<and> el # anc = mid @ e # r
         \<and> IsElement e \<and> IsEditable eb e \<and> IsBlockElement eb e \<and> IsEmptyBlockToDelete cs eb doc e
         \<and> (\<forall>b\<in>set mid. IsElement b \<longrightarrow> IsEditable eb b)
         \<and> (\<forall>b\<in>set mid. IsElement b \<and> IsBlockElement eb b \<longrightarrow> IsEmptyBlockToDelete cs eb doc b)
         \<and> (\<forall>n r'. GetAncestorElement eb r = Some (n, r') \<longrightarrow> \<not> IsEmptyBlockToDelete cs eb doc n))"
proof (induction cs eb doc m x rule: ScanLoop.induct)
  case (1 cs eb doc m)
  show ?case by simp
next
  case (2 cs eb doc m element ancestors)
  have good: "IsElement element" "IsEditable eb element" "IsBlockElement eb element"
    using "2.prems" by auto
  show ?case
  proof (cases "IsEmptyBlockToDelete cs eb doc element")
    case False
    thus ?thesis by simp
  next
    case True
    have next_good: "\<forall>el anc. GetAncestorElement eb ancestors = Some (el, anc)
                       \<longrightarrow> IsElement el \<and> IsEditable eb el \<and> IsBlockElement eb el"
      using ClosestEditableBlockElement_split [of eb ancestors]
      by (auto simp: GetAncestorElement_def)
    have step: "ScanLoop cs eb doc m (Some (element, ancestors))
                  = ScanLoop cs eb doc (Some (element, ancestors))
                      (GetAncestorElement eb ancestors)"
      using True by simp
    from "2.IH" [OF True next_good]
    consider
      (stay) "ScanLoop cs eb doc (Some (element, ancestors)) (GetAncestorElement eb ancestors)
                = Some (element, ancestors)"
             "\<forall>el anc. GetAncestorElement eb ancestors = Some (el, anc)
                  \<longrightarrow> \<not> IsEmptyBlockToDelete cs eb doc el"
    | (up) el anc e r mid where
        "GetAncestorElement eb ancestors = Some (el, anc)"
        "ScanLoop cs eb doc (Some (element, ancestors)) (GetAncestorElement eb ancestors)
           = Some (e, r)"
        "el # anc = mid @ e # r"
        "IsElement e" "IsEditable eb e" "IsBlockElement eb e" "IsEmptyBlockToDelete cs eb doc e"
        "\<forall>b\<in>set mid. IsElement b \<longrightarrow> IsEditable eb b"
        "\<forall>b\<in>set mid. IsElement b \<and> IsBlockElement eb b \<longrightarrow> IsEmptyBlockToDelete cs eb doc b"
        "\<forall>n r'. GetAncestorElement eb r = Some (n, r') \<longrightarrow> \<not> IsEmptyBlockToDelete cs eb doc n"
      by blast
    thus ?thesis
    proof cases
      case stay
      have "\<exists>el anc e r mid. Some (element, ancestors) = Some (el, anc)
              \<and> ScanLoop cs eb doc m (Some (element, ancestors)) = Some (e, r)
              \<and> el # anc = mid @ e # r
              \<and> IsElement e \<and> IsEditable eb e \<and> IsBlockElement eb e
              \<and> IsEmptyBlockToDelete cs eb doc e
              \<and> (\<forall>b\<in>set mid. IsElement b \<longrightarrow> IsEditable eb b)
              \<and> (\<forall>b\<in>set mid. IsElement b \<and> IsBlockElement eb b
                    \<longrightarrow> IsEmptyBlockToDelete cs eb doc b)
              \<and> (\<forall>n r'. GetAncestorElement eb r = Some (n, r')
                    \<longrightarrow> \<not> IsEmptyBlockToDelete cs eb doc n)"
        apply (rule exI [of _ element], rule exI [of _ ancestors])
        apply (rule exI [of _ element], rule exI [of _ ancestors], rule exI [of _ "[]"])
        using stay good True step by simp
      thus ?thesis by blast
    next
      case up
      from up(1) obtain pre where pre: "ancestors = pre @ el # anc"
        "\<forall>b\<in>set pre. IsEditable eb b \<and> \<not> (IsElement b \<and> IsBlockElement eb b)"
        using ClosestEditableBlockElement_split [of eb ancestors el anc]
        by (auto simp: GetAncestorElement_def)
      have chain: "element # ancestors = (element # pre @ mid) @ e # r"
        using pre(1) up(3) by simp
      have "\<exists>el anc e r mid. Some (element, ancestors) = Some (el, anc)
              \<and> ScanLoop cs eb doc m (Some (element, ancestors)) = Some (e, r)
              \<and> el # anc = mid @ e # r
              \<and> IsElement e \<and> IsEditable eb e \<and> IsBlockElement eb e
              \<and> IsEmptyBlockToDelete cs eb doc e
              \<and> (\<forall>b\<in>set mid. IsElement b \<longrightarrow> IsEditable eb b)
              \<and> (\<forall>b\<in>set mid. IsElement b \<and> IsBlockElement eb b
                    \<longrightarrow> IsEmptyBlockToDelete cs eb doc b)
              \<and> (\<forall>n r'. GetAncestorElement eb r = Some (n, r')
                    \<longrightarrow> \<not> IsEmptyBlockToDelete cs eb doc n)"
        apply (rule exI [of _ element], rule exI [of _ ancestors])
        apply (rule exI [of _ e], rule exI [of _ r], rule exI [of _ "element # pre @ mid"])
        using up(2,4-10) pre(2) good True step chain by auto
      thus ?thesis by blast
    qed
  qed
qed

lemma FindContent_ids:
  "FindContent j c = Some n \<Longrightarrow> set (ContentIds n) \<subseteq> set (ContentIds c) \<and> nodeId n = j"
  "FindInChildren j cs = Some n \<Longrightarrow> set (ContentIds n) \<subseteq> set (ForestIds cs) \<and> nodeId n = j"
proof (induction j c and j cs rule: FindContent_FindInChildren.induct)
  case (1 i j k cs)
  thus ?case by (auto simp: ForestIds_def split: if_splits)
next
  case (2 i)
  thus ?case by simp
next
  case (3 i c cs)
  thus ?case by (auto simp: ForestIds_def split: option.splits)
qed

lemma ApplyToContent_None:
  "(ApplyToContent j f c = None) = (FindContent j c = None)"
  "(ApplyToChildren j f cs = None) = (FindInChildren j cs = None)"
  by (induction j f c and j f cs rule: ApplyToContent_ApplyToChildren.induct)
     (auto split: option.splits)

lemma InclusiveAncestors_ids:
  "b \<in> set (InclusiveAncestors i c) \<Longrightarrow> nodeId b \<in> set (ContentIds c)"
  "b \<in> set (InclusiveAncestorsAmong i cs) \<Longrightarrow> nodeId b \<in> set (ForestIds cs)"
proof (induction i c and i cs rule: InclusiveAncestors_InclusiveAncestorsAmong.induct)
  case (1 i j k cs)
  thus ?case by (auto simp: ForestIds_def split: list.splits if_splits)
next
  case (2 i)
  thus ?case by simp
next
  case (3 i c cs)
  thus ?case by (auto simp: ForestIds_def split: list.splits)
qed

lemma removal_ids:
  "\<forall>n. snd (f n) = [] \<Longrightarrow> ApplyToContent j f c = Some (r, cs') \<Longrightarrow> distinct (ContentIds c)
     \<Longrightarrow> \<exists>n. FindContent j c = Some n \<and> set (ForestIds cs') \<inter> set (ContentIds n) = {}"
  "\<forall>n. snd (f n) = [] \<Longrightarrow> ApplyToChildren j f cs = Some (r, cs') \<Longrightarrow> distinct (ForestIds cs)
     \<Longrightarrow> \<exists>n. FindInChildren j cs = Some n \<and> set (ForestIds cs') \<inter> set (ContentIds n) = {}"
proof (induction j f c and j f cs arbitrary: r cs' and r cs'
       rule: ApplyToContent_ApplyToChildren.induct)
  case (1 i f j k cs)
  show ?case
  proof (cases "i = j")
    case True
    with "1.prems" have "cs' = []"
      by (metis ApplyToContent.simps option.inject prod.collapse prod.inject)
    with True show ?thesis by (simp add: ForestIds_def)
  next
    case False
    with "1.prems"(2) obtain cs1 where
      a: "ApplyToChildren i f cs = Some (r, cs1)" and c: "cs' = [Content j k cs1]"
      by (auto split: option.splits)
    have d: "distinct (ForestIds cs)" and nj: "j \<notin> set (ForestIds cs)"
      using "1.prems"(3) by (simp_all add: ForestIds_def)
    from "1.IH" [OF False "1.prems"(1) a d] obtain n where
      n: "FindInChildren i cs = Some n" "set (ForestIds cs1) \<inter> set (ContentIds n) = {}"
      by blast
    have "set (ContentIds n) \<subseteq> set (ForestIds cs)" using FindContent_ids(2) [OF n(1)] by simp
    hence "j \<notin> set (ContentIds n)" using nj by blast
    hence "set (ForestIds cs') \<inter> set (ContentIds n) = {}"
      using n(2) c by (simp add: ForestIds_def)
    moreover have "FindContent i (Content j k cs) = Some n" using False n(1) by simp
    ultimately show ?thesis by blast
  qed
next
  case (2 i f)
  thus ?case by simp
next
  case (3 i f c cs)
  have dc: "distinct (ContentIds c)" and dcs: "distinct (ForestIds cs)"
    and disj: "set (ContentIds c) \<inter> set (ForestIds cs) = {}"
    using "3.prems"(3) by (simp_all add: ForestIds_def)
  show ?case
  proof (cases "ApplyToContent i f c")
    case (Some res)
    then obtain r1 cs1 where res: "ApplyToContent i f c = Some (r1, cs1)"
      by (cases res) simp
    with "3.prems"(2) have eq: "r = r1" "cs' = cs1 @ cs" by simp_all
    from "3.IH"(1) [OF "3.prems"(1) res dc] obtain n where
      n: "FindContent i c = Some n" "set (ForestIds cs1) \<inter> set (ContentIds n) = {}"
      by blast
    have "set (ContentIds n) \<subseteq> set (ContentIds c)" using FindContent_ids(1) [OF n(1)] by simp
    hence "set (ForestIds cs) \<inter> set (ContentIds n) = {}" using disj by blast
    hence "set (ForestIds cs') \<inter> set (ContentIds n) = {}"
      using n(2) eq(2) by (auto simp: ForestIds_def)
    moreover have "FindInChildren i (c # cs) = Some n" using n(1) by simp
    ultimately show ?thesis by blast
  next
    case None
    with "3.prems"(2) obtain cs2 where
      a: "ApplyToChildren i f cs = Some (r, cs2)" and c: "cs' = c # cs2"
      by (auto split: option.splits)
    from "3.IH"(2) [OF None "3.prems"(1) a dcs] obtain n where
      n: "FindInChildren i cs = Some n" "set (ForestIds cs2) \<inter> set (ContentIds n) = {}"
      by blast
    have "set (ContentIds n) \<subseteq> set (ForestIds cs)" using FindContent_ids(2) [OF n(1)] by simp
    hence "set (ContentIds c) \<inter> set (ContentIds n) = {}" using disj by blast
    hence "set (ForestIds cs') \<inter> set (ContentIds n) = {}"
      using n(2) c by (auto simp: ForestIds_def)
    moreover have "FindInChildren i (c # cs) = Some n"
      using n(1) None ApplyToContent_None(1) [of i f c] by simp
    ultimately show ?thesis by blast
  qed
qed

lemma nodeId_in_ContentIds: "nodeId n \<in> set (ContentIds n)"
  by (cases n) simp

lemma InclusiveAncestors_find:
  "InclusiveAncestors i c = below @ e # upper \<Longrightarrow> distinct (ContentIds c)
     \<Longrightarrow> FindContent (nodeId e) c = Some e \<and> (\<forall>b\<in>set below. nodeId b \<in> set (ContentIds e))"
  "InclusiveAncestorsAmong i cs = below @ e # upper \<Longrightarrow> distinct (ForestIds cs)
     \<Longrightarrow> FindInChildren (nodeId e) cs = Some e
         \<and> (\<forall>b\<in>set below. nodeId b \<in> set (ContentIds e))"
proof (induction i c and i cs arbitrary: below e upper and below e upper
       rule: InclusiveAncestors_InclusiveAncestorsAmong.induct)
  case (1 i j k cs)
  let ?c = "Content j k cs"
  have d: "distinct (ForestIds cs)" and nj: "j \<notin> set (ForestIds cs)"
    using "1.prems"(2) by (simp_all add: ForestIds_def)
  show ?case
  proof (cases "i = j")
    case True
    with "1.prems"(1) have "[?c] = below @ e # upper" by simp
    hence "below = []" "e = ?c" by (simp_all add: Cons_eq_append_conv)
    thus ?thesis by simp
  next
    case False
    define path where "path = InclusiveAncestorsAmong i cs"
    have chain: "path @ [?c] = below @ e # upper" and ne: "path \<noteq> []"
      using "1.prems"(1) False by (auto simp: path_def split: list.splits)
    show ?thesis
    proof (cases upper rule: rev_cases)
      case Nil
      with chain have "below = path" "e = ?c" by simp_all
      moreover have "\<forall>b\<in>set path. nodeId b \<in> set (ContentIds ?c)"
        using InclusiveAncestors_ids(2) [of _ i cs] by (auto simp: path_def ForestIds_def)
      ultimately show ?thesis by simp
    next
      case (snoc upper' l)
      with chain have p: "path = below @ e # upper'" by simp
      hence "InclusiveAncestorsAmong i cs = below @ e # upper'" by (simp add: path_def)
      from "1.IH" [OF False this d] have
        f: "FindInChildren (nodeId e) cs = Some e"
        and b: "\<forall>b\<in>set below. nodeId b \<in> set (ContentIds e)"
        by simp_all
      have "e \<in> set (InclusiveAncestorsAmong i cs)" using p by (simp add: path_def)
      hence "nodeId e \<in> set (ForestIds cs)" by (rule InclusiveAncestors_ids(2))
      hence "nodeId e \<noteq> j" using nj by blast
      thus ?thesis using f b by simp
    qed
  qed
next
  case (2 i)
  thus ?case by simp
next
  case (3 i c cs)
  have dc: "distinct (ContentIds c)" and dcs: "distinct (ForestIds cs)"
    and disj: "set (ContentIds c) \<inter> set (ForestIds cs) = {}"
    using "3.prems"(2) by (simp_all add: ForestIds_def)
  show ?case
  proof (cases "InclusiveAncestors i c")
    case Nil
    with "3.prems"(1) have chain: "InclusiveAncestorsAmong i cs = below @ e # upper" by simp
    from "3.IH"(2) [OF Nil chain dcs] have
      f: "FindInChildren (nodeId e) cs = Some e"
      and b: "\<forall>b\<in>set below. nodeId b \<in> set (ContentIds e)"
      by simp_all
    have "e \<in> set (InclusiveAncestorsAmong i cs)" using chain by simp
    hence "nodeId e \<in> set (ForestIds cs)" by (rule InclusiveAncestors_ids(2))
    hence notin: "nodeId e \<notin> set (ContentIds c)" using disj by blast
    have "FindContent (nodeId e) c = None"
    proof (cases "FindContent (nodeId e) c")
      case None
      thus ?thesis .
    next
      case (Some n)
      from FindContent_ids(1) [OF Some] nodeId_in_ContentIds [of n]
      have "nodeId e \<in> set (ContentIds c)" by auto
      with notin show ?thesis by simp
    qed
    thus ?thesis using f b by simp
  next
    case (Cons n path)
    with "3.prems"(1) have chain: "InclusiveAncestors i c = below @ e # upper" by simp
    from "3.IH"(1) [OF chain dc] show ?thesis by simp
  qed
qed

lemma DeleteNodeIn_removes_chain:
  assumes chain: "InclusiveAncestors i doc = below @ e # upper"
    and dist: "distinct (ContentIds doc)"
    and del: "DeleteNodeIn env doc e = (rv, doc')"
    and ok: "\<not> NS_FAILED rv"
  shows "\<forall>b\<in>set (below @ [e]). nodeId b \<notin> set (ContentIds doc')"
proof -
  obtain d k cs where doc: "doc = Content d k cs" by (cases doc)
  have dcs: "distinct (ForestIds cs)" and nd: "d \<notin> set (ForestIds cs)"
    using dist doc by (simp_all add: ForestIds_def)
  from del ok obtain r cs' where
    a: "ApplyToChildren (nodeId e) (\<lambda>n. (DeleteNodeWithTransaction env e, [])) cs = Some (r, cs')"
    and doc': "doc' = Content d k cs'"
    by (auto simp: DeleteNodeIn_def UpdateDocument_def doc Let_def NS_FAILED_def
             split: if_splits option.splits)
  have "\<forall>n. snd ((\<lambda>n. (DeleteNodeWithTransaction env e, [])) n) = []" by simp
  from removal_ids(2) [OF this a dcs] obtain n where
    n: "FindInChildren (nodeId e) cs = Some n" "set (ForestIds cs') \<inter> set (ContentIds n) = {}"
    by blast
  have sub: "set (ContentIds n) \<subseteq> set (ForestIds cs)" and idn: "nodeId n = nodeId e"
    using FindContent_ids(2) [OF n(1)] by simp_all
  hence "nodeId e \<noteq> d" using nd nodeId_in_ContentIds [of n] by auto
  hence "FindContent (nodeId e) doc = Some n" using n(1) doc by simp
  moreover from InclusiveAncestors_find(1) [OF chain dist] have
    "FindContent (nodeId e) doc = Some e" "\<forall>b\<in>set below. nodeId b \<in> set (ContentIds e)"
    by simp_all
  ultimately have e: "n = e" and b: "\<forall>b\<in>set below. nodeId b \<in> set (ContentIds e)"
    by simp_all
  have "d \<notin> set (ContentIds e)" using sub nd e by blast
  hence "set (ContentIds doc') \<inter> set (ContentIds e) = {}"
    using n(2) e doc' by (simp add: ForestIds_def)
  thus ?thesis using b nodeId_in_ContentIds [of e] by auto
qed

lemma GetInclusiveAncestorElement_split:
  assumes "GetInclusiveAncestorElement eb chain = Some (e, r)"
  shows "\<exists>pre. chain = pre @ e # r \<and> IsElement e \<and> IsEditable eb e \<and> IsBlockElement eb e
           \<and> (\<forall>b\<in>set pre. IsElement b \<longrightarrow> IsEditable eb b \<and> \<not> IsBlockElement eb b)"
proof (cases chain)
  case Nil
  with assms show ?thesis by (simp add: GetInclusiveAncestorElement_def)
next
  case (Cons c ancestors)
  show ?thesis
  proof (cases "IsElement c")
    case True
    with assms Cons have "ClosestEditableBlockElement eb chain = Some (e, r)"
      by (simp add: GetInclusiveAncestorElement_def)
    from ClosestEditableBlockElement_split [OF this] show ?thesis by blast
  next
    case False
    with assms Cons have "ClosestEditableBlockElement eb ancestors = Some (e, r)"
      by (simp add: GetInclusiveAncestorElement_def GetAncestorElement_def)
    from ClosestEditableBlockElement_split [OF this] obtain pre where
      pre: "ancestors = pre @ e # r" "IsElement e" "IsEditable eb e" "IsBlockElement eb e"
      "\<forall>b\<in>set pre. IsEditable eb b \<and> \<not> (IsElement b \<and> IsBlockElement eb b)"
      by blast
    have "chain = (c # pre) @ e # r" using Cons pre(1) by simp
    moreover have "\<forall>b\<in>set (c # pre). IsElement b \<longrightarrow> IsEditable eb b \<and> \<not> IsBlockElement eb b"
      using False pre(5) by auto
    ultimately show ?thesis using pre(2-4) by blast
  qed
qed

text \<open>
  Claim C9.  The scan is a total function: its loop goes from a block element to one of its
  proper ancestors, and the chain of ancestors is finite.  When it finds an element, the
  element is an editable, removable and empty block element among the inclusive ancestors
  of the start content, it is no table element and it has a parent element.  Every block
  element below it on the way from the start content is empty and removable as well, so it
  goes away with the found element; the closest editable block element above it, if any, is
  not such an element.  A block element on the way that is not removable from its parent,
  as the editing host is, lies properly above the found element.  A successful run of the
  deleter is handled, and its document is the document after the caret was placed, with the
  found element deleted by one deletion; placing the caret leaves the document as it is
  unless the element is a list item.  So, when the identities of the nodes of the document
  are distinct and the element is no list item, neither the found element nor anything
  below it on the way from the start content is in the document after a successful run.
\<close>

theorem C9_empty_ancestor_cleanup:
  assumes "ScanEmptyBlockInclusiveAncestor cs eb doc start = Some e"
  shows "\<exists>below above.
           InclusiveAncestors (nodeId start) doc = below @ e # above
           \<and> IsElement e \<and> IsEditable eb e \<and> IsBlockElement eb e
           \<and> IsRemovableFromParentNode cs doc e \<and> \<not> IsAnyTableElement e \<and> IsEmptyNode eb e
           \<and> GetParentElement doc e \<noteq> None
           \<and> (\<forall>b\<in>set below. IsElement b \<and> IsBlockElement eb b
                 \<longrightarrow> IsEmptyBlockToDelete cs eb doc b)
           \<and> (\<forall>n r. GetAncestorElement eb above = Some (n, r)
                 \<longrightarrow> \<not> IsEmptyBlockToDelete cs eb doc n)
           \<and> (\<forall>host\<in>set (InclusiveAncestors (nodeId start) doc).
                 IsElement host \<and> IsBlockElement eb host
                 \<and> \<not> IsRemovableFromParentNode cs doc host
                 \<longrightarrow> host \<in> set above)
           \<and> (RunEmptyBlockAncestorDeleter env svc cs eb ed dir e = (Inr result, ed')
                 \<longrightarrow> result = HandledResult
                     \<and> \<not> NS_FAILED (fst (PlaceCaretForEmptyBlock svc cs eb ed dir e))
                     \<and> \<not> NS_FAILED
                           (fst (DeleteNodeIn env
                                   (document (snd (PlaceCaretForEmptyBlock svc cs eb ed dir e))) e))
                     \<and> document ed'
                         = snd (DeleteNodeIn env
                                  (document (snd (PlaceCaretForEmptyBlock svc cs eb ed dir e))) e)
                     \<and> (\<not> IsListItem e
                          \<longrightarrow> document (snd (PlaceCaretForEmptyBlock svc cs eb ed dir e))
                                = document ed))
           \<and> (document ed = doc \<and> \<not> IsListItem e \<and> distinct (ContentIds doc)
               \<and> RunEmptyBlockAncestorDeleter env svc cs eb ed dir e = (Inr result, ed')
                 \<longrightarrow> (\<forall>b\<in>set (below @ [e]). nodeId b \<notin> set (ContentIds (document ed'))))"
proof -
  let ?chain = "InclusiveAncestors (nodeId start) doc"
  from assms obtain e0 r0 r where
    first: "GetInclusiveAncestorElement eb ?chain = Some (e0, r0)"
    and loop: "ScanLoop cs eb doc None (Some (e0, r0)) = Some (e, r)"
    and parent: "GetParentElement doc e \<noteq> None"
    by (auto simp: ScanEmptyBlockInclusiveAncestor_def split: option.splits if_splits)
  from GetInclusiveAncestorElement_split [OF first] obtain pre where
    pre: "?chain = pre @ e0 # r0" "IsElement e0" "IsEditable eb e0" "IsBlockElement eb e0"
    "\<forall>b\<in>set pre. IsElement b \<longrightarrow> IsEditable eb b \<and> \<not> IsBlockElement eb b"
    by blast
  have "\<forall>el anc. Some (e0, r0) = Some (el, anc)
          \<longrightarrow> IsElement el \<and> IsEditable eb el \<and> IsBlockElement eb el"
    using pre(2-4) by simp
  from ScanLoop_invariant [OF this, of cs doc None] loop
  obtain mid where
    mid: "e0 # r0 = mid @ e # r"
    "IsElement e" "IsEditable eb e" "IsBlockElement eb e" "IsEmptyBlockToDelete cs eb doc e"
    "\<forall>b\<in>set mid. IsElement b \<and> IsBlockElement eb b \<longrightarrow> IsEmptyBlockToDelete cs eb doc b"
    "\<forall>n r'. GetAncestorElement eb r = Some (n, r') \<longrightarrow> \<not> IsEmptyBlockToDelete cs eb doc n"
    by auto
  have chain: "?chain = (pre @ mid) @ e # r" using pre(1) mid(1) by simp
  have below: "\<forall>b\<in>set (pre @ mid). IsElement b \<and> IsBlockElement eb b
                 \<longrightarrow> IsEmptyBlockToDelete cs eb doc b"
    using pre(5) mid(6) by auto
  have host: "\<forall>host\<in>set ?chain.
                 IsElement host \<and> IsBlockElement eb host
                 \<and> \<not> IsRemovableFromParentNode cs doc host
                 \<longrightarrow> host \<in> set r"
  proof (intro ballI impI)
    fix host
    assume h: "host \<in> set ?chain"
      and n: "IsElement host \<and> IsBlockElement eb host
              \<and> \<not> IsRemovableFromParentNode cs doc host"
    hence notDel: "\<not> IsEmptyBlockToDelete cs eb doc host"
      by (simp add: IsEmptyBlockToDelete_def)
    from h chain have "host \<in> set (pre @ mid) \<or> host = e \<or> host \<in> set r" by auto
    thus "host \<in> set r" using notDel below n mid(5) by blast
  qed
  have run: "RunEmptyBlockAncestorDeleter env svc cs eb ed dir e = (Inr result, ed')
               \<longrightarrow> result = HandledResult
                   \<and> \<not> NS_FAILED (fst (PlaceCaretForEmptyBlock svc cs eb ed dir e))
                   \<and> \<not> NS_FAILED
                         (fst (DeleteNodeIn env
                                 (document (snd (PlaceCaretForEmptyBlock svc cs eb ed dir e))) e))
                   \<and> document ed'
                       = snd (DeleteNodeIn env
                                (document (snd (PlaceCaretForEmptyBlock svc cs eb ed dir e))) e)"
    by (auto simp: RunEmptyBlockAncestorDeleter_def DeleteNodeOn_def WithDocument_def
             split: prod.splits if_splits)
  have place: "\<not> IsListItem e
                 \<longrightarrow> document (snd (PlaceCaretForEmptyBlock svc cs eb ed dir e)) = document ed"
    by (auto simp: PlaceCaretForEmptyBlock_def CollapseSelectionTo_def Let_def
             split: sum.splits option.splits)
  have gone: "document ed = doc \<and> \<not> IsListItem e \<and> distinct (ContentIds doc)
               \<and> RunEmptyBlockAncestorDeleter env svc cs eb ed dir e = (Inr result, ed')
                 \<longrightarrow> (\<forall>b\<in>set ((pre @ mid) @ [e]).
                        nodeId b \<notin> set (ContentIds (document ed')))"
  proof (intro impI, elim conjE)
    assume d: "document ed = doc" and l: "\<not> IsListItem e"
      and dist: "distinct (ContentIds doc)"
      and ran: "RunEmptyBlockAncestorDeleter env svc cs eb ed dir e = (Inr result, ed')"
    from place l d have
      p: "document (snd (PlaceCaretForEmptyBlock svc cs eb ed dir e)) = doc"
      by simp
    from run ran p have
      "\<not> NS_FAILED (fst (DeleteNodeIn env doc e))"
      "document ed' = snd (DeleteNodeIn env doc e)"
      by simp_all
    with DeleteNodeIn_removes_chain
           [OF chain dist, of env "fst (DeleteNodeIn env doc e)" "snd (DeleteNodeIn env doc e)"]
    show "\<forall>b\<in>set ((pre @ mid) @ [e]). nodeId b \<notin> set (ContentIds (document ed'))"
      by simp
  qed
  have main: "InclusiveAncestors (nodeId start) doc = (pre @ mid) @ e # r
           \<and> IsElement e \<and> IsEditable eb e \<and> IsBlockElement eb e
           \<and> IsRemovableFromParentNode cs doc e \<and> \<not> IsAnyTableElement e \<and> IsEmptyNode eb e
           \<and> GetParentElement doc e \<noteq> None
           \<and> (\<forall>b\<in>set (pre @ mid). IsElement b \<and> IsBlockElement eb b
                 \<longrightarrow> IsEmptyBlockToDelete cs eb doc b)
           \<and> (\<forall>n r'. GetAncestorElement eb r = Some (n, r')
                 \<longrightarrow> \<not> IsEmptyBlockToDelete cs eb doc n)
           \<and> (\<forall>host\<in>set (InclusiveAncestors (nodeId start) doc).
                 IsElement host \<and> IsBlockElement eb host
                 \<and> \<not> IsRemovableFromParentNode cs doc host
                 \<longrightarrow> host \<in> set r)"
    using chain mid(2-5,7) parent below host
    unfolding IsEmptyBlockToDelete_def
    by blast
  show ?thesis
    apply (rule exI [of _ "pre @ mid"], rule exI [of _ r])
    using main run place gone
    by blast
qed

theorem C9_witness:
  "ScanEmptyBlockInclusiveAncestor plainCaretServices plainEmptyBlockServices nestedDoc
       (Content 5 (Text []) [])
     = Some emptyQuotation
   \<and> RunEmptyBlockAncestorDeleter liveCollaborators (plainServices False) plainCaretServices
         plainEmptyBlockServices nestedEditor ePrevious emptyQuotation
       = (Inr HandledResult,
          nestedEditor\<lparr>document := Content 1 (Element ''div'') [],
                       selection := [CaretAt 1 0]\<rparr>)
   \<and> (\<exists>below above.
         InclusiveAncestors 5 nestedDoc = below @ emptyQuotation # above
         \<and> nestedDoc \<in> set above
         \<and> (\<forall>b\<in>set below. IsElement b \<and> IsBlockElement plainEmptyBlockServices b
               \<longrightarrow> IsEmptyNode plainEmptyBlockServices b)
         \<and> (\<forall>b\<in>set (below @ [emptyQuotation]).
               nodeId b \<notin> set (ContentIds (Content 1 (Element ''div'') []))))"
proof -
  let ?start = "Content 5 (Text []) []"
  let ?after = "nestedEditor\<lparr>document := Content 1 (Element ''div'') [],
                             selection := [CaretAt 1 0]\<rparr>"
  have s: "ScanEmptyBlockInclusiveAncestor plainCaretServices plainEmptyBlockServices nestedDoc
             ?start = Some emptyQuotation"
    by code_simp
  have i: "nodeId ?start = 5" by simp
  have h1: "nestedDoc \<in> set (InclusiveAncestors 5 nestedDoc)" by code_simp
  have h2: "IsElement nestedDoc \<and> IsBlockElement plainEmptyBlockServices nestedDoc
            \<and> \<not> IsRemovableFromParentNode plainCaretServices nestedDoc nestedDoc"
    by code_simp
  have r: "RunEmptyBlockAncestorDeleter liveCollaborators (plainServices False)
             plainCaretServices plainEmptyBlockServices nestedEditor ePrevious emptyQuotation
           = (Inr HandledResult, ?after)"
    by code_simp
  have g1: "document nestedEditor = nestedDoc" by code_simp
  have g2: "\<not> IsListItem emptyQuotation" by code_simp
  have g3: "distinct (ContentIds nestedDoc)" by code_simp
  have g4: "document ?after = Content 1 (Element ''div'') []" by simp
  from C9_empty_ancestor_cleanup
         [where env = liveCollaborators and svc = "plainServices False" and ed = nestedEditor
            and dir = ePrevious and result = HandledResult and ed' = ?after, OF s]
  obtain below above where
    c: "InclusiveAncestors 5 nestedDoc = below @ emptyQuotation # above"
    and b: "\<forall>b\<in>set below. IsElement b \<and> IsBlockElement plainEmptyBlockServices b
              \<longrightarrow> IsEmptyBlockToDelete plainCaretServices plainEmptyBlockServices nestedDoc b"
    and h: "\<forall>host\<in>set (InclusiveAncestors 5 nestedDoc).
              IsElement host \<and> IsBlockElement plainEmptyBlockServices host
              \<and> \<not> IsRemovableFromParentNode plainCaretServices nestedDoc host
              \<longrightarrow> host \<in> set above"
    and g: "document nestedEditor = nestedDoc \<and> \<not> IsListItem emptyQuotation
            \<and> distinct (ContentIds nestedDoc)
            \<and> RunEmptyBlockAncestorDeleter liveCollaborators (plainServices False)
                  plainCaretServices plainEmptyBlockServices nestedEditor ePrevious
                  emptyQuotation = (Inr HandledResult, ?after)
            \<longrightarrow> (\<forall>b\<in>set (below @ [emptyQuotation]).
                    nodeId b \<notin> set (ContentIds (document ?after)))"
    unfolding i by blast
  from h h1 h2 have "nestedDoc \<in> set above" by blast
  moreover from b have "\<forall>b\<in>set below. IsElement b \<and> IsBlockElement plainEmptyBlockServices b
               \<longrightarrow> IsEmptyNode plainEmptyBlockServices b"
    by (simp add: IsEmptyBlockToDelete_def)
  moreover from g g1 g2 g3 r have
    "\<forall>b\<in>set (below @ [emptyQuotation]).
       nodeId b \<notin> set (ContentIds (Content 1 (Element ''div'') []))"
    unfolding g4 by blast
  ultimately show ?thesis using s c r by blast
qed

end
